theory Spec2Isabelle
  imports Complex_Main
begin

section \<open>Natal chart engine: a shallow embedding of engines/astrology.py\<close>

text \<open>
  The Python module computes with IEEE doubles. The embedding idealises every
  \<^verbatim>\<open>float\<close> as a \<^typ>\<open>real\<close>: \<^verbatim>\<open>+ - * /\<close> are exact, \<^verbatim>\<open>math.sin\<close>, \<^verbatim>\<open>math.cos\<close>,
  \<^verbatim>\<open>math.tan\<close>, \<^verbatim>\<open>math.sqrt\<close> and \<^verbatim>\<open>math.atan2\<close> are the mathematical functions.
  Python's \<^verbatim>\<open>int\<close> is \<^typ>\<open>int\<close>. Every place where the interpreter raises
  (a missing dictionary key, an index out of range, a division by zero, a square
  root of a negative number, an explicit \<^verbatim>\<open>raise\<close>) is a branch that returns \<open>Inl\<close>.
\<close>

subsection \<open>Python primitives\<close>

datatype py_error =
    ValueError string
  | KeyError string
  | IndexError
  | ZeroDivisionError

text \<open>\<^verbatim>\<open>x % m\<close> on floats for a positive modulus: the result has the sign of \<open>m\<close>.\<close>

definition py_fmod :: "real \<Rightarrow> real \<Rightarrow> real" where
  "py_fmod x m = x - m * of_int \<lfloor>x / m\<rfloor>"

text \<open>\<^verbatim>\<open>int(x)\<close> on a float truncates towards zero.\<close>

definition py_int :: "real \<Rightarrow> int" where
  "py_int x = (if 0 \<le> x then \<lfloor>x\<rfloor> else \<lceil>x\<rceil>)"

text \<open>\<^verbatim>\<open>round(x)\<close> with one argument rounds to the nearest integer, ties to the even one.\<close>

definition py_round :: "real \<Rightarrow> int" where
  "py_round x =
     (let f = \<lfloor>x\<rfloor>; d = x - of_int f
      in if d < 1 / 2 then f
         else if 1 / 2 < d then f + 1
         else if even f then f else f + 1)"

definition py_div :: "real \<Rightarrow> real \<Rightarrow> py_error + real" where
  "py_div x y = (if y = 0 then Inl ZeroDivisionError else Inr (x / y))"

text \<open>\<^verbatim>\<open>math.sqrt\<close> raises \<^verbatim>\<open>ValueError: math domain error\<close> on a negative argument.\<close>

definition py_sqrt :: "real \<Rightarrow> py_error + real" where
  "py_sqrt x = (if x < 0 then Inl (ValueError ''math domain error'') else Inr (sqrt x))"

text \<open>\<^verbatim>\<open>math.atan2(y, x)\<close>: the angle of the point \<open>(x, y)\<close> in \<open>(-pi, pi]\<close>, and 0 at the origin.\<close>

definition atan2 :: "real \<Rightarrow> real \<Rightarrow> real" where
  "atan2 y x =
     (if 0 < x then arctan (y / x)
      else if x < 0 \<and> 0 \<le> y then arctan (y / x) + pi
      else if x < 0 then arctan (y / x) - pi
      else if 0 < y then pi / 2
      else if y < 0 then - (pi / 2)
      else 0)"

text \<open>\<^verbatim>\<open>xs[i]\<close> on a list: a negative index counts from the end, anything else raises.\<close>

definition py_index :: "'a list \<Rightarrow> int \<Rightarrow> py_error + 'a" where
  "py_index xs i =
     (if 0 \<le> i \<and> i < int (length xs) then Inr (xs ! nat i)
      else if i < 0 \<and> - int (length xs) \<le> i then Inr (xs ! nat (int (length xs) + i))
      else Inl IndexError)"

text \<open>Sequencing of computations that may raise.\<close>

definition bind_res :: "py_error + 'a \<Rightarrow> ('a \<Rightarrow> py_error + 'b) \<Rightarrow> py_error + 'b" where
  "bind_res r f = (case r of Inl err \<Rightarrow> Inl err | Inr v \<Rightarrow> f v)"

subsection \<open>Data model (types.py)\<close>

record FeedbackEntry =
  element :: string
  userText :: string
  timestamp :: real

record BirthData =
  year :: int
  month :: int
  day :: "int option"
  hour :: "int option"
  minute :: "int option"
  latitude :: "real option"
  longitude :: "real option"
  timezone :: "real option"

text \<open>
  \<^verbatim>\<open>SignPosition\<close> and \<^verbatim>\<open>PlanetPosition\<close> are two dataclasses that share the field
  names \<^verbatim>\<open>sign\<close>, \<^verbatim>\<open>degrees\<close> and \<^verbatim>\<open>totalDegrees\<close>; the second is modelled as an
  extension of the first so that both keep the names of the source.
\<close>

record SignPosition =
  sign :: string
  degrees :: real
  totalDegrees :: real

record PlanetPosition = SignPosition +
  planet :: string
  house :: int
  retrograde :: bool

record ChartAspect =
  planet1 :: string
  planet2 :: string
  aspectName :: string
  aspectSymbol :: string
  exactDegrees :: real
  actualDegrees :: real
  orb :: real
  nature :: string

record NatalChart =
  sun :: PlanetPosition
  moon :: PlanetPosition
  mercury :: PlanetPosition
  venus :: PlanetPosition
  mars :: PlanetPosition
  jupiter :: PlanetPosition
  saturn :: PlanetPosition
  uranus :: PlanetPosition
  neptune :: PlanetPosition
  pluto :: PlanetPosition
  ascendant :: SignPosition
  midheaven :: SignPosition
  aspects :: "ChartAspect list"
  houseCusps :: "real list"

record AstrologyReadingState =
  birthData :: BirthData
  chart :: NatalChart
  revealedPlanets :: "string list"
  revealedHouses :: "string list"
  userFeedback :: "FeedbackEntry list"

text \<open>
  One entry of \<^verbatim>\<open>data/astrology/aspects.json\<close>, a dictionary with the keys
  \<^verbatim>\<open>name\<close>, \<^verbatim>\<open>symbol\<close>, \<^verbatim>\<open>degrees\<close>, \<^verbatim>\<open>orb\<close> and \<^verbatim>\<open>nature\<close>. The file is
  not part of the sources, so the list of definitions is a parameter of every
  function that reads it. The fields carry the prefix \<open>defn_\<close> because \<open>degrees\<close>,
  \<open>orb\<close> and \<open>nature\<close> are already fields of the records above.
\<close>

record AspectDefinition =
  defn_name :: string
  defn_symbol :: string
  defn_degrees :: real
  defn_orb :: real
  defn_nature :: string

text \<open>
  \<^verbatim>\<open>OrbitalElements\<close>; the fields carry the prefix \<open>el_\<close> (the source has the
  one-letter field \<^verbatim>\<open>a\<close>).
\<close>

record OrbitalElements =
  el_L0 :: real
  el_L1 :: real
  el_a :: real
  el_e0 :: real
  el_e1 :: real
  el_I0 :: real
  el_I1 :: real
  el_W0 :: real
  el_W1 :: real
  el_w0 :: real
  el_w1 :: real

subsection \<open>Constants and sign helper\<close>

definition DEG2RAD :: real where
  "DEG2RAD = pi / 180"

definition RAD2DEG :: real where
  "RAD2DEG = 180 / pi"

definition J2000 :: real where
  "J2000 = 2451545"

definition SIGN_ORDER :: "string list" where
  "SIGN_ORDER =
     [''aries'', ''taurus'', ''gemini'', ''cancer'', ''leo'', ''virgo'',
      ''libra'', ''scorpio'', ''sagittarius'', ''capricorn'', ''aquarius'', ''pisces'']"

definition degrees_to_sign :: "real \<Rightarrow> py_error + SignPosition" where
  "degrees_to_sign total_degrees =
     (let deg0 = py_fmod total_degrees 360;
          deg = (if deg0 < 0 then deg0 + 360 else deg0);
          sign_index = \<lfloor>deg / 30\<rfloor>;
          within_sign = deg - of_int sign_index * 30
      in bind_res (py_index SIGN_ORDER sign_index)
           (\<lambda>s. Inr \<lparr>sign = s, degrees = within_sign, totalDegrees = deg\<rparr>))"

subsection \<open>Orbital elements at J2000.0\<close>

definition elements ::
  "real \<Rightarrow> real \<Rightarrow> real \<Rightarrow> real \<Rightarrow> real \<Rightarrow> real \<Rightarrow> real \<Rightarrow> real \<Rightarrow> real \<Rightarrow> real \<Rightarrow> real
     \<Rightarrow> OrbitalElements" where
  "elements l0 l1 ax ec0 ec1 i0 i1 n0 n1 p0 p1 =
     \<lparr>el_L0 = l0, el_L1 = l1, el_a = ax, el_e0 = ec0, el_e1 = ec1, el_I0 = i0, el_I1 = i1,
      el_W0 = n0, el_W1 = n1, el_w0 = p0, el_w1 = p1\<rparr>"

definition ORBITAL_ELEMENTS :: "string \<rightharpoonup> OrbitalElements" where
  "ORBITAL_ELEMENTS =
     [''mercury'' \<mapsto> elements 252.25032350 149472.67411175 0.38709927 0.20563593 0.00001906
                       7.00497902 (- 0.00594749) 48.33076593 (- 0.12534081) 77.45779628 0.16047689,
      ''venus'' \<mapsto> elements 181.97909950 58517.81538729 0.72333566 0.00677672 (- 0.00004107)
                       3.39467605 (- 0.00078890) 76.67984255 (- 0.27769418) 131.60246718 0.00268329,
      ''earth'' \<mapsto> elements 100.46457166 35999.37244981 1.00000261 0.01671123 (- 0.00004392)
                       0.00001531 (- 0.01294668) 0 0 102.93768193 0.32327364,
      ''mars'' \<mapsto> elements 355.44656299 19140.30268499 1.52371034 0.09339410 0.00007882
                       1.84969142 (- 0.00813131) 49.55953891 (- 0.29257343) 336.05637041 0.44441088,
      ''jupiter'' \<mapsto> elements 34.39644051 3034.74612775 5.20288700 0.04838624 (- 0.00013253)
                       1.30439695 (- 0.00183714) 100.47390909 0.20469106 14.72847983 0.21252668,
      ''saturn'' \<mapsto> elements 49.95424423 1222.49362201 9.53667594 0.05386179 (- 0.00050991)
                       2.48599187 0.00193609 113.66242448 (- 0.28867794) 92.59887831 (- 0.41897216),
      ''uranus'' \<mapsto> elements 313.23810451 428.48202785 19.18916464 0.04725744 (- 0.00004397)
                       0.77263783 (- 0.00242939) 74.01692503 0.04240589 170.95427630 0.40805281,
      ''neptune'' \<mapsto> elements 304.87997031 218.45945325 30.06992276 0.00859048 0.00005105
                       1.77004347 0.00035372 131.78422574 (- 0.01299630) 44.96476227 (- 0.32241464),
      ''pluto'' \<mapsto> elements 238.92903833 145.20780515 39.48211675 0.24882730 0.00005170
                       17.14001206 0.00004818 110.30393684 (- 0.01183482) 224.06891629 (- 0.04062942)]"

subsection \<open>Julian Day, angle normalisation\<close>

text \<open>
  \<^verbatim>\<open>hour\<close> is a real here: \<^verbatim>\<open>calculate_natal_chart\<close> passes \<^verbatim>\<open>hour - timezone\<close>,
  a float. The parameters are named \<open>yr\<close>, \<open>mo\<close>, \<open>dy\<close>, \<open>hr\<close>, \<open>mi\<close> because the
  source's names are fields of \<open>BirthData\<close>.
\<close>

definition to_julian_day :: "int \<Rightarrow> int \<Rightarrow> int \<Rightarrow> real \<Rightarrow> int \<Rightarrow> real" where
  "to_julian_day yr mo dy hr mi =
     (let y = (if mo \<le> 2 then yr - 1 else yr);
          m = (if mo \<le> 2 then mo + 12 else mo);
          A = y div 100;
          B = 2 - A + A div 4;
          day_fraction = (hr + of_int mi / 60) / 24
      in of_int (py_int (365.25 * of_int (y + 4716)))
         + of_int (py_int (30.6001 * of_int (m + 1)))
         + of_int dy
         + day_fraction
         + of_int B
         - 1524.5)"

definition julian_centuries :: "real \<Rightarrow> real" where
  "julian_centuries jd = (jd - J2000) / 36525"

definition norm_deg :: "real \<Rightarrow> real" where
  "norm_deg deg = (if 0 \<le> deg then py_fmod deg 360 else py_fmod (py_fmod deg 360 + 360) 360)"

subsection \<open>Kepler's equation\<close>

text \<open>
  The \<^verbatim>\<open>for _ in range(50)\<close> loop of \<^verbatim>\<open>solve_kepler\<close>; the first argument counts the
  iterations that remain.
\<close>

fun kepler_iterate :: "nat \<Rightarrow> real \<Rightarrow> real \<Rightarrow> real \<Rightarrow> py_error + real" where
  "kepler_iterate 0 M e E = Inr E"
| "kepler_iterate (Suc n) M e E =
     (case py_div (E - e * sin E - M) (1 - e * cos E) of
        Inl err \<Rightarrow> Inl err
      | Inr dE \<Rightarrow>
          if \<bar>dE\<bar> < 1 / 10 ^ 12 then Inr (E - dE)
          else kepler_iterate n M e (E - dE))"

definition solve_kepler :: "real \<Rightarrow> real \<Rightarrow> py_error + real" where
  "solve_kepler M e = kepler_iterate 50 M e M"

subsection \<open>Heliocentric and geocentric longitude\<close>

definition heliocentric_longitude :: "string \<Rightarrow> real \<Rightarrow> py_error + real" where
  "heliocentric_longitude planet_id jd =
     (case ORBITAL_ELEMENTS planet_id of
        None \<Rightarrow> Inl (ValueError (''No orbital elements for: '' @ planet_id))
      | Some el \<Rightarrow>
          let T = julian_centuries jd;
              L = norm_deg (el_L0 el + el_L1 el * T);
              e = el_e0 el + el_e1 el * T;
              w = norm_deg (el_w0 el + el_w1 el * T);
              W = norm_deg (el_W0 el + el_W1 el * T);
              I = el_I0 el + el_I1 el * T;
              M = norm_deg (L - w);
              M_rad = M * DEG2RAD
          in bind_res (solve_kepler M_rad e) (\<lambda>E.
             bind_res (py_sqrt (1 - e * e)) (\<lambda>root.
             bind_res (py_div (root * sin E) (1 - e * cos E)) (\<lambda>sin_v.
             bind_res (py_div (cos E - e) (1 - e * cos E)) (\<lambda>cos_v.
               let v = atan2 sin_v cos_v * RAD2DEG;
                   l_helio = norm_deg (v + w - W);
                   I_rad = I * DEG2RAD;
                   l_helio_rad = l_helio * DEG2RAD
               in Inr (norm_deg
                    (atan2 (sin l_helio_rad * cos I_rad) (cos l_helio_rad) * RAD2DEG + W)))))))"

text \<open>
  \<^verbatim>\<open>ORBITAL_ELEMENTS[planet_id]\<close> is a subscript, which raises \<^verbatim>\<open>KeyError\<close> on a
  missing key.
\<close>

definition elements_of :: "string \<Rightarrow> py_error + OrbitalElements" where
  "elements_of planet_id =
     (case ORBITAL_ELEMENTS planet_id of None \<Rightarrow> Inl (KeyError planet_id) | Some el \<Rightarrow> Inr el)"

definition geocentric_longitude :: "string \<Rightarrow> real \<Rightarrow> py_error + real" where
  "geocentric_longitude planet_id jd =
     (if planet_id = ''earth'' then Inl (ValueError ''Cannot compute geocentric longitude of Earth'')
      else
        let T = julian_centuries jd
        in bind_res (elements_of ''earth'') (\<lambda>earth_el.
           let earth_L = norm_deg (el_L0 earth_el + el_L1 earth_el * T);
               earth_e = el_e0 earth_el + el_e1 earth_el * T;
               earth_w = norm_deg (el_w0 earth_el + el_w1 earth_el * T);
               earth_M = norm_deg (earth_L - earth_w) * DEG2RAD
           in bind_res (solve_kepler earth_M earth_e) (\<lambda>earth_ecc.
              bind_res (py_sqrt (1 - earth_e * earth_e)) (\<lambda>earth_root.
              let earth_V = atan2 (earth_root * sin earth_ecc) (cos earth_ecc - earth_e) * RAD2DEG;
                  earth_helio_lon = norm_deg (earth_V + earth_w);
                  earth_R = el_a earth_el * (1 - earth_e * cos earth_ecc)
              in bind_res (elements_of planet_id) (\<lambda>p_el.
                 let p_L = norm_deg (el_L0 p_el + el_L1 p_el * T);
                     p_e = el_e0 p_el + el_e1 p_el * T;
                     p_w = norm_deg (el_w0 p_el + el_w1 p_el * T);
                     p_M = norm_deg (p_L - p_w) * DEG2RAD
                 in bind_res (solve_kepler p_M p_e) (\<lambda>p_ecc.
                    bind_res (py_sqrt (1 - p_e * p_e)) (\<lambda>p_root.
                    let p_V = atan2 (p_root * sin p_ecc) (cos p_ecc - p_e) * RAD2DEG;
                        p_helio_lon = norm_deg (p_V + p_w);
                        p_R = el_a p_el * (1 - p_e * cos p_ecc);
                        p_helio_rad = p_helio_lon * DEG2RAD;
                        earth_helio_rad = earth_helio_lon * DEG2RAD;
                        x = p_R * cos p_helio_rad - earth_R * cos earth_helio_rad;
                        y = p_R * sin p_helio_rad - earth_R * sin earth_helio_rad
                    in Inr (norm_deg (atan2 y x * RAD2DEG)))))))))"

subsection \<open>Sun and Moon longitude\<close>

definition sun_longitude :: "real \<Rightarrow> real" where
  "sun_longitude jd =
     (let T = julian_centuries jd;
          L_mean = norm_deg (280.46646 + 36000.76983 * T + 0.0003032 * T * T);
          M = norm_deg (357.52911 + 35999.05029 * T - 0.0001537 * T * T);
          M_rad = M * DEG2RAD;
          C = (1.914602 - 0.004817 * T - 0.000014 * T * T) * sin M_rad
              + (0.019993 - 0.000101 * T) * sin (2 * M_rad)
              + 0.000289 * sin (3 * M_rad);
          sun_true_lon = norm_deg (L_mean + C);
          omega = 125.04 - 1934.136 * T;
          apparent = sun_true_lon - 0.00569 - 0.00478 * sin (omega * DEG2RAD)
      in norm_deg apparent)"

definition moon_longitude :: "real \<Rightarrow> real" where
  "moon_longitude jd =
     (let T = julian_centuries jd;
          Lp = norm_deg (218.3164477 + 481267.88123421 * T - 0.0015786 * T * T
                 + T * T * T / 538841 - T * T * T * T / 65194000);
          D = norm_deg (297.8501921 + 445267.1114034 * T - 0.0018819 * T * T
                 + T * T * T / 545868 - T * T * T * T / 113065000);
          M = norm_deg (357.5291092 + 35999.0502909 * T - 0.0001536 * T * T
                 + T * T * T / 24490000);
          Mp = norm_deg (134.9633964 + 477198.8675055 * T + 0.0087414 * T * T
                 + T * T * T / 69699 - T * T * T * T / 14712000);
          F = norm_deg (93.2720950 + 483202.0175233 * T - 0.0036539 * T * T
                 - T * T * T / 3526000 + T * T * T * T / 863310000);
          D_rad = D * DEG2RAD;
          M_rad = M * DEG2RAD;
          Mp_rad = Mp * DEG2RAD;
          F_rad = F * DEG2RAD;
          sum_L = 0
            + 6288774 * sin Mp_rad
            + 1274027 * sin (2 * D_rad - Mp_rad)
            + 658314 * sin (2 * D_rad)
            + 213618 * sin (2 * Mp_rad)
            + - 185116 * sin M_rad
            + - 114332 * sin (2 * F_rad)
            + 58793 * sin (2 * D_rad - 2 * Mp_rad)
            + 57066 * sin (2 * D_rad - M_rad - Mp_rad)
            + 53322 * sin (2 * D_rad + Mp_rad)
            + 45758 * sin (2 * D_rad - M_rad)
            + - 40923 * sin (M_rad - Mp_rad)
            + - 34720 * sin D_rad
            + - 30383 * sin (M_rad + Mp_rad)
            + 15327 * sin (2 * D_rad - 2 * F_rad)
            + - 12528 * sin (Mp_rad + 2 * F_rad)
            + 10980 * sin (Mp_rad - 2 * F_rad)
            + 10675 * sin (4 * D_rad - Mp_rad)
            + 10034 * sin (3 * Mp_rad)
            + 8548 * sin (4 * D_rad - 2 * Mp_rad)
            + - 7888 * sin (2 * D_rad + M_rad - Mp_rad)
            + - 6766 * sin (2 * D_rad + M_rad)
            + - 5163 * sin (D_rad - Mp_rad)
            + 4987 * sin (D_rad + M_rad)
            + 4036 * sin (2 * D_rad - M_rad + Mp_rad)
      in norm_deg (Lp + sum_L / 1000000))"

subsection \<open>Retrograde detection, obliquity, sidereal time, angles of the chart\<close>

definition is_retrograde :: "string \<Rightarrow> real \<Rightarrow> py_error + bool" where
  "is_retrograde planet_id jd =
     (if planet_id = ''sun'' \<or> planet_id = ''moon'' then Inr False
      else
        bind_res (geocentric_longitude planet_id (jd - 1)) (\<lambda>lon_before.
        bind_res (geocentric_longitude planet_id (jd + 1)) (\<lambda>lon_after.
          let diff0 = lon_after - lon_before;
              diff1 = (if 180 < diff0 then diff0 - 360 else diff0);
              diff2 = (if diff1 < - 180 then diff1 + 360 else diff1)
          in Inr (diff2 < 0))))"

definition obliquity :: "real \<Rightarrow> real" where
  "obliquity jd =
     (let T = julian_centuries jd
      in 23.4392911 - 0.0130042 * T - 0.000000164 * T * T + 0.0000005036 * T * T * T)"

definition local_sidereal_time :: "real \<Rightarrow> real \<Rightarrow> real" where
  "local_sidereal_time jd lon_deg =
     (let T = julian_centuries jd;
          gmst = norm_deg (280.46061837 + 360.98564736629 * (jd - J2000)
                   + 0.000387933 * T * T - T * T * T / 38710000)
      in norm_deg (gmst + lon_deg))"

definition compute_ascendant :: "real \<Rightarrow> real \<Rightarrow> real \<Rightarrow> real" where
  "compute_ascendant lst_deg lat_deg obl_deg =
     (let lst_rad = lst_deg * DEG2RAD;
          lat_rad = lat_deg * DEG2RAD;
          obl_rad = obl_deg * DEG2RAD;
          y = - cos lst_rad;
          x = sin obl_rad * tan lat_rad + cos obl_rad * sin lst_rad;
          asc = atan2 y x * RAD2DEG
      in norm_deg asc)"

definition compute_midheaven :: "real \<Rightarrow> real \<Rightarrow> real" where
  "compute_midheaven lst_deg obl_deg =
     (let lst_rad = lst_deg * DEG2RAD;
          obl_rad = obl_deg * DEG2RAD;
          mc = atan2 (sin lst_rad) (cos lst_rad * cos obl_rad) * RAD2DEG
      in norm_deg mc)"

subsection \<open>House cusps (equal house system)\<close>

definition equal_house_cusps :: "real \<Rightarrow> real list" where
  "equal_house_cusps asc_deg = map (\<lambda>i. norm_deg (asc_deg + real i * 30)) [0..<12]"

text \<open>The test of one consecutive cusp pair in the loop of \<^verbatim>\<open>_house_for_longitude\<close>.\<close>

definition cusp_pair_matches :: "real \<Rightarrow> real \<Rightarrow> real \<Rightarrow> bool" where
  "cusp_pair_matches lon cusp next_cusp =
     (if cusp < next_cusp then cusp \<le> lon \<and> lon < next_cusp
      else cusp \<le> lon \<or> lon < next_cusp)"

text \<open>
  The loop \<^verbatim>\<open>for i in range(12)\<close> over the indices still to visit: \<open>Inr (Some h)\<close> is a
  \<^verbatim>\<open>return i + 1\<close> inside the loop, \<open>Inr None\<close> is the loop running to its end.
\<close>

fun house_scan :: "nat list \<Rightarrow> real \<Rightarrow> real list \<Rightarrow> py_error + int option" where
  "house_scan [] lon cusps = Inr None"
| "house_scan (i # rest) lon cusps =
     (case py_index cusps (int i) of
        Inl err \<Rightarrow> Inl err
      | Inr cusp \<Rightarrow>
          (case py_index cusps (int ((i + 1) mod 12)) of
             Inl err \<Rightarrow> Inl err
           | Inr next_cusp \<Rightarrow>
               if cusp_pair_matches lon cusp next_cusp then Inr (Some (int i + 1))
               else house_scan rest lon cusps))"

definition house_for_longitude :: "real \<Rightarrow> real list \<Rightarrow> py_error + int" where
  "house_for_longitude lon cusps =
     (case house_scan [0..<12] lon cusps of
        Inl err \<Rightarrow> Inl err
      | Inr (Some h) \<Rightarrow> Inr h
      | Inr None \<Rightarrow> Inr 1)"

subsection \<open>Aspects\<close>

definition separation_of :: "PlanetPosition \<Rightarrow> PlanetPosition \<Rightarrow> real" where
  "separation_of p1 p2 =
     (let s = \<bar>totalDegrees p1 - totalDegrees p2\<bar>
      in if 180 < s then 360 - s else s)"

text \<open>The innermost loop \<^verbatim>\<open>for defn in definitions\<close>, appending to \<open>acc\<close>.\<close>

fun aspects_of_pair ::
  "AspectDefinition list \<Rightarrow> PlanetPosition \<Rightarrow> PlanetPosition \<Rightarrow> ChartAspect list
     \<Rightarrow> ChartAspect list" where
  "aspects_of_pair [] p1 p2 acc = acc"
| "aspects_of_pair (defn # rest) p1 p2 acc =
     (let separation = separation_of p1 p2;
          orb_distance = \<bar>separation - defn_degrees defn\<bar>
      in if orb_distance \<le> defn_orb defn
         then aspects_of_pair rest p1 p2
                (acc @ [\<lparr>planet1 = planet p1, planet2 = planet p2,
                          aspectName = defn_name defn, aspectSymbol = defn_symbol defn,
                          exactDegrees = defn_degrees defn, actualDegrees = separation,
                          orb = of_int (py_round (orb_distance * 100)) / 100,
                          nature = defn_nature defn\<rparr>])
         else aspects_of_pair rest p1 p2 acc)"

text \<open>The loop \<^verbatim>\<open>for j in range(i + 1, len(positions))\<close>, over the positions after \<open>p1\<close>.\<close>

fun aspects_inner ::
  "AspectDefinition list \<Rightarrow> PlanetPosition \<Rightarrow> PlanetPosition list \<Rightarrow> ChartAspect list
     \<Rightarrow> ChartAspect list" where
  "aspects_inner definitions p1 [] acc = acc"
| "aspects_inner definitions p1 (p2 # later) acc =
     aspects_inner definitions p1 later (aspects_of_pair definitions p1 p2 acc)"

text \<open>The loop \<^verbatim>\<open>for i in range(len(positions))\<close>.\<close>

fun aspects_outer ::
  "AspectDefinition list \<Rightarrow> PlanetPosition list \<Rightarrow> ChartAspect list \<Rightarrow> ChartAspect list" where
  "aspects_outer definitions [] acc = acc"
| "aspects_outer definitions (p1 # later) acc =
     aspects_outer definitions later (aspects_inner definitions p1 later acc)"

text \<open>\<^verbatim>\<open>list.sort(key=...)\<close> is a stable sort; \<open>sort_key\<close> is the stable insertion sort.\<close>

definition calculate_aspects ::
  "AspectDefinition list \<Rightarrow> PlanetPosition list \<Rightarrow> ChartAspect list" where
  "calculate_aspects definitions positions = sort_key orb (aspects_outer definitions positions [])"

subsection \<open>Planet positions and the chart\<close>

definition build_position ::
  "string \<Rightarrow> real \<Rightarrow> real list \<Rightarrow> bool \<Rightarrow> py_error + PlanetPosition" where
  "build_position planet_name lon house_cusps retro =
     bind_res (degrees_to_sign lon) (\<lambda>sign_pos.
     bind_res (house_for_longitude lon house_cusps) (\<lambda>h.
       Inr \<lparr>sign = sign sign_pos,
            degrees = of_int (py_round (degrees sign_pos * 100)) / 100,
            totalDegrees = of_int (py_round (totalDegrees sign_pos * 100)) / 100,
            planet = planet_name, house = h, retrograde = retro\<rparr>))"

text \<open>
  The Julian Day of a birth, with the defaults for the fields that are \<^verbatim>\<open>None\<close>: the first
  lines of \<^verbatim>\<open>calculate_natal_chart\<close>, up to \<^verbatim>\<open>jd = to_julian_day(...)\<close>.
\<close>

definition birth_julian_day :: "BirthData \<Rightarrow> real" where
  "birth_julian_day birth_data =
     (let dy = (case day birth_data of Some d \<Rightarrow> d | None \<Rightarrow> 1);
          hr = (case hour birth_data of Some h \<Rightarrow> h | None \<Rightarrow> 12);
          mi = (case minute birth_data of Some m \<Rightarrow> m | None \<Rightarrow> 0);
          tz = (case timezone birth_data of Some v \<Rightarrow> v | None \<Rightarrow> 0);
          ut_hour = of_int hr - tz;
          ut_minute = mi
      in to_julian_day (year birth_data) (month birth_data) dy ut_hour ut_minute)"

definition calculate_natal_chart :: "AspectDefinition list \<Rightarrow> BirthData \<Rightarrow> py_error + NatalChart" where
  "calculate_natal_chart definitions birth_data =
     (let lat = (case latitude birth_data of Some v \<Rightarrow> v | None \<Rightarrow> 0);
          longitude_geo = (case longitude birth_data of Some v \<Rightarrow> v | None \<Rightarrow> 0);
          jd = birth_julian_day birth_data;
          obl = obliquity jd;
          lst = local_sidereal_time jd longitude_geo;
          asc_deg = compute_ascendant lst lat obl;
          mc_deg = compute_midheaven lst obl;
          cusps = equal_house_cusps asc_deg;
          sun_lon = sun_longitude jd;
          moon_lon = moon_longitude jd
      in bind_res (geocentric_longitude ''mercury'' jd) (\<lambda>mercury_lon.
         bind_res (geocentric_longitude ''venus'' jd) (\<lambda>venus_lon.
         bind_res (geocentric_longitude ''mars'' jd) (\<lambda>mars_lon.
         bind_res (geocentric_longitude ''jupiter'' jd) (\<lambda>jupiter_lon.
         bind_res (geocentric_longitude ''saturn'' jd) (\<lambda>saturn_lon.
         bind_res (geocentric_longitude ''uranus'' jd) (\<lambda>uranus_lon.
         bind_res (geocentric_longitude ''neptune'' jd) (\<lambda>neptune_lon.
         bind_res (geocentric_longitude ''pluto'' jd) (\<lambda>pluto_lon.
         bind_res (build_position ''sun'' sun_lon cusps False) (\<lambda>sun_pos.
         bind_res (build_position ''moon'' moon_lon cusps False) (\<lambda>moon_pos.
         bind_res (is_retrograde ''mercury'' jd) (\<lambda>mercury_retro.
         bind_res (build_position ''mercury'' mercury_lon cusps mercury_retro) (\<lambda>mercury_pos.
         bind_res (is_retrograde ''venus'' jd) (\<lambda>venus_retro.
         bind_res (build_position ''venus'' venus_lon cusps venus_retro) (\<lambda>venus_pos.
         bind_res (is_retrograde ''mars'' jd) (\<lambda>mars_retro.
         bind_res (build_position ''mars'' mars_lon cusps mars_retro) (\<lambda>mars_pos.
         bind_res (is_retrograde ''jupiter'' jd) (\<lambda>jupiter_retro.
         bind_res (build_position ''jupiter'' jupiter_lon cusps jupiter_retro) (\<lambda>jupiter_pos.
         bind_res (is_retrograde ''saturn'' jd) (\<lambda>saturn_retro.
         bind_res (build_position ''saturn'' saturn_lon cusps saturn_retro) (\<lambda>saturn_pos.
         bind_res (is_retrograde ''uranus'' jd) (\<lambda>uranus_retro.
         bind_res (build_position ''uranus'' uranus_lon cusps uranus_retro) (\<lambda>uranus_pos.
         bind_res (is_retrograde ''neptune'' jd) (\<lambda>neptune_retro.
         bind_res (build_position ''neptune'' neptune_lon cusps neptune_retro) (\<lambda>neptune_pos.
         bind_res (is_retrograde ''pluto'' jd) (\<lambda>pluto_retro.
         bind_res (build_position ''pluto'' pluto_lon cusps pluto_retro) (\<lambda>pluto_pos.
         bind_res (degrees_to_sign asc_deg) (\<lambda>asc_pos.
         bind_res (degrees_to_sign mc_deg) (\<lambda>mc_pos.
           let all_positions = [sun_pos, moon_pos, mercury_pos, venus_pos, mars_pos,
                                jupiter_pos, saturn_pos, uranus_pos, neptune_pos, pluto_pos]
           in Inr \<lparr>sun = sun_pos, moon = moon_pos, mercury = mercury_pos, venus = venus_pos,
                   mars = mars_pos, jupiter = jupiter_pos, saturn = saturn_pos,
                   uranus = uranus_pos, neptune = neptune_pos, pluto = pluto_pos,
                   ascendant = asc_pos, midheaven = mc_pos,
                   aspects = calculate_aspects definitions all_positions,
                   houseCusps = cusps\<rparr>)))))))))))))))))))))))))))))"

text \<open>The list \<^verbatim>\<open>all_positions\<close> of \<^verbatim>\<open>calculate_natal_chart\<close>, read back from a chart.\<close>

definition planet_positions :: "NatalChart \<Rightarrow> PlanetPosition list" where
  "planet_positions ch =
     [sun ch, moon ch, mercury ch, venus ch, mars ch,
      jupiter ch, saturn ch, uranus ch, neptune ch, pluto ch]"

subsection \<open>The reading state machine (class AstrologyEngine)\<close>

definition DEFAULT_REVEAL_ORDER :: "string list" where
  "DEFAULT_REVEAL_ORDER =
     [''sun'', ''moon'', ''ascendant'', ''mercury'', ''venus'', ''mars'',
      ''jupiter'', ''saturn'', ''uranus'', ''neptune'', ''pluto'']"

definition start_reading :: "AspectDefinition list \<Rightarrow> BirthData \<Rightarrow> py_error + AstrologyReadingState" where
  "start_reading definitions birth_data =
     bind_res (calculate_natal_chart definitions birth_data) (\<lambda>ch.
       Inr \<lparr>birthData = birth_data, chart = ch, revealedPlanets = [],
            revealedHouses = [], userFeedback = []\<rparr>)"

text \<open>
  What \<^verbatim>\<open>getattr(chart, planet_id, None)\<close> can return for a dataclass field of
  \<^verbatim>\<open>NatalChart\<close>; a name that is no field gives \<^verbatim>\<open>None\<close> (the attributes every
  Python object has, such as \<^verbatim>\<open>__class__\<close>, are left out).
\<close>

datatype ChartValue =
    PlanetValue PlanetPosition
  | SignValue SignPosition
  | AspectsValue "ChartAspect list"
  | CuspsValue "real list"

definition chart_getattr :: "NatalChart \<Rightarrow> string \<Rightarrow> ChartValue option" where
  "chart_getattr ch attr =
     (if attr = ''sun'' then Some (PlanetValue (sun ch))
      else if attr = ''moon'' then Some (PlanetValue (moon ch))
      else if attr = ''mercury'' then Some (PlanetValue (mercury ch))
      else if attr = ''venus'' then Some (PlanetValue (venus ch))
      else if attr = ''mars'' then Some (PlanetValue (mars ch))
      else if attr = ''jupiter'' then Some (PlanetValue (jupiter ch))
      else if attr = ''saturn'' then Some (PlanetValue (saturn ch))
      else if attr = ''uranus'' then Some (PlanetValue (uranus ch))
      else if attr = ''neptune'' then Some (PlanetValue (neptune ch))
      else if attr = ''pluto'' then Some (PlanetValue (pluto ch))
      else if attr = ''ascendant'' then Some (SignValue (ascendant ch))
      else if attr = ''midheaven'' then Some (SignValue (midheaven ch))
      else if attr = ''aspects'' then Some (AspectsValue (aspects ch))
      else if attr = ''houseCusps'' then Some (CuspsValue (houseCusps ch))
      else None)"

definition get_chart_position :: "string \<Rightarrow> NatalChart \<Rightarrow> ChartValue option" where
  "get_chart_position planet_id ch =
     (if planet_id = ''ascendant'' then
        Some (PlanetValue \<lparr>sign = sign (ascendant ch), degrees = degrees (ascendant ch),
                            totalDegrees = totalDegrees (ascendant ch),
                            planet = ''ascendant'', house = 1, retrograde = False\<rparr>)
      else if planet_id = ''midheaven'' then
        Some (PlanetValue \<lparr>sign = sign (midheaven ch), degrees = degrees (midheaven ch),
                            totalDegrees = totalDegrees (midheaven ch),
                            planet = ''midheaven'', house = 10, retrograde = False\<rparr>)
      else chart_getattr ch planet_id)"

text \<open>
  \<^verbatim>\<open>get_next_reveal\<close> returns the dictionary \<^verbatim>\<open>{"planet": ..., "position": ...}\<close>, here
  a pair, or \<^verbatim>\<open>None\<close>. The loop over \<^verbatim>\<open>DEFAULT_REVEAL_ORDER\<close> that returns at the
  first identifier not in the set of revealed ones is \<open>find\<close>.
\<close>

definition get_next_reveal :: "AstrologyReadingState \<Rightarrow> (string \<times> ChartValue option) option" where
  "get_next_reveal state =
     (let revealed = set (revealedPlanets state)
      in case find (\<lambda>planet_id. planet_id \<notin> revealed) DEFAULT_REVEAL_ORDER of
           None \<Rightarrow> None
         | Some planet_id \<Rightarrow> Some (planet_id, get_chart_position planet_id (chart state)))"

definition record_feedback ::
  "AstrologyReadingState \<Rightarrow> string \<Rightarrow> FeedbackEntry \<Rightarrow> AstrologyReadingState" where
  "record_feedback state planet_id feedback =
     \<lparr>birthData = birthData state, chart = chart state,
      revealedPlanets = revealedPlanets state @ [planet_id],
      revealedHouses = revealedHouses state,
      userFeedback = userFeedback state @ [feedback]\<rparr>"

definition is_complete :: "AstrologyReadingState \<Rightarrow> bool" where
  "is_complete state = (length DEFAULT_REVEAL_ORDER \<le> length (revealedPlanets state))"

text \<open>
  The reveal cycle as tests/test_astrology.py drives it:
  \<^verbatim>\<open>while True: reveal = get_next_reveal(state); if reveal is None: break;
  state = record_feedback(state, reveal["planet"], feedback); count += 1\<close>.
  The loop has no bound of its own, so the model takes fuel and returns \<open>None\<close>
  when the fuel runs out before the loop breaks. \<open>fb\<close> makes the feedback entry
  for a planet.
\<close>

fun reveal_cycle ::
  "nat \<Rightarrow> (string \<Rightarrow> FeedbackEntry) \<Rightarrow> AstrologyReadingState \<Rightarrow> nat
     \<Rightarrow> (AstrologyReadingState \<times> nat) option" where
  "reveal_cycle 0 fb state count = None"
| "reveal_cycle (Suc fuel) fb state count =
     (case get_next_reveal state of
        None \<Rightarrow> Some (state, count)
      | Some (planet_id, position) \<Rightarrow>
          reveal_cycle fuel fb (record_feedback state planet_id (fb planet_id)) (count + 1))"

text \<open>The state after \<open>n\<close> turns of that loop (fewer when the loop breaks before).\<close>

fun cycle_steps ::
  "nat \<Rightarrow> (string \<Rightarrow> FeedbackEntry) \<Rightarrow> AstrologyReadingState \<Rightarrow> AstrologyReadingState" where
  "cycle_steps 0 fb state = state"
| "cycle_steps (Suc n) fb state =
     (case get_next_reveal state of
        None \<Rightarrow> state
      | Some (planet_id, position) \<Rightarrow>
          cycle_steps n fb (record_feedback state planet_id (fb planet_id)))"

subsection \<open>The aspect calculator in the words of the specification\<close>

text \<open>
  Section 4.8 of the specification, written down independently of the loops above, to be
  compared with them: the separation of two longitudes is \<open>|lon1 - lon2|\<close> folded to at most
  180; a definition matches a pair when the separation is within its orb tolerance of its exact
  angle; every matching combination of an unordered pair and a definition gives one aspect
  whose orb is the deviation rounded to two decimals; the combinations are taken in pair order,
  then definition order.
\<close>

definition spec_separation :: "real \<Rightarrow> real \<Rightarrow> real" where
  "spec_separation lon1 lon2 =
     (if \<bar>lon1 - lon2\<bar> \<le> 180 then \<bar>lon1 - lon2\<bar> else 360 - \<bar>lon1 - lon2\<bar>)"

definition spec_deviation :: "AspectDefinition \<Rightarrow> PlanetPosition \<Rightarrow> PlanetPosition \<Rightarrow> real" where
  "spec_deviation defn p1 p2 =
     \<bar>spec_separation (totalDegrees p1) (totalDegrees p2) - defn_degrees defn\<bar>"

definition spec_matches :: "AspectDefinition \<Rightarrow> PlanetPosition \<Rightarrow> PlanetPosition \<Rightarrow> bool" where
  "spec_matches defn p1 p2 = (spec_deviation defn p1 p2 \<le> defn_orb defn)"

definition spec_aspect :: "AspectDefinition \<Rightarrow> PlanetPosition \<Rightarrow> PlanetPosition \<Rightarrow> ChartAspect" where
  "spec_aspect defn p1 p2 =
     \<lparr>planet1 = planet p1, planet2 = planet p2,
      aspectName = defn_name defn, aspectSymbol = defn_symbol defn,
      exactDegrees = defn_degrees defn,
      actualDegrees = spec_separation (totalDegrees p1) (totalDegrees p2),
      orb = of_int (py_round (spec_deviation defn p1 p2 * 100)) / 100,
      nature = defn_nature defn\<rparr>"

text \<open>The unordered pairs of a list: each element with each later one, in that order.\<close>

fun unordered_pairs :: "'a list \<Rightarrow> ('a \<times> 'a) list" where
  "unordered_pairs [] = []"
| "unordered_pairs (x # xs) = map (Pair x) xs @ unordered_pairs xs"

definition spec_discovery ::
  "AspectDefinition list \<Rightarrow> PlanetPosition list \<Rightarrow> ChartAspect list" where
  "spec_discovery definitions positions =
     map (\<lambda>((p1, p2), defn). spec_aspect defn p1 p2)
       (filter (\<lambda>((p1, p2), defn). spec_matches defn p1 p2)
          (List.product (unordered_pairs positions) definitions))"

subsection \<open>The geocentric conversion in the words of the specification\<close>

text \<open>
  Section 4.3 of the specification, to be compared with \<open>geocentric_longitude\<close>. For one body
  at \<open>T\<close> Julian centuries: the current elements (step 1), the mean anomaly and the eccentric
  anomaly \<open>E\<close> from the Kepler solver (step 2), the true anomaly (step 3), a heliocentric
  longitude, the radius \<open>R = a (1 - e cos E)\<close> and the point \<open>(R cos lon, R sin lon)\<close>. The
  heliocentric longitude is a parameter \<open>lon_of v w W\<close>, so that the same text serves for step 4
  as the specification has it, \<open>norm(v + w - W)\<close>, and for the longitude without the node
  term, \<open>norm(v + w)\<close>.
\<close>

definition eccentricity_at :: "OrbitalElements \<Rightarrow> real \<Rightarrow> real" where
  "eccentricity_at el T = el_e0 el + el_e1 el * T"

definition true_anomaly_deg :: "OrbitalElements \<Rightarrow> real \<Rightarrow> real \<Rightarrow> real" where
  "true_anomaly_deg el T E =
     atan2 (sqrt (1 - eccentricity_at el T * eccentricity_at el T) * sin E)
           (cos E - eccentricity_at el T) * RAD2DEG"

definition orbit_radius :: "OrbitalElements \<Rightarrow> real \<Rightarrow> real \<Rightarrow> real" where
  "orbit_radius el T E = el_a el * (1 - eccentricity_at el T * cos E)"

definition cartesian :: "real \<Rightarrow> real \<Rightarrow> real \<times> real" where
  "cartesian R lon = (R * cos (lon * DEG2RAD), R * sin (lon * DEG2RAD))"

definition body_position ::
  "(real \<Rightarrow> real \<Rightarrow> real \<Rightarrow> real) \<Rightarrow> OrbitalElements \<Rightarrow> real \<Rightarrow> py_error + real \<times> real" where
  "body_position lon_of el T =
     (let L = norm_deg (el_L0 el + el_L1 el * T);
          e = eccentricity_at el T;
          w = norm_deg (el_w0 el + el_w1 el * T);
          W = norm_deg (el_W0 el + el_W1 el * T);
          M = norm_deg (L - w) * DEG2RAD
      in bind_res (solve_kepler M e) (\<lambda>E.
         bind_res (py_sqrt (1 - e * e)) (\<lambda>root.
           Inr (cartesian (orbit_radius el T E) (lon_of (true_anomaly_deg el T E) w W)))))"

definition spec_plane_longitude :: "real \<Rightarrow> real \<Rightarrow> real \<Rightarrow> real" where
  "spec_plane_longitude v w W = norm_deg (v + w - W)"

definition perihelion_longitude :: "real \<Rightarrow> real \<Rightarrow> real \<Rightarrow> real" where
  "perihelion_longitude v w W = norm_deg (v + w)"

text \<open>
  Step 6: the Earth's point, then the planet's, and the normalised direction from the one to
  the other, failing where \<open>geocentric_longitude\<close> fails.
\<close>

definition geocentric_from ::
  "(real \<Rightarrow> real \<Rightarrow> real \<Rightarrow> real) \<Rightarrow> string \<Rightarrow> real \<Rightarrow> py_error + real" where
  "geocentric_from lon_of planet_id jd =
     (if planet_id = ''earth'' then Inl (ValueError ''Cannot compute geocentric longitude of Earth'')
      else
        bind_res (elements_of ''earth'') (\<lambda>earth_el.
        bind_res (body_position lon_of earth_el (julian_centuries jd)) (\<lambda>earth_xy.
        bind_res (elements_of planet_id) (\<lambda>p_el.
        bind_res (body_position lon_of p_el (julian_centuries jd)) (\<lambda>planet_xy.
          Inr (norm_deg (atan2 (snd planet_xy - snd earth_xy) (fst planet_xy - fst earth_xy)
                          * RAD2DEG)))))))"

subsection \<open>Auxiliary notions for the statements about stored positions\<close>

text \<open>
  The invariant of a stored position as the data model of the specification words it, read on
  the fields as they are stored: the total longitude in \<open>[0, 360)\<close>, the degrees within the
  sign in \<open>[0, 30)\<close>, the sign the entry of \<open>SIGN_ORDER\<close> at \<open>floor(total / 30)\<close>, the degrees
  equal to \<open>total - 30 floor(total / 30)\<close>, and the house between 1 and 12.
\<close>

definition stored_position_invariant :: "PlanetPosition \<Rightarrow> bool" where
  "stored_position_invariant p =
     (0 \<le> totalDegrees p \<and> totalDegrees p < 360
      \<and> 0 \<le> degrees p \<and> degrees p < 30
      \<and> py_index SIGN_ORDER \<lfloor>totalDegrees p / 30\<rfloor> = Inr (sign p)
      \<and> degrees p = totalDegrees p - 30 * of_int \<lfloor>totalDegrees p / 30\<rfloor>
      \<and> 1 \<le> house p \<and> house p \<le> 12)"

text \<open>
  The Sun's apparent longitude of \<open>sun_longitude\<close> as a function of the Julian centuries \<open>T\<close>,
  with every intermediate normalisation left out; \<open>sun_longitude\<close> is its normalisation.
\<close>

definition sun_apparent_unnormalised :: "real \<Rightarrow> real" where
  "sun_apparent_unnormalised T =
     (let M_rad = (357.52911 + 35999.05029 * T - 0.0001537 * T * T) * DEG2RAD
      in 280.46646 + 36000.76983 * T + 0.0003032 * T * T
         + ((1.914602 - 0.004817 * T - 0.000014 * T * T) * sin M_rad
            + (0.019993 - 0.000101 * T) * sin (2 * M_rad)
            + 0.000289 * sin (3 * M_rad))
         - 0.00569 - 0.00478 * sin ((125.04 - 1934.136 * T) * DEG2RAD))"

text \<open>
  A birth record with every optional field absent, \<^verbatim>\<open>BirthData(year=2000, month=1)\<close>: with the
  defaults it is the epoch J2000.0 itself. The concrete instances below use it.
\<close>

definition epoch_birth :: BirthData where
  "epoch_birth =
     \<lparr>year = 2000, month = 1, day = None, hour = None, minute = None,
      latitude = None, longitude = None, timezone = None\<rparr>"

text \<open>
  The birth record \<open>BirthData(year=2002, month=10)\<close>, every optional field absent.
\<close>

definition october_2002_birth :: BirthData where
  "october_2002_birth =
     \<lparr>year = 2002, month = 10, day = None, hour = None, minute = None,
      latitude = None, longitude = None, timezone = None\<rparr>"

text \<open>
  The reading states that \<^verbatim>\<open>start_reading\<close> followed by any sequence of
  \<^verbatim>\<open>record_feedback\<close> calls can produce.
\<close>

inductive reading_reachable ::
  "AspectDefinition list \<Rightarrow> BirthData \<Rightarrow> AstrologyReadingState \<Rightarrow> bool"
  for definitions birth_data where
    fresh: "start_reading definitions birth_data = Inr state
              \<Longrightarrow> reading_reachable definitions birth_data state"
  | fed: "reading_reachable definitions birth_data state
              \<Longrightarrow> reading_reachable definitions birth_data
                    (record_feedback state planet_id feedback)"

text \<open>The feedback entry of the test suite, and \<open>n\<close> calls that all name the same planet.\<close>

definition understood :: "string \<Rightarrow> FeedbackEntry" where
  "understood planet_id = \<lparr>element = planet_id, userText = ''Understood'', timestamp = 0\<rparr>"

fun feedback_times :: "nat \<Rightarrow> string \<Rightarrow> AstrologyReadingState \<Rightarrow> AstrologyReadingState" where
  "feedback_times 0 planet_id state = state"
| "feedback_times (Suc n) planet_id state =
     feedback_times n planet_id (record_feedback state planet_id (understood planet_id))"

subsection \<open>Auxiliary notions for the statements about the Kepler solver\<close>





text \<open>
  For the numeric enclosures: the Taylor polynomial of the sine of degree 9, and the terms of
  the arctangent series.
\<close>

definition sin_poly :: "real \<Rightarrow> real" where
  "sin_poly x =
     x - x ^ 3 / 6 + x ^ 5 / 120 - x ^ 7 / 5040 + x ^ 9 / 362880"

definition arctan_term :: "real \<Rightarrow> nat \<Rightarrow> real" where
  "arctan_term x k = (- 1) ^ k * x ^ (2 * k + 1) / real (2 * k + 1)"

section \<open>Properties\<close>

subsection \<open>Sequencing and angle normalisation\<close>

lemma bind_res_Inr [simp]: "bind_res (Inr v) f = f v"
  by (simp add: bind_res_def)

lemma bind_res_Inl [simp]: "bind_res (Inl e) f = Inl e"
  by (simp add: bind_res_def)

lemma bind_res_eq_Inr: "bind_res r f = Inr v \<longleftrightarrow> (\<exists>x. r = Inr x \<and> f x = Inr v)"
  by (cases r) simp_all

lemma py_fmod_lower: "0 < m \<Longrightarrow> 0 \<le> py_fmod x m"
proof -
  assume m: "0 < m"
  have "m * of_int \<lfloor>x / m\<rfloor> \<le> m * (x / m)"
    using m by (intro mult_left_mono) auto
  also have "\<dots> = x" using m by simp
  finally show ?thesis by (simp add: py_fmod_def)
qed

lemma py_fmod_upper: "0 < m \<Longrightarrow> py_fmod x m < m"
proof -
  assume m: "0 < m"
  have "x / m < of_int \<lfloor>x / m\<rfloor> + 1" by linarith
  then have "m * (x / m) < m * (of_int \<lfloor>x / m\<rfloor> + 1)"
    using m by (intro mult_strict_left_mono)
  moreover have "m * (x / m) = x" using m by simp
  ultimately show ?thesis by (simp add: py_fmod_def algebra_simps)
qed

lemma py_fmod_id: "0 \<le> x \<Longrightarrow> x < m \<Longrightarrow> py_fmod x m = x"
proof -
  assume a: "0 \<le> x" "x < m"
  then have "\<lfloor>x / m\<rfloor> = 0" by (simp add: floor_eq_iff)
  then show ?thesis by (simp add: py_fmod_def)
qed

lemma py_fmod_shift: "m \<noteq> 0 \<Longrightarrow> py_fmod (x + m * of_int k) m = py_fmod x m"
  by (simp add: py_fmod_def add_divide_distrib algebra_simps)

lemma norm_deg_eq: "norm_deg x = py_fmod x 360"
  by (simp add: norm_deg_def py_fmod_id py_fmod_lower py_fmod_upper
      py_fmod_shift [of 360 _ 1, simplified])

lemma norm_deg_lower: "0 \<le> norm_deg x"
  by (simp add: norm_deg_eq py_fmod_lower)

lemma norm_deg_upper: "norm_deg x < 360"
  by (simp add: norm_deg_eq py_fmod_upper)

lemma norm_deg_id: "0 \<le> x \<Longrightarrow> x < 360 \<Longrightarrow> norm_deg x = x"
  by (simp add: norm_deg_eq py_fmod_id)

lemma norm_deg_shift: "norm_deg (x + 360 * of_int k) = norm_deg x"
  by (simp add: norm_deg_eq py_fmod_shift)

lemma norm_deg_decomp: "\<exists>k::int. norm_deg x = x + 360 * of_int k"
  by (rule exI [of _ "- \<lfloor>x / 360\<rfloor>"]) (simp add: norm_deg_eq py_fmod_def)

subsection \<open>The numeric routines return\<close>

lemma kepler_denominator: "\<bar>e::real\<bar> < 1 \<Longrightarrow> 0 < 1 - e * cos E"
proof -
  assume e: "\<bar>e\<bar> < 1"
  have "\<bar>cos E\<bar> \<le> 1" by (rule abs_cos_le_one)
  then have "\<bar>e\<bar> * \<bar>cos E\<bar> \<le> \<bar>e\<bar> * 1"
    by (intro mult_left_mono) auto
  then have "\<bar>e * cos E\<bar> \<le> \<bar>e\<bar>" by (simp add: abs_mult)
  then show ?thesis using e by linarith
qed

lemma kepler_iterate_returns: "\<bar>e\<bar> < 1 \<Longrightarrow> \<exists>E'. kepler_iterate n M e E = Inr E'"
proof (induction n arbitrary: E)
  case 0
  then show ?case by simp
next
  case (Suc n)
  have "1 - e * cos E \<noteq> 0" using kepler_denominator [OF Suc.prems, of E] by simp
  then show ?case using Suc.IH [OF Suc.prems] by (simp add: py_div_def)
qed

lemma solve_kepler_returns: "\<bar>e\<bar> < 1 \<Longrightarrow> \<exists>E. solve_kepler M e = Inr E"
  unfolding solve_kepler_def by (rule kepler_iterate_returns)

lemma py_sqrt_returns: "\<bar>e::real\<bar> < 1 \<Longrightarrow> py_sqrt (1 - e * e) = Inr (sqrt (1 - e * e))"
proof -
  assume e: "\<bar>e\<bar> < 1"
  have "e * e = \<bar>e\<bar> * \<bar>e\<bar>" by simp
  also have "\<dots> \<le> 1 * 1" using e by (intro mult_mono) auto
  finally show ?thesis by (simp add: py_sqrt_def)
qed

lemma degrees_to_sign_returns:
  "degrees_to_sign x =
     Inr \<lparr>sign = SIGN_ORDER ! nat \<lfloor>norm_deg x / 30\<rfloor>,
          degrees = norm_deg x - of_int \<lfloor>norm_deg x / 30\<rfloor> * 30,
          totalDegrees = norm_deg x\<rparr>"
proof -
  have lo: "0 \<le> norm_deg x" and hi: "norm_deg x < 360"
    by (rule norm_deg_lower, rule norm_deg_upper)
  have f0: "0 \<le> \<lfloor>norm_deg x / 30\<rfloor>" using lo by simp
  have "norm_deg x / 30 < 12" using hi by simp
  then have f1: "\<lfloor>norm_deg x / 30\<rfloor> < 12" by (simp add: floor_less_iff)
  have len: "length SIGN_ORDER = 12" by (simp add: SIGN_ORDER_def)
  have "py_index SIGN_ORDER \<lfloor>norm_deg x / 30\<rfloor> = Inr (SIGN_ORDER ! nat \<lfloor>norm_deg x / 30\<rfloor>)"
    using f0 f1 by (simp add: py_index_def len Let_def)
  then show ?thesis
    using lo by (simp add: degrees_to_sign_def Let_def norm_deg_eq [symmetric])
qed

lemma known_elements:
  assumes "ORBITAL_ELEMENTS planet_id = Some el"
  shows "planet_id \<in> {''mercury'', ''venus'', ''earth'', ''mars'', ''jupiter'', ''saturn'',
                       ''uranus'', ''neptune'', ''pluto''}"
  using assms by (simp add: ORBITAL_ELEMENTS_def split: if_splits)

lemma eccentricity_bound:
  assumes el: "ORBITAL_ELEMENTS planet_id = Some el" and T: "\<bar>T\<bar> \<le> 100"
  shows "\<bar>el_e0 el + el_e1 el * T\<bar> < 1"
proof -
  have "\<bar>el_e0 el\<bar> \<le> 1 / 4 \<and> \<bar>el_e1 el\<bar> \<le> 1 / 1000"
    using el by (auto simp: ORBITAL_ELEMENTS_def elements_def split: if_splits)
  then have a: "\<bar>el_e0 el\<bar> \<le> 1 / 4" and b: "\<bar>el_e1 el\<bar> \<le> 1 / 1000" by simp_all
  have "\<bar>el_e1 el * T\<bar> = \<bar>el_e1 el\<bar> * \<bar>T\<bar>" by (rule abs_mult)
  also have "\<dots> \<le> 1 / 1000 * 100" using b T by (intro mult_mono) auto
  finally have "\<bar>el_e1 el * T\<bar> \<le> 1 / 10" by simp
  then show ?thesis using a by linarith
qed

lemma geocentric_longitude_returns:
  assumes el: "ORBITAL_ELEMENTS planet_id = Some el" and ne: "planet_id \<noteq> ''earth''"
    and T: "\<bar>julian_centuries jd\<bar> \<le> 100"
  shows "\<exists>v. geocentric_longitude planet_id jd = Inr v \<and> 0 \<le> v \<and> v < 360"
proof -
  obtain eel where eel: "ORBITAL_ELEMENTS ''earth'' = Some eel"
    by (simp add: ORBITAL_ELEMENTS_def)
  let ?T = "julian_centuries jd"
  have ee: "\<bar>el_e0 eel + el_e1 eel * ?T\<bar> < 1" by (rule eccentricity_bound [OF eel T])
  have pe: "\<bar>el_e0 el + el_e1 el * ?T\<bar> < 1" by (rule eccentricity_bound [OF el T])
  obtain E1 where E1: "solve_kepler
      (norm_deg (norm_deg (el_L0 eel + el_L1 eel * ?T) - norm_deg (el_w0 eel + el_w1 eel * ?T)) * DEG2RAD)
      (el_e0 eel + el_e1 eel * ?T) = Inr E1"
    using solve_kepler_returns [OF ee] by blast
  obtain E2 where E2: "solve_kepler
      (norm_deg (norm_deg (el_L0 el + el_L1 el * ?T) - norm_deg (el_w0 el + el_w1 el * ?T)) * DEG2RAD)
      (el_e0 el + el_e1 el * ?T) = Inr E2"
    using solve_kepler_returns [OF pe] by blast
  show ?thesis
    using ne
    by (simp add: geocentric_longitude_def elements_of_def eel el Let_def E1 E2
        py_sqrt_returns [OF ee] py_sqrt_returns [OF pe] norm_deg_lower norm_deg_upper)
qed

subsection \<open>Equal house cusps partition the circle\<close>

lemma norm_deg_cong:
  assumes "x = y + 360 * of_int k"
  shows "norm_deg x = norm_deg y"
  using assms norm_deg_shift by simp

lemma norm_deg_norm_add: "norm_deg (norm_deg x + y) = norm_deg (x + y)"
proof -
  obtain k :: int where "norm_deg x = x + 360 * of_int k" using norm_deg_decomp by blast
  then have "norm_deg x + y = (x + y) + 360 * of_int k" by simp
  then show ?thesis by (rule norm_deg_cong)
qed

lemma norm_deg_sub_norm: "norm_deg (x - norm_deg y) = norm_deg (x - y)"
proof -
  obtain k :: int where "norm_deg y = y + 360 * of_int k" using norm_deg_decomp by blast
  then have "x - norm_deg y = (x - y) + 360 * of_int (- k)" by simp
  then show ?thesis by (rule norm_deg_cong)
qed

lemma length_equal_house_cusps: "length (equal_house_cusps asc) = 12"
  by (simp add: equal_house_cusps_def)

lemma nth_equal_house_cusps:
  "i < 12 \<Longrightarrow> equal_house_cusps asc ! i = norm_deg (asc + real i * 30)"
  by (simp add: equal_house_cusps_def)

lemma next_equal_house_cusp:
  assumes "i < 12"
  shows "equal_house_cusps asc ! ((i + 1) mod 12) = norm_deg (equal_house_cusps asc ! i + 30)"
proof (cases "i = 11")
  case True
  have "norm_deg (asc + 330 + 30) = norm_deg asc"
    by (rule norm_deg_cong [of _ _ 1]) simp
  then show ?thesis
    using True by (simp add: nth_equal_house_cusps norm_deg_norm_add add.assoc)
next
  case False
  then have lt: "i + 1 < 12" using assms by simp
  have "equal_house_cusps asc ! ((i + 1) mod 12) = norm_deg (asc + real (i + 1) * 30)"
    using lt by (simp add: nth_equal_house_cusps del: of_nat_Suc of_nat_add)
  also have "\<dots> = norm_deg ((asc + real i * 30) + 30)" by (simp add: algebra_simps)
  also have "\<dots> = norm_deg (norm_deg (asc + real i * 30) + 30)"
    by (rule norm_deg_norm_add [symmetric])
  finally show ?thesis using assms by (simp add: nth_equal_house_cusps)
qed

lemma cusp_pair_matches_iff:
  assumes c: "0 \<le> c" "c < 360" and l: "0 \<le> lon" "lon < 360"
  shows "cusp_pair_matches lon c (norm_deg (c + 30)) \<longleftrightarrow> norm_deg (lon - c) < 30"
proof -
  have nxt: "norm_deg (c + 30) = (if c < 330 then c + 30 else c - 330)"
  proof (cases "c < 330")
    case True
    then show ?thesis using c by (simp add: norm_deg_id)
  next
    case False
    have "norm_deg (c + 30) = norm_deg (c - 330)"
      by (rule norm_deg_cong [of _ _ 1]) simp
    then show ?thesis using False c by (simp add: norm_deg_id)
  qed
  have dif: "norm_deg (lon - c) = (if c \<le> lon then lon - c else lon - c + 360)"
  proof (cases "c \<le> lon")
    case True
    then show ?thesis using c l by (simp add: norm_deg_id)
  next
    case False
    have "norm_deg (lon - c) = norm_deg (lon - c + 360)"
      by (rule norm_deg_cong [of _ _ "- 1"]) simp
    then show ?thesis using False c l by (simp add: norm_deg_id)
  qed
  show ?thesis
    unfolding nxt dif cusp_pair_matches_def using c l by auto
qed

lemma sector_iff:
  assumes y: "0 \<le> y" "y < 360" and i: "i < 12"
  shows "norm_deg (y - real i * 30) < 30 \<longleftrightarrow> \<lfloor>y / 30\<rfloor> = int i"
proof -
  have fl: "\<lfloor>y / 30\<rfloor> = int i \<longleftrightarrow> real i * 30 \<le> y \<and> y < real i * 30 + 30"
    by (auto simp: floor_eq_iff)
  have ri: "real i * 30 \<le> 330" using i by simp
  have dif: "norm_deg (y - real i * 30) =
      (if real i * 30 \<le> y then y - real i * 30 else y - real i * 30 + 360)"
  proof (cases "real i * 30 \<le> y")
    case True
    then show ?thesis using y ri by (simp add: norm_deg_id)
  next
    case False
    have "norm_deg (y - real i * 30) = norm_deg (y - real i * 30 + 360)"
      by (rule norm_deg_cong [of _ _ "- 1"]) simp
    then show ?thesis using False y ri by (simp add: norm_deg_id)
  qed
  show ?thesis unfolding fl dif using y ri by auto
qed

lemma house_pair_iff:
  assumes l: "0 \<le> lon" "lon < 360" and i: "i < 12"
  shows "cusp_pair_matches lon (equal_house_cusps asc ! i) (equal_house_cusps asc ! ((i + 1) mod 12))
         \<longleftrightarrow> \<lfloor>norm_deg (lon - asc) / 30\<rfloor> = int i"
proof -
  let ?c = "equal_house_cusps asc ! i"
  have c: "?c = norm_deg (asc + real i * 30)" using i by (rule nth_equal_house_cusps)
  have cb: "0 \<le> ?c" "?c < 360" unfolding c by (rule norm_deg_lower, rule norm_deg_upper)
  have "norm_deg (lon - ?c) = norm_deg (lon - (asc + real i * 30))"
    unfolding c by (rule norm_deg_sub_norm)
  also have "\<dots> = norm_deg (norm_deg (lon - asc) + (- (real i * 30)))"
    unfolding norm_deg_norm_add by (simp add: algebra_simps)
  finally have eq: "norm_deg (lon - ?c) = norm_deg (norm_deg (lon - asc) - real i * 30)" by simp
  show ?thesis
    unfolding next_equal_house_cusp [OF i] cusp_pair_matches_iff [OF cb l] eq
    by (rule sector_iff [OF norm_deg_lower norm_deg_upper i])
qed

lemma find_app: "find P (xs @ ys) = (case find P xs of None \<Rightarrow> find P ys | Some x \<Rightarrow> Some x)"
  by (induction xs) auto

lemma find_index_upt: "find (\<lambda>i. i = n) [0..<m] = (if n < m then Some n else None)"
  by (induction m) (auto simp: find_app split: option.splits)

lemma sector_range:
  obtains k :: nat where "k < 12" and "\<lfloor>norm_deg x / 30\<rfloor> = int k"
proof -
  have lo: "0 \<le> norm_deg x" and hi: "norm_deg x < 360"
    by (rule norm_deg_lower, rule norm_deg_upper)
  have "norm_deg x / 30 < 12" using hi by simp
  then have u: "\<lfloor>norm_deg x / 30\<rfloor> < 12" by (simp only: floor_less_iff of_int_numeral)
  have "0 \<le> norm_deg x / 30" using lo by simp
  then have d: "0 \<le> \<lfloor>norm_deg x / 30\<rfloor>" by (simp only: zero_le_floor)
  show thesis
  proof (rule that [of "nat \<lfloor>norm_deg x / 30\<rfloor>"])
    show "nat \<lfloor>norm_deg x / 30\<rfloor> < 12" using u d by linarith
    show "\<lfloor>norm_deg x / 30\<rfloor> = int (nat \<lfloor>norm_deg x / 30\<rfloor>)" using d by linarith
  qed
qed

lemma house_scan_find:
  assumes l: "0 \<le> lon" "lon < 360" and r: "\<forall>i\<in>set idxs. i < 12"
    and k: "\<lfloor>norm_deg (lon - asc) / 30\<rfloor> = int k"
  shows "house_scan idxs lon (equal_house_cusps asc) =
           Inr (map_option (\<lambda>i. int i + 1) (find (\<lambda>i. i = k) idxs))"
  using r
proof (induction idxs)
  case Nil
  then show ?case by simp
next
  case (Cons i rest)
  then have i: "i < 12" by simp
  then have i2: "Suc i mod 12 < 12" by simp
  have a: "py_index (equal_house_cusps asc) (int i) = Inr (equal_house_cusps asc ! i)"
    using i by (simp add: py_index_def length_equal_house_cusps)
  have b: "py_index (equal_house_cusps asc) (int (Suc i mod 12)) =
             Inr (equal_house_cusps asc ! (Suc i mod 12))"
    using i2 by (simp add: py_index_def length_equal_house_cusps)
  have m: "cusp_pair_matches lon (equal_house_cusps asc ! i)
             (equal_house_cusps asc ! (Suc i mod 12)) \<longleftrightarrow> i = k"
    using house_pair_iff [OF l i, of asc] k by auto
  have IH: "house_scan rest lon (equal_house_cusps asc) =
           Inr (map_option (\<lambda>i. int i + 1) (find (\<lambda>i. i = k) rest))"
    using Cons by simp
  show ?case
    by (simp add: a b m IH)
qed

lemma house_scan_result:
  assumes l: "0 \<le> lon" "lon < 360"
  shows "house_scan [0..<12] lon (equal_house_cusps asc) =
           Inr (Some (\<lfloor>norm_deg (lon - asc) / 30\<rfloor> + 1))"
proof -
  obtain k :: nat where k: "k < 12" "\<lfloor>norm_deg (lon - asc) / 30\<rfloor> = int k"
    by (rule sector_range)
  have "house_scan [0..<12] lon (equal_house_cusps asc) =
          Inr (map_option (\<lambda>i. int i + 1) (find (\<lambda>i. i = k) [0..<12]))"
    by (rule house_scan_find [OF l _ k(2)]) simp
  then show ?thesis using k by (simp only: find_index_upt) simp
qed

lemma house_for_longitude_result:
  assumes l: "0 \<le> lon" "lon < 360"
  shows "house_for_longitude lon (equal_house_cusps asc) = Inr (\<lfloor>norm_deg (lon - asc) / 30\<rfloor> + 1)"
  by (simp add: house_for_longitude_def house_scan_result [OF l])

lemma build_position_returns:
  assumes l: "0 \<le> lon" "lon < 360"
  shows "build_position name lon (equal_house_cusps asc) retro =
     Inr \<lparr>sign = SIGN_ORDER ! nat \<lfloor>lon / 30\<rfloor>,
          degrees = of_int (py_round ((lon - of_int \<lfloor>lon / 30\<rfloor> * 30) * 100)) / 100,
          totalDegrees = of_int (py_round (lon * 100)) / 100,
          planet = name, house = \<lfloor>norm_deg (lon - asc) / 30\<rfloor> + 1, retrograde = retro\<rparr>"
  by (simp add: build_position_def degrees_to_sign_returns house_for_longitude_result [OF l]
      norm_deg_id [OF l])

subsection \<open>The chart computation\<close>

lemma geocentric_longitude_range:
  assumes "geocentric_longitude planet_id jd = Inr v"
  shows "0 \<le> v \<and> v < 360"
  using assms
  by (auto simp: geocentric_longitude_def bind_res_eq_Inr Let_def norm_deg_lower norm_deg_upper
      split: if_splits)

lemma sun_longitude_range: "0 \<le> sun_longitude jd \<and> sun_longitude jd < 360"
  by (simp add: sun_longitude_def Let_def norm_deg_lower norm_deg_upper)

lemma moon_longitude_range: "0 \<le> moon_longitude jd \<and> moon_longitude jd < 360"
  by (simp add: moon_longitude_def Let_def norm_deg_lower norm_deg_upper)

lemma compute_ascendant_range:
  "0 \<le> compute_ascendant lst lat obl \<and> compute_ascendant lst lat obl < 360"
  by (simp add: compute_ascendant_def Let_def norm_deg_lower norm_deg_upper)

lemma is_retrograde_returns:
  assumes el: "ORBITAL_ELEMENTS planet_id = Some el" and ne: "planet_id \<noteq> ''earth''"
    and T: "\<bar>julian_centuries jd\<bar> \<le> 99"
  shows "\<exists>b. is_retrograde planet_id jd = Inr b"
proof -
  have "julian_centuries (jd - 1) = julian_centuries jd - 1 / 36525"
    and "julian_centuries (jd + 1) = julian_centuries jd + 1 / 36525"
    by (simp_all add: julian_centuries_def diff_divide_distrib add_divide_distrib)
  then have "\<bar>julian_centuries (jd - 1)\<bar> \<le> 100" and "\<bar>julian_centuries (jd + 1)\<bar> \<le> 100"
    using T by linarith+
  then obtain u v where "geocentric_longitude planet_id (jd - 1) = Inr u"
    and "geocentric_longitude planet_id (jd + 1) = Inr v"
    using geocentric_longitude_returns [OF el ne] by blast
  then show ?thesis by (auto simp: is_retrograde_def Let_def)
qed

lemma chart_structure:
  assumes ok: "calculate_natal_chart definitions bd = Inr ch"
  shows "\<exists>asc. 0 \<le> asc \<and> asc < 360
           \<and> houseCusps ch = equal_house_cusps asc
           \<and> degrees_to_sign asc = Inr (ascendant ch)
           \<and> list_all (\<lambda>p. \<exists>name lon r. 0 \<le> lon \<and> lon < 360
                   \<and> build_position name lon (equal_house_cusps asc) r = Inr p)
                 (planet_positions ch)
           \<and> aspects ch = calculate_aspects definitions (planet_positions ch)"
proof -
  define jd where "jd = birth_julian_day bd"
  define asc where "asc = compute_ascendant
      (local_sidereal_time jd (case longitude bd of Some v \<Rightarrow> v | None \<Rightarrow> 0))
      (case latitude bd of Some v \<Rightarrow> v | None \<Rightarrow> 0) (obliquity jd)"
  have asc: "0 \<le> asc" "asc < 360"
    unfolding asc_def using compute_ascendant_range by blast+
  note sr = sun_longitude_range [of jd] moon_longitude_range [of jd]
  from ok show ?thesis
    unfolding calculate_natal_chart_def Let_def jd_def [symmetric] asc_def [symmetric]
    apply (simp only: bind_res_eq_Inr)
    apply (elim exE conjE)
    apply (simp only: sum.inject)
    apply hypsubst
    apply (rule exI [of _ asc])
    apply (simp add: asc planet_positions_def)
    apply (intro conjI)
    using sr geocentric_longitude_range apply blast+
    done
qed

lemma orbiting_planet_returns:
  assumes p: "planet_id \<in> {''mercury'', ''venus'', ''mars'', ''jupiter'', ''saturn'',
                            ''uranus'', ''neptune'', ''pluto''}"
    and T: "\<bar>julian_centuries jd\<bar> \<le> 99"
  shows "\<exists>v b. geocentric_longitude planet_id jd = Inr v \<and> 0 \<le> v \<and> v < 360
           \<and> is_retrograde planet_id jd = Inr b"
proof -
  from p obtain el where el: "ORBITAL_ELEMENTS planet_id = Some el"
    by (auto simp: ORBITAL_ELEMENTS_def)
  from p have ne: "planet_id \<noteq> ''earth''" by auto
  from T have T': "\<bar>julian_centuries jd\<bar> \<le> 100" by simp
  show ?thesis
    using geocentric_longitude_returns [OF el ne T'] is_retrograde_returns [OF el ne T]
    by blast
qed

lemma calculate_natal_chart_returns:
  assumes T: "\<bar>julian_centuries (birth_julian_day bd)\<bar> \<le> 99"
  shows "\<exists>ch. calculate_natal_chart definitions bd = Inr ch"
proof -
  define jd where "jd = birth_julian_day bd"
  note T' = T [folded jd_def]
  obtain v1 b1 where p1: "geocentric_longitude ''mercury'' jd = Inr v1" "0 \<le> v1" "v1 < 360"
      "is_retrograde ''mercury'' jd = Inr b1"
    using orbiting_planet_returns [OF _ T', of "''mercury''"] by auto
  obtain v2 b2 where p2: "geocentric_longitude ''venus'' jd = Inr v2" "0 \<le> v2" "v2 < 360"
      "is_retrograde ''venus'' jd = Inr b2"
    using orbiting_planet_returns [OF _ T', of "''venus''"] by auto
  obtain v3 b3 where p3: "geocentric_longitude ''mars'' jd = Inr v3" "0 \<le> v3" "v3 < 360"
      "is_retrograde ''mars'' jd = Inr b3"
    using orbiting_planet_returns [OF _ T', of "''mars''"] by auto
  obtain v4 b4 where p4: "geocentric_longitude ''jupiter'' jd = Inr v4" "0 \<le> v4" "v4 < 360"
      "is_retrograde ''jupiter'' jd = Inr b4"
    using orbiting_planet_returns [OF _ T', of "''jupiter''"] by auto
  obtain v5 b5 where p5: "geocentric_longitude ''saturn'' jd = Inr v5" "0 \<le> v5" "v5 < 360"
      "is_retrograde ''saturn'' jd = Inr b5"
    using orbiting_planet_returns [OF _ T', of "''saturn''"] by auto
  obtain v6 b6 where p6: "geocentric_longitude ''uranus'' jd = Inr v6" "0 \<le> v6" "v6 < 360"
      "is_retrograde ''uranus'' jd = Inr b6"
    using orbiting_planet_returns [OF _ T', of "''uranus''"] by auto
  obtain v7 b7 where p7: "geocentric_longitude ''neptune'' jd = Inr v7" "0 \<le> v7" "v7 < 360"
      "is_retrograde ''neptune'' jd = Inr b7"
    using orbiting_planet_returns [OF _ T', of "''neptune''"] by auto
  obtain v8 b8 where p8: "geocentric_longitude ''pluto'' jd = Inr v8" "0 \<le> v8" "v8 < 360"
      "is_retrograde ''pluto'' jd = Inr b8"
    using orbiting_planet_returns [OF _ T', of "''pluto''"] by auto
  note sr = sun_longitude_range [of jd] moon_longitude_range [of jd]
  show ?thesis
    unfolding calculate_natal_chart_def Let_def jd_def [symmetric]
    using sr
    by (simp add: p1 p2 p3 p4 p5 p6 p7 p8 build_position_returns degrees_to_sign_returns)
qed

lemma to_julian_day_j2000: "to_julian_day 2000 1 1 12 0 = 2451545"
  by (simp add: to_julian_day_def py_int_def Let_def)

lemma to_julian_day_1990: "to_julian_day 1990 4 10 0 0 = 2447991.5"
  by (simp add: to_julian_day_def py_int_def Let_def)

lemma epoch_birth_julian_day: "birth_julian_day epoch_birth = 2451545"
  by (simp add: birth_julian_day_def epoch_birth_def to_julian_day_def py_int_def Let_def)

lemma epoch_birth_centuries: "julian_centuries (birth_julian_day epoch_birth) = 0"
  by (simp add: epoch_birth_julian_day julian_centuries_def J2000_def)

lemma epoch_chart_returns: "\<exists>ch. calculate_natal_chart definitions epoch_birth = Inr ch"
  by (rule calculate_natal_chart_returns) (simp add: epoch_birth_centuries)

lemma start_reading_eq_Inr:
  "start_reading definitions bd = Inr s \<longleftrightarrow>
     (\<exists>ch. calculate_natal_chart definitions bd = Inr ch \<and>
        s = \<lparr>birthData = bd, chart = ch, revealedPlanets = [], revealedHouses = [],
             userFeedback = []\<rparr>)"
  by (auto simp: start_reading_def bind_res_eq_Inr)

lemma epoch_reading_returns: "\<exists>s. start_reading definitions epoch_birth = Inr s"
  using epoch_chart_returns [of definitions] by (auto simp: start_reading_eq_Inr)

subsection \<open>The reveal cycle\<close>

lemma revealed_record_feedback [simp]:
  "revealedPlanets (record_feedback s p f) = revealedPlanets s @ [p]"
  by (simp add: record_feedback_def)

lemma chart_record_feedback [simp]: "chart (record_feedback s p f) = chart s"
  by (simp add: record_feedback_def)

lemma next_reveal_find:
  "map_option fst (get_next_reveal s) =
     find (\<lambda>p. p \<notin> set (revealedPlanets s)) DEFAULT_REVEAL_ORDER"
  by (simp add: get_next_reveal_def Let_def split: option.splits)

lemma next_reveal_take:
  assumes "revealedPlanets s = take k DEFAULT_REVEAL_ORDER" and "k < 11"
  shows "get_next_reveal s =
           Some (DEFAULT_REVEAL_ORDER ! k, get_chart_position (DEFAULT_REVEAL_ORDER ! k) (chart s))"
proof -
  from \<open>k < 11\<close> have "k = 0 \<or> k = 1 \<or> k = 2 \<or> k = 3 \<or> k = 4 \<or> k = 5 \<or> k = 6 \<or> k = 7
      \<or> k = 8 \<or> k = 9 \<or> k = 10" by arith
  then show ?thesis
    using assms(1)
    by (elim disjE) (simp_all add: get_next_reveal_def DEFAULT_REVEAL_ORDER_def Let_def)
qed

lemma next_reveal_exhausted:
  assumes "revealedPlanets s = DEFAULT_REVEAL_ORDER"
  shows "get_next_reveal s = None"
  using assms by (simp add: get_next_reveal_def DEFAULT_REVEAL_ORDER_def Let_def)

lemma length_reveal_order: "length DEFAULT_REVEAL_ORDER = 11"
  by (simp add: DEFAULT_REVEAL_ORDER_def)

lemma take_Suc_order:
  "k < 11 \<Longrightarrow> take k DEFAULT_REVEAL_ORDER @ [DEFAULT_REVEAL_ORDER ! k] =
      take (Suc k) DEFAULT_REVEAL_ORDER"
  by (simp add: take_Suc_conv_app_nth length_reveal_order)

lemma cycle_steps_take:
  assumes "revealedPlanets s = take k DEFAULT_REVEAL_ORDER" and "k + n \<le> 11"
  shows "revealedPlanets (cycle_steps n fb s) = take (k + n) DEFAULT_REVEAL_ORDER"
  using assms
proof (induction n arbitrary: s k)
  case 0
  then show ?case by simp
next
  case (Suc n)
  then have k: "k < 11" by simp
  let ?s = "record_feedback s (DEFAULT_REVEAL_ORDER ! k) (fb (DEFAULT_REVEAL_ORDER ! k))"
  have "revealedPlanets ?s = take (Suc k) DEFAULT_REVEAL_ORDER"
    using Suc.prems(1) take_Suc_order [OF k] by simp
  then have "revealedPlanets (cycle_steps n fb ?s) = take (Suc k + n) DEFAULT_REVEAL_ORDER"
    using Suc.prems(2) by (intro Suc.IH) simp_all
  then show ?case
    by (simp add: next_reveal_take [OF Suc.prems(1) k])
qed

lemma reveal_cycle_count:
  assumes "revealedPlanets s = take k DEFAULT_REVEAL_ORDER" and "k \<le> 11" and "11 - k < fuel"
  shows "reveal_cycle fuel fb s c = Some (cycle_steps (11 - k) fb s, c + (11 - k))"
  using assms
proof (induction fuel arbitrary: s k c)
  case 0
  then show ?case by simp
next
  case (Suc fuel)
  show ?case
  proof (cases "k = 11")
    case True
    then have "revealedPlanets s = DEFAULT_REVEAL_ORDER"
      using Suc.prems(1) by (simp add: length_reveal_order)
    then show ?thesis using True by (simp add: next_reveal_exhausted)
  next
    case False
    then have k: "k < 11" using Suc.prems(2) by simp
    let ?s = "record_feedback s (DEFAULT_REVEAL_ORDER ! k) (fb (DEFAULT_REVEAL_ORDER ! k))"
    have r: "revealedPlanets ?s = take (Suc k) DEFAULT_REVEAL_ORDER"
      using Suc.prems(1) take_Suc_order [OF k] by simp
    have "reveal_cycle fuel fb ?s (c + 1) =
            Some (cycle_steps (11 - Suc k) fb ?s, (c + 1) + (11 - Suc k))"
      using k Suc.prems(3) by (intro Suc.IH [OF r]) simp_all
    moreover have "11 - k = Suc (11 - Suc k)" using k by simp
    ultimately show ?thesis
      using k by (simp add: next_reveal_take [OF Suc.prems(1) k])
  qed
qed

lemma reveal_cycle_short:
  assumes "revealedPlanets s = take k DEFAULT_REVEAL_ORDER" and "k \<le> 11" and "fuel \<le> 11 - k"
  shows "reveal_cycle fuel fb s c = None"
  using assms
proof (induction fuel arbitrary: s k c)
  case 0
  then show ?case by simp
next
  case (Suc fuel)
  then have k: "k < 11" by simp
  let ?s = "record_feedback s (DEFAULT_REVEAL_ORDER ! k) (fb (DEFAULT_REVEAL_ORDER ! k))"
  have r: "revealedPlanets ?s = take (Suc k) DEFAULT_REVEAL_ORDER"
    using Suc.prems(1) take_Suc_order [OF k] by simp
  have "reveal_cycle fuel fb ?s (c + 1) = None"
    using k Suc.prems(3) by (intro Suc.IH [OF r]) simp_all
  then show ?case by (simp add: next_reveal_take [OF Suc.prems(1) k])
qed

lemma chart_cycle_steps: "chart (cycle_steps n fb s) = chart s"
  by (induction n arbitrary: s) (auto split: option.splits)

lemma next_reveal_None_iff:
  "get_next_reveal s = None \<longleftrightarrow> set DEFAULT_REVEAL_ORDER \<subseteq> set (revealedPlanets s)"
proof -
  have "get_next_reveal s = None \<longleftrightarrow>
          find (\<lambda>q. q \<notin> set (revealedPlanets s)) DEFAULT_REVEAL_ORDER = None"
    by (simp add: get_next_reveal_def Let_def split: option.splits)
  also have "\<dots> \<longleftrightarrow> set DEFAULT_REVEAL_ORDER \<subseteq> set (revealedPlanets s)"
    unfolding find_None_iff by blast
  finally show ?thesis .
qed

lemma next_reveal_Some_iff:
  "get_next_reveal s = Some (p, pos) \<longleftrightarrow>
     (\<exists>i<11. p = DEFAULT_REVEAL_ORDER ! i \<and> p \<notin> set (revealedPlanets s)
        \<and> (\<forall>j<i. DEFAULT_REVEAL_ORDER ! j \<in> set (revealedPlanets s)))
     \<and> pos = get_chart_position p (chart s)"
proof -
  have "get_next_reveal s = Some (p, pos) \<longleftrightarrow>
          find (\<lambda>q. q \<notin> set (revealedPlanets s)) DEFAULT_REVEAL_ORDER = Some p
          \<and> pos = get_chart_position p (chart s)"
    by (auto simp: get_next_reveal_def Let_def split: option.splits)
  also have "find (\<lambda>q. q \<notin> set (revealedPlanets s)) DEFAULT_REVEAL_ORDER = Some p \<longleftrightarrow>
      (\<exists>i<11. p = DEFAULT_REVEAL_ORDER ! i \<and> p \<notin> set (revealedPlanets s)
        \<and> (\<forall>j<i. DEFAULT_REVEAL_ORDER ! j \<in> set (revealedPlanets s)))"
    unfolding find_Some_iff length_reveal_order by blast
  finally show ?thesis .
qed

lemma next_reveal_first_unrevealed:
  "(get_next_reveal s = None \<longleftrightarrow> set DEFAULT_REVEAL_ORDER \<subseteq> set (revealedPlanets s))
   \<and> (\<forall>p pos. get_next_reveal s = Some (p, pos) \<longleftrightarrow>
         (\<exists>i<11. p = DEFAULT_REVEAL_ORDER ! i \<and> p \<notin> set (revealedPlanets s)
            \<and> (\<forall>j<i. DEFAULT_REVEAL_ORDER ! j \<in> set (revealedPlanets s)))
         \<and> pos = get_chart_position p (chart s))"
  using next_reveal_None_iff next_reveal_Some_iff by blast

text \<open>
  C8. On a fresh reading from \<open>start_reading\<close>, the loop that calls \<open>get_next_reveal\<close> and then
  \<open>record_feedback\<close> for the planet returned stops after exactly 11 steps: with more than 11
  units of fuel it returns the count 11, with 11 or fewer it has not yet stopped. After \<open>n < 11\<close>
  steps \<open>get_next_reveal\<close> returns the \<open>n\<close>-th item of the fixed order with its position and
  \<open>is_complete\<close> is false; after the 11th step \<open>get_next_reveal\<close> returns none and
  \<open>is_complete\<close> is true. In any state, \<open>get_next_reveal\<close> returns the first item of the
  order that is not revealed, and none exactly when every item of the order is revealed.
\<close>

theorem reveal_cycle_eleven_steps:
  assumes start: "start_reading definitions bd = Inr s0"
  shows "(\<forall>fuel. 11 < fuel \<longrightarrow> reveal_cycle fuel fb s0 0 = Some (cycle_steps 11 fb s0, 11))
       \<and> (\<forall>fuel. fuel \<le> 11 \<longrightarrow> reveal_cycle fuel fb s0 0 = None)
       \<and> (\<forall>n. n \<le> 11 \<longrightarrow>
             revealedPlanets (cycle_steps n fb s0) = take n DEFAULT_REVEAL_ORDER)
       \<and> (\<forall>n. n < 11 \<longrightarrow>
             get_next_reveal (cycle_steps n fb s0) =
               Some (DEFAULT_REVEAL_ORDER ! n,
                     get_chart_position (DEFAULT_REVEAL_ORDER ! n) (chart s0))
             \<and> \<not> is_complete (cycle_steps n fb s0))
       \<and> get_next_reveal (cycle_steps 11 fb s0) = None
       \<and> is_complete (cycle_steps 11 fb s0)
       \<and> (\<forall>s. (get_next_reveal s = None \<longleftrightarrow>
                   set DEFAULT_REVEAL_ORDER \<subseteq> set (revealedPlanets s))
              \<and> (\<forall>p pos. get_next_reveal s = Some (p, pos) \<longleftrightarrow>
                    (\<exists>i<11. p = DEFAULT_REVEAL_ORDER ! i \<and> p \<notin> set (revealedPlanets s)
                       \<and> (\<forall>j<i. DEFAULT_REVEAL_ORDER ! j \<in> set (revealedPlanets s)))
                    \<and> pos = get_chart_position p (chart s)))"
proof -
  from start have r0: "revealedPlanets s0 = take 0 DEFAULT_REVEAL_ORDER"
    by (auto simp: start_reading_eq_Inr)
  have steps: "revealedPlanets (cycle_steps n fb s0) = take n DEFAULT_REVEAL_ORDER"
    if "n \<le> 11" for n
    using cycle_steps_take [OF r0, of n fb] that by simp
  have a: "\<forall>fuel. 11 < fuel \<longrightarrow> reveal_cycle fuel fb s0 0 = Some (cycle_steps 11 fb s0, 11)"
    using reveal_cycle_count [OF r0, of _ fb 0] by simp
  have b: "\<forall>fuel. fuel \<le> 11 \<longrightarrow> reveal_cycle fuel fb s0 0 = None"
    using reveal_cycle_short [OF r0, of _ fb 0] by simp
  have c: "\<forall>n. n < 11 \<longrightarrow>
             get_next_reveal (cycle_steps n fb s0) =
               Some (DEFAULT_REVEAL_ORDER ! n,
                     get_chart_position (DEFAULT_REVEAL_ORDER ! n) (chart s0))
             \<and> \<not> is_complete (cycle_steps n fb s0)"
  proof (intro allI impI)
    fix n :: nat assume n: "n < 11"
    then have r: "revealedPlanets (cycle_steps n fb s0) = take n DEFAULT_REVEAL_ORDER"
      using steps by simp
    show "get_next_reveal (cycle_steps n fb s0) =
               Some (DEFAULT_REVEAL_ORDER ! n,
                     get_chart_position (DEFAULT_REVEAL_ORDER ! n) (chart s0))
             \<and> \<not> is_complete (cycle_steps n fb s0)"
      using n next_reveal_take [OF r n]
      by (simp add: chart_cycle_steps is_complete_def r length_reveal_order)
  qed
  have r11: "revealedPlanets (cycle_steps 11 fb s0) = DEFAULT_REVEAL_ORDER"
    using steps [of 11] by (simp add: length_reveal_order)
  have d: "get_next_reveal (cycle_steps 11 fb s0) = None"
    by (rule next_reveal_exhausted [OF r11])
  have e: "is_complete (cycle_steps 11 fb s0)"
    by (simp add: is_complete_def r11)
  show ?thesis
    using a b c d e steps next_reveal_first_unrevealed by blast
qed

theorem reveal_cycle_eleven_steps_witness:
  "\<exists>s0. start_reading [] epoch_birth = Inr s0
        \<and> reveal_cycle 12 understood s0 0 = Some (cycle_steps 11 understood s0, 11)
        \<and> reveal_cycle 11 understood s0 0 = None
        \<and> revealedPlanets (cycle_steps 11 understood s0) = DEFAULT_REVEAL_ORDER
        \<and> \<not> is_complete (cycle_steps 10 understood s0)
        \<and> is_complete (cycle_steps 11 understood s0)"
proof -
  obtain s0 where s0: "start_reading [] epoch_birth = Inr s0"
    using epoch_reading_returns by blast
  show ?thesis
    using s0 reveal_cycle_eleven_steps [OF s0, of understood]
    by (intro exI [of _ s0]) (simp add: length_reveal_order)
qed

lemma revealed_feedback_times:
  "revealedPlanets (feedback_times n p s) = revealedPlanets s @ replicate n p"
  by (induction n arbitrary: s) (simp_all add: replicate_app_Cons_same)

lemma reachable_feedback_times:
  "reading_reachable definitions bd s \<Longrightarrow> reading_reachable definitions bd (feedback_times n p s)"
  by (induction n arbitrary: s) (simp_all add: reading_reachable.fed)

lemma epoch_reachable:
  obtains s0 where "start_reading definitions epoch_birth = Inr s0"
    and "reading_reachable definitions epoch_birth s0" and "revealedPlanets s0 = []"
proof -
  obtain s0 where s0: "start_reading definitions epoch_birth = Inr s0"
    using epoch_reading_returns by blast
  then have "revealedPlanets s0 = []" by (auto simp: start_reading_eq_Inr)
  with s0 show thesis by (intro that [of s0]) (simp_all add: reading_reachable.fresh)
qed

text \<open>
  C9, as stated: every reading state reachable from \<open>start_reading\<close> by \<open>record_feedback\<close>
  calls has a duplicate-free \<open>revealedPlanets\<close> list. It fails: two calls naming \<open>sun\<close> on the
  fresh reading of \<open>BirthData(year=2000, month=1)\<close> give the list \<open>[sun, sun]\<close>.
\<close>

theorem revealed_distinct_counterexample:
  "\<not> (\<forall>s. reading_reachable [] epoch_birth s \<longrightarrow> distinct (revealedPlanets s))"
proof
  assume all: "\<forall>s. reading_reachable [] epoch_birth s \<longrightarrow> distinct (revealedPlanets s)"
  obtain s0 where r: "reading_reachable [] epoch_birth s0" and e: "revealedPlanets s0 = []"
    by (rule epoch_reachable)
  have "reading_reachable [] epoch_birth (feedback_times 2 ''sun'' s0)"
    by (rule reachable_feedback_times [OF r])
  with all have "distinct (revealedPlanets (feedback_times 2 ''sun'' s0))" by blast
  then show False by (simp add: revealed_feedback_times e eval_nat_numeral)
qed

text \<open>
  C9, amended: \<open>revealedPlanets\<close> is append-only, \<open>record_feedback\<close> appending exactly the
  identifier it is given, so that the list of every state reached later extends the list of
  the state it was reached from; the new list is duplicate-free exactly when the old one is and
  the identifier was not in it. In particular it stays duplicate-free when the identifier is
  the one \<open>get_next_reveal\<close> returned.
\<close>

theorem revealed_append_only:
  "revealedPlanets (record_feedback s p f) = revealedPlanets s @ [p]
   \<and> (distinct (revealedPlanets (record_feedback s p f)) \<longleftrightarrow>
        distinct (revealedPlanets s) \<and> p \<notin> set (revealedPlanets s))
   \<and> (distinct (revealedPlanets s) \<and> get_next_reveal s = Some (p, pos)
        \<longrightarrow> distinct (revealedPlanets (record_feedback s p f)))"
proof -
  have "p \<notin> set (revealedPlanets s)" if "get_next_reveal s = Some (p, pos)"
    using that unfolding next_reveal_Some_iff by blast
  then show ?thesis by auto
qed

theorem revealed_append_only_witness:
  "\<exists>s0. start_reading [] epoch_birth = Inr s0
     \<and> distinct (revealedPlanets s0)
     \<and> get_next_reveal s0 = Some (''sun'', get_chart_position ''sun'' (chart s0))
     \<and> revealedPlanets (record_feedback s0 ''sun'' (understood ''sun'')) = [''sun'']
     \<and> distinct (revealedPlanets (record_feedback s0 ''sun'' (understood ''sun'')))"
proof -
  obtain s0 where s0: "start_reading [] epoch_birth = Inr s0" and e: "revealedPlanets s0 = []"
    by (rule epoch_reachable)
  have n: "get_next_reveal s0 = Some (''sun'', get_chart_position ''sun'' (chart s0))"
    using next_reveal_take [of s0 0] e by (simp add: DEFAULT_REVEAL_ORDER_def)
  show ?thesis
    using s0 e n
      revealed_append_only [of s0 "''sun''" "understood ''sun''"
        "get_chart_position ''sun'' (chart s0)"]
    by (intro exI [of _ s0]) simp
qed

text \<open>
  C10. \<open>record_feedback\<close> is a total function that validates nothing: whatever the identifier,
  it appends it to \<open>revealedPlanets\<close> and the feedback entry to \<open>userFeedback\<close>, so the count
  that \<open>is_complete\<close> checks grows by one with every call. Eleven calls naming \<open>sun\<close> on a fresh
  reading reach a state where \<open>is_complete\<close> is true while \<open>get_next_reveal\<close> still returns
  an item, the moon.
\<close>

theorem record_feedback_unvalidated:
  "(\<forall>s p f. revealedPlanets (record_feedback s p f) = revealedPlanets s @ [p]
        \<and> userFeedback (record_feedback s p f) = userFeedback s @ [f]
        \<and> length (revealedPlanets (record_feedback s p f)) = length (revealedPlanets s) + 1)
   \<and> (\<exists>s0. start_reading definitions epoch_birth = Inr s0
        \<and> reading_reachable definitions epoch_birth (feedback_times 11 ''sun'' s0)
        \<and> revealedPlanets (feedback_times 11 ''sun'' s0) = replicate 11 ''sun''
        \<and> is_complete (feedback_times 11 ''sun'' s0)
        \<and> get_next_reveal (feedback_times 11 ''sun'' s0) =
            Some (''moon'', get_chart_position ''moon'' (chart (feedback_times 11 ''sun'' s0))))"
proof -
  obtain s0 where s0: "start_reading definitions epoch_birth = Inr s0"
    and r: "reading_reachable definitions epoch_birth s0" and e: "revealedPlanets s0 = []"
    by (rule epoch_reachable)
  let ?s = "feedback_times 11 ''sun'' s0"
  have rev: "revealedPlanets ?s = replicate 11 ''sun''"
    by (simp add: revealed_feedback_times e)
  have "is_complete ?s" by (simp add: is_complete_def rev length_reveal_order)
  moreover have "get_next_reveal ?s = Some (''moon'', get_chart_position ''moon'' (chart ?s))"
    by (simp add: get_next_reveal_def Let_def rev DEFAULT_REVEAL_ORDER_def)
  moreover have "reading_reachable definitions epoch_birth ?s"
    by (rule reachable_feedback_times [OF r])
  ultimately show ?thesis
    using s0 rev by (auto simp: record_feedback_def)
qed

subsection \<open>Failures of the longitude functions\<close>

lemma kepler_iterate_error:
  "kepler_iterate n M e E = Inl err \<Longrightarrow> err = ZeroDivisionError"
  by (induction n arbitrary: E) (auto simp: py_div_def split: if_splits sum.splits)

lemma geocentric_unknown_fails:
  assumes "ORBITAL_ELEMENTS planet_id = None"
  shows "\<exists>err. geocentric_longitude planet_id jd = Inl err"
  using assms
  by (auto simp: geocentric_longitude_def elements_of_def bind_res_def Let_def split: sum.splits)

lemma geocentric_unknown_KeyError:
  assumes un: "ORBITAL_ELEMENTS planet_id = None" and T: "\<bar>julian_centuries jd\<bar> \<le> 100"
  shows "geocentric_longitude planet_id jd = Inl (KeyError planet_id)"
proof -
  obtain eel where eel: "ORBITAL_ELEMENTS ''earth'' = Some eel"
    by (simp add: ORBITAL_ELEMENTS_def)
  let ?T = "julian_centuries jd"
  have ne: "planet_id \<noteq> ''earth''" using un eel by auto
  have ee: "\<bar>el_e0 eel + el_e1 eel * ?T\<bar> < 1" by (rule eccentricity_bound [OF eel T])
  obtain E1 where E1: "solve_kepler
      (norm_deg (norm_deg (el_L0 eel + el_L1 eel * ?T) - norm_deg (el_w0 eel + el_w1 eel * ?T)) * DEG2RAD)
      (el_e0 eel + el_e1 eel * ?T) = Inr E1"
    using solve_kepler_returns [OF ee] by blast
  show ?thesis
    using ne
    by (simp add: geocentric_longitude_def elements_of_def eel un Let_def E1
        py_sqrt_returns [OF ee])
qed

lemma square_gt_one:
  fixes x :: real
  assumes "x < - 1"
  shows "1 < x * x"
proof -
  have "1 * 1 < (- x) * (- x)" using assms by (intro mult_strict_mono) auto
  then show ?thesis by (simp only: minus_mult_minus mult_1)
qed

lemma geocentric_far_future:
  "geocentric_longitude ''vulcan'' 1000000000 = Inl ZeroDivisionError
   \<or> geocentric_longitude ''vulcan'' 1000000000 = Inl (ValueError ''math domain error'')"
proof -
  obtain eel where eel: "ORBITAL_ELEMENTS ''earth'' = Some eel"
    and e0: "el_e0 eel = 0.01671123" and e1: "el_e1 eel = - 0.00004392"
    by (simp add: ORBITAL_ELEMENTS_def elements_def)
  let ?T = "julian_centuries 1000000000"
  let ?e = "el_e0 eel + el_e1 eel * ?T"
  let ?M = "norm_deg (norm_deg (el_L0 eel + el_L1 eel * ?T)
              - norm_deg (el_w0 eel + el_w1 eel * ?T)) * DEG2RAD"
  have "?e < - 1" by (simp add: e0 e1 julian_centuries_def J2000_def)
  then have "1 < ?e * ?e" by (rule square_gt_one)
  then have sq: "py_sqrt (1 - ?e * ?e) = Inl (ValueError ''math domain error'')"
    by (simp add: py_sqrt_def)
  show ?thesis
  proof (cases "solve_kepler ?M ?e")
    case (Inl err)
    then have "err = ZeroDivisionError"
      unfolding solve_kepler_def by (rule kepler_iterate_error)
    then show ?thesis
      using Inl by (simp add: geocentric_longitude_def Let_def elements_of_def eel)
  next
    case (Inr E)
    then show ?thesis
      using sq by (simp add: geocentric_longitude_def Let_def elements_of_def eel)
  qed
qed

lemma heliocentric_unknown:
  assumes "ORBITAL_ELEMENTS planet_id = None"
  shows "heliocentric_longitude planet_id jd =
           Inl (ValueError (''No orbital elements for: '' @ planet_id))"
  using assms by (simp add: heliocentric_longitude_def)

lemma geocentric_earth:
  "geocentric_longitude ''earth'' jd =
     Inl (ValueError ''Cannot compute geocentric longitude of Earth'')"
  by (simp add: geocentric_longitude_def)

lemma vulcan_unknown: "ORBITAL_ELEMENTS ''vulcan'' = None"
  by (simp add: ORBITAL_ELEMENTS_def)

text \<open>
  C7. A planet identifier with no orbital elements makes \<open>heliocentric_longitude\<close> raise its
  \<open>ValueError\<close> "No orbital elements for", and \<open>earth\<close> makes \<open>geocentric_longitude\<close> raise its
  \<open>ValueError\<close>, at every Julian Day. \<open>geocentric_longitude\<close> has no check of its own for an
  unknown identifier: it computes the Earth's position first and then subscripts the table.
  At J2000.0 the unknown identifier \<open>vulcan\<close> surfaces as the \<open>KeyError\<close> of that subscript;
  at the Julian Day \<open>10^9\<close>, where the Earth's extrapolated eccentricity is below \<open>-1\<close>, the call
  fails in the Earth computation, with a division by zero or the math domain error of the
  square root, before the identifier is looked at.
\<close>

theorem unknown_body_failures:
  "heliocentric_longitude ''vulcan'' jd = Inl (ValueError ''No orbital elements for: vulcan'')
   \<and> geocentric_longitude ''earth'' jd =
        Inl (ValueError ''Cannot compute geocentric longitude of Earth'')
   \<and> geocentric_longitude ''vulcan'' 2451545 = Inl (KeyError ''vulcan'')
   \<and> (geocentric_longitude ''vulcan'' 1000000000 = Inl ZeroDivisionError
        \<or> geocentric_longitude ''vulcan'' 1000000000 = Inl (ValueError ''math domain error''))"
proof -
  have "\<bar>julian_centuries 2451545\<bar> \<le> 100" by (simp add: julian_centuries_def J2000_def)
  then have "geocentric_longitude ''vulcan'' 2451545 = Inl (KeyError ''vulcan'')"
    by (rule geocentric_unknown_KeyError [OF vulcan_unknown])
  then show ?thesis
    using heliocentric_unknown [OF vulcan_unknown, of jd] geocentric_earth [of jd]
      geocentric_far_future
    by simp
qed

subsection \<open>House placement in a computed chart\<close>

lemma equal_cusps_unique_pair:
  assumes l: "0 \<le> lon" "lon < 360"
  shows "\<exists>!i. i < 12 \<and> cusp_pair_matches lon (equal_house_cusps asc ! i)
                         (equal_house_cusps asc ! ((i + 1) mod 12))"
proof -
  obtain k :: nat where k: "k < 12" "\<lfloor>norm_deg (lon - asc) / 30\<rfloor> = int k"
    by (rule sector_range)
  have "i < 12 \<and> cusp_pair_matches lon (equal_house_cusps asc ! i)
                         (equal_house_cusps asc ! ((i + 1) mod 12)) \<longleftrightarrow> i = k" for i
    using house_pair_iff [OF l, of i asc] k by auto
  then show ?thesis by simp
qed

lemma house_range:
  "1 \<le> \<lfloor>norm_deg x / 30\<rfloor> + 1 \<and> \<lfloor>norm_deg x / 30\<rfloor> + 1 \<le> 12"
proof -
  obtain k :: nat where "k < 12" "\<lfloor>norm_deg x / 30\<rfloor> = int k"
    by (rule sector_range)
  then show ?thesis by simp
qed

lemma built_house_range:
  assumes "0 \<le> lon" "lon < 360"
    and "build_position name lon (equal_house_cusps asc) r = Inr p"
  shows "1 \<le> house p \<and> house p \<le> 12"
  using assms(3) house_range [of "lon - asc"]
  unfolding build_position_returns [OF assms(1,2)] by auto

text \<open>
  C4. A chart that \<open>calculate_natal_chart\<close> returns has exactly 12 house cusps, the \<open>i\<close>-th
  being the ascendant plus \<open>30 i\<close> degrees, normalised. For a longitude in \<open>[0, 360)\<close> exactly one
  of the 12 consecutive cusp pairs matches, so the loop of \<open>_house_for_longitude\<close> returns
  from inside (the fallback after the loop is not reached) with a house number from 1 to 12;
  the houses of the ten planets of the chart are in that range.
\<close>

theorem house_cusps_partition:
  assumes ok: "calculate_natal_chart definitions bd = Inr ch"
    and l: "0 \<le> lon" "lon < 360"
  shows "length (houseCusps ch) = 12
       \<and> (\<forall>i<12. houseCusps ch ! i = norm_deg (totalDegrees (ascendant ch) + real i * 30))
       \<and> (\<exists>!i. i < 12 \<and> cusp_pair_matches lon (houseCusps ch ! i)
                              (houseCusps ch ! ((i + 1) mod 12)))
       \<and> (\<exists>h. house_scan [0..<12] lon (houseCusps ch) = Inr (Some h)
              \<and> house_for_longitude lon (houseCusps ch) = Inr h \<and> 1 \<le> h \<and> h \<le> 12)
       \<and> list_all (\<lambda>p. 1 \<le> house p \<and> house p \<le> 12) (planet_positions ch)"
proof -
  obtain asc where asc: "0 \<le> asc" "asc < 360"
    and cusps: "houseCusps ch = equal_house_cusps asc"
    and sgn: "degrees_to_sign asc = Inr (ascendant ch)"
    and built: "list_all (\<lambda>p. \<exists>name lon r. 0 \<le> lon \<and> lon < 360
                   \<and> build_position name lon (equal_house_cusps asc) r = Inr p)
                 (planet_positions ch)"
    using chart_structure [OF ok] by blast
  have "ascendant ch = \<lparr>sign = SIGN_ORDER ! nat \<lfloor>norm_deg asc / 30\<rfloor>,
          degrees = norm_deg asc - of_int \<lfloor>norm_deg asc / 30\<rfloor> * 30,
          totalDegrees = norm_deg asc\<rparr>"
    using sgn unfolding degrees_to_sign_returns by simp
  then have "totalDegrees (ascendant ch) = norm_deg asc" by simp
  then have td: "totalDegrees (ascendant ch) = asc" using asc by (simp add: norm_deg_id)
  have a: "length (houseCusps ch) = 12"
    unfolding cusps by (rule length_equal_house_cusps)
  have b: "\<forall>i<12. houseCusps ch ! i = norm_deg (totalDegrees (ascendant ch) + real i * 30)"
    unfolding cusps td by (simp add: nth_equal_house_cusps)
  have c: "\<exists>!i. i < 12 \<and> cusp_pair_matches lon (houseCusps ch ! i)
                              (houseCusps ch ! ((i + 1) mod 12))"
    unfolding cusps by (rule equal_cusps_unique_pair [OF l])
  have d: "\<exists>h. house_scan [0..<12] lon (houseCusps ch) = Inr (Some h)
              \<and> house_for_longitude lon (houseCusps ch) = Inr h \<and> 1 \<le> h \<and> h \<le> 12"
    unfolding cusps
    using house_scan_result [OF l, of asc] house_for_longitude_result [OF l, of asc]
      house_range [of "lon - asc"]
    by simp
  have e: "list_all (\<lambda>p. 1 \<le> house p \<and> house p \<le> 12) (planet_positions ch)"
    using built built_house_range unfolding list_all_iff by blast
  show ?thesis using a b c d e by blast
qed

theorem house_cusps_partition_witness:
  "\<exists>ch. calculate_natal_chart [] epoch_birth = Inr ch
        \<and> length (houseCusps ch) = 12
        \<and> houseCusps ch ! 3 = norm_deg (totalDegrees (ascendant ch) + 90)
        \<and> (\<exists>h. house_for_longitude 100 (houseCusps ch) = Inr h \<and> 1 \<le> h \<and> h \<le> 12)"
proof -
  obtain ch where ch: "calculate_natal_chart [] epoch_birth = Inr ch"
    using epoch_chart_returns by blast
  have l: "(0::real) \<le> 100" "(100::real) < 360" by simp_all
  show ?thesis
    using ch house_cusps_partition [OF ch l]
    by (intro exI [of _ ch]) auto
qed

subsection \<open>The aspect calculator\<close>

lemma separation_of_spec:
  "separation_of p1 p2 = spec_separation (totalDegrees p1) (totalDegrees p2)"
  by (simp add: separation_of_def spec_separation_def Let_def)

lemma aspects_of_pair_spec:
  "aspects_of_pair definitions p1 p2 acc =
     acc @ map (\<lambda>defn. spec_aspect defn p1 p2)
             (filter (\<lambda>defn. spec_matches defn p1 p2) definitions)"
  by (induction definitions arbitrary: acc)
     (simp_all add: Let_def separation_of_spec spec_matches_def spec_deviation_def spec_aspect_def)

lemma combos_of_pair:
  "map (\<lambda>((p1, p2), defn). spec_aspect defn p1 p2)
     (filter (\<lambda>((p1, p2), defn). spec_matches defn p1 p2) (map (Pair (a, b)) definitions)) =
   map (\<lambda>defn. spec_aspect defn a b) (filter (\<lambda>defn. spec_matches defn a b) definitions)"
  by (induction definitions) simp_all

lemma product_append_left:
  "List.product (xs @ ys) zs = List.product xs zs @ List.product ys zs"
  by (induction xs) simp_all

lemma aspects_inner_spec:
  "aspects_inner definitions p1 later acc =
     acc @ map (\<lambda>((p1, p2), defn). spec_aspect defn p1 p2)
             (filter (\<lambda>((p1, p2), defn). spec_matches defn p1 p2)
                (List.product (map (Pair p1) later) definitions))"
  by (induction later arbitrary: acc) (simp_all add: aspects_of_pair_spec combos_of_pair)

lemma aspects_outer_spec:
  "aspects_outer definitions positions acc = acc @ spec_discovery definitions positions"
  by (induction positions arbitrary: acc)
     (simp_all add: spec_discovery_def aspects_inner_spec product_append_left)

lemma py_round_nonneg: "0 \<le> x \<Longrightarrow> 0 \<le> py_round x"
  by (auto simp: py_round_def Let_def)

lemma spec_aspect_orb_nonneg: "0 \<le> orb (spec_aspect defn p1 p2)"
  by (simp add: spec_aspect_def spec_deviation_def py_round_nonneg)

lemma unordered_pairs_nth:
  "unordered_pairs xs =
     concat (map (\<lambda>i. map (\<lambda>j. (xs ! i, xs ! j)) [Suc i..<length xs]) [0..<length xs])"
proof (induction xs)
  case Nil
  then show ?case by simp
next
  case (Cons x xs)
  have first: "map (\<lambda>j. ((x # xs) ! 0, (x # xs) ! j)) [Suc 0..<length (x # xs)] = map (Pair x) xs"
  proof -
    have "[Suc 0..<length (x # xs)] = map Suc [0..<length xs]"
      by (simp add: map_Suc_upt)
    then have "map (\<lambda>j. ((x # xs) ! 0, (x # xs) ! j)) [Suc 0..<length (x # xs)] =
               map (\<lambda>j. (x, xs ! j)) [0..<length xs]"
      by (simp add: comp_def)
    also have "\<dots> = map (Pair x) (map (\<lambda>j. xs ! j) [0..<length xs])"
      by (simp add: comp_def)
    finally show ?thesis by (simp add: map_nth)
  qed
  have rest: "map (\<lambda>i. map (\<lambda>j. ((x # xs) ! i, (x # xs) ! j)) [Suc i..<length (x # xs)])
                (map Suc [0..<length xs]) =
              map (\<lambda>i. map (\<lambda>j. (xs ! i, xs ! j)) [Suc i..<length xs]) [0..<length xs]"
  proof -
    have "map (\<lambda>j. ((x # xs) ! Suc i, (x # xs) ! j)) [Suc (Suc i)..<length (x # xs)] =
          map (\<lambda>j. (xs ! i, xs ! j)) [Suc i..<length xs]" for i
    proof -
      have "[Suc (Suc i)..<length (x # xs)] = map Suc [Suc i..<length xs]"
        by (simp add: map_Suc_upt)
      then show ?thesis by (simp add: comp_def)
    qed
    then show ?thesis by (simp add: comp_def)
  qed
  have "[0..<length (x # xs)] = 0 # map Suc [0..<length xs]"
    by (simp only: length_Cons upt_conv_Cons [OF zero_less_Suc] map_Suc_upt)
  then have "concat (map (\<lambda>i. map (\<lambda>j. ((x # xs) ! i, (x # xs) ! j)) [Suc i..<length (x # xs)])
                  [0..<length (x # xs)]) =
        map (\<lambda>j. ((x # xs) ! 0, (x # xs) ! j)) [Suc 0..<length (x # xs)] @
        concat (map (\<lambda>i. map (\<lambda>j. ((x # xs) ! i, (x # xs) ! j)) [Suc i..<length (x # xs)])
                  (map Suc [0..<length xs]))"
    by simp
  then show ?case unfolding first rest using Cons.IH by simp
qed

text \<open>
  C5. \<open>calculate_aspects\<close> returns the stable sort by orb of the discovery list of the
  specification: one aspect for each combination of an unordered pair of positions and an
  aspect definition for which the separation, \<open>|lon1 - lon2|\<close> folded to at most 180, is
  within the orb tolerance of the exact angle, with the deviation rounded to two decimals as
  its orb. So the number of aspects is the number of matching combinations, every orb is at
  least 0, the result is sorted ascending by orb, and aspects of equal orb keep their discovery
  order (pair order, then definition order). The unordered pairs are the pairs of the positions
  at indices \<open>i < j\<close>.
\<close>

theorem calculate_aspects_spec:
  "calculate_aspects definitions positions = sort_key orb (spec_discovery definitions positions)
   \<and> length (calculate_aspects definitions positions) =
       length (filter (\<lambda>((p1, p2), defn). spec_matches defn p1 p2)
                 (List.product (unordered_pairs positions) definitions))
   \<and> list_all (\<lambda>a. 0 \<le> orb a) (calculate_aspects definitions positions)
   \<and> sorted (map orb (calculate_aspects definitions positions))
   \<and> (\<forall>k. filter (\<lambda>a. orb a = k) (calculate_aspects definitions positions) =
            filter (\<lambda>a. orb a = k) (spec_discovery definitions positions))
   \<and> unordered_pairs positions =
       concat (map (\<lambda>i. map (\<lambda>j. (positions ! i, positions ! j)) [Suc i..<length positions])
                 [0..<length positions])"
proof -
  have eq: "calculate_aspects definitions positions =
              sort_key orb (spec_discovery definitions positions)"
    by (simp add: calculate_aspects_def aspects_outer_spec)
  have len: "length (calculate_aspects definitions positions) =
       length (filter (\<lambda>((p1, p2), defn). spec_matches defn p1 p2)
                 (List.product (unordered_pairs positions) definitions))"
    unfolding eq by (simp add: spec_discovery_def)
  have "list_all (\<lambda>a. 0 \<le> orb a) (spec_discovery definitions positions)"
    by (auto simp: spec_discovery_def list_all_iff spec_aspect_orb_nonneg)
  then have nonneg: "list_all (\<lambda>a. 0 \<le> orb a) (calculate_aspects definitions positions)"
    unfolding eq by (simp add: list_all_iff)
  have srt: "sorted (map orb (calculate_aspects definitions positions))"
    unfolding eq by (rule sorted_sort_key)
  have stable: "\<forall>k. filter (\<lambda>a. orb a = k) (calculate_aspects definitions positions) =
            filter (\<lambda>a. orb a = k) (spec_discovery definitions positions)"
    unfolding eq by (simp add: sort_key_stable)
  show ?thesis
    using eq len nonneg srt stable unordered_pairs_nth [of positions] by blast
qed

lemma calculate_aspects_example:
  "calculate_aspects
     [\<lparr>defn_name = ''Conjunction'', defn_symbol = ''c'', defn_degrees = 0, defn_orb = 8,
       defn_nature = ''neutral''\<rparr>,
      \<lparr>defn_name = ''Square'', defn_symbol = ''s'', defn_degrees = 90, defn_orb = 8,
       defn_nature = ''challenging''\<rparr>]
     [\<lparr>sign = ''aries'', degrees = 10, totalDegrees = 10,
       planet = ''sun'', house = 1, retrograde = False\<rparr>,
      \<lparr>sign = ''cancer'', degrees = 10.03, totalDegrees = 100.03,
       planet = ''moon'', house = 4, retrograde = False\<rparr>,
      \<lparr>sign = ''aries'', degrees = 12.5, totalDegrees = 12.5,
       planet = ''mercury'', house = 1, retrograde = True\<rparr>] =
   [\<lparr>planet1 = ''sun'', planet2 = ''moon'', aspectName = ''Square'', aspectSymbol = ''s'',
      exactDegrees = 90, actualDegrees = 90.03, orb = 0.03, nature = ''challenging''\<rparr>,
    \<lparr>planet1 = ''moon'', planet2 = ''mercury'', aspectName = ''Square'', aspectSymbol = ''s'',
      exactDegrees = 90, actualDegrees = 87.53, orb = 2.47, nature = ''challenging''\<rparr>,
    \<lparr>planet1 = ''sun'', planet2 = ''mercury'', aspectName = ''Conjunction'',
      aspectSymbol = ''c'', exactDegrees = 0, actualDegrees = 2.5, orb = 2.5,
      nature = ''neutral''\<rparr>]"
  by (simp add: calculate_aspects_def separation_of_def py_round_def Let_def)

subsection \<open>Stored positions after rounding\<close>

lemma sin_norm_deg:
  "sin (of_int k * (norm_deg x * DEG2RAD)) = sin (of_int k * (x * DEG2RAD))"
proof -
  obtain n :: int where n: "norm_deg x = x + 360 * of_int n" using norm_deg_decomp by blast
  have "of_int k * (norm_deg x * DEG2RAD) = of_int k * (x * DEG2RAD) + 2 * pi * of_int (k * n)"
    unfolding n DEG2RAD_def by (simp add: algebra_simps)
  then have "sin (of_int k * (norm_deg x * DEG2RAD)) = sin (of_int k * (x * DEG2RAD))
      \<and> cos (of_int k * (norm_deg x * DEG2RAD)) = cos (of_int k * (x * DEG2RAD))"
    unfolding sin_cos_eq_iff by blast
  then show ?thesis by simp
qed

lemma sin_norm_deg1: "sin (norm_deg x * DEG2RAD) = sin (x * DEG2RAD)"
  using sin_norm_deg [of 1 x] by simp

lemma sin_norm_deg2: "sin (2 * (norm_deg x * DEG2RAD)) = sin (2 * (x * DEG2RAD))"
  using sin_norm_deg [of 2 x] by simp

lemma sin_norm_deg3: "sin (3 * (norm_deg x * DEG2RAD)) = sin (3 * (x * DEG2RAD))"
  using sin_norm_deg [of 3 x] by simp

lemma norm_deg_add_norm: "norm_deg (x + norm_deg y) = norm_deg (x + y)"
  using norm_deg_norm_add [of y x] by (simp add: add.commute)

lemma sun_longitude_unnormalised:
  "sun_longitude jd = norm_deg (sun_apparent_unnormalised (julian_centuries jd))"
proof -
  have "norm_deg (norm_deg (norm_deg a + c) - p - q) = norm_deg (a + c - p - q)" for a c p q :: real
  proof -
    have "norm_deg (norm_deg (norm_deg a + c) - p - q) = norm_deg (norm_deg (norm_deg a + c) + (- p - q))"
      by (simp add: algebra_simps)
    also have "\<dots> = norm_deg (norm_deg a + c + (- p - q))" by (rule norm_deg_norm_add)
    also have "\<dots> = norm_deg (norm_deg a + (c + (- p - q)))" by (simp add: algebra_simps)
    also have "\<dots> = norm_deg (a + (c + (- p - q)))" by (rule norm_deg_norm_add)
    finally show ?thesis by (simp add: algebra_simps)
  qed
  then show ?thesis
    by (simp add: sun_longitude_def sun_apparent_unnormalised_def Let_def
        sin_norm_deg1 sin_norm_deg2 sin_norm_deg3)
qed

lemma isCont_sun_apparent: "isCont sun_apparent_unnormalised T"
  unfolding sun_apparent_unnormalised_def Let_def
  by (intro continuous_intros)

lemma scaled_sin_bounds:
  fixes c :: real
  assumes "0 \<le> c"
  shows "- c \<le> c * sin x \<and> c * sin x \<le> c"
proof -
  have "c * (- 1) \<le> c * sin x" using assms by (intro mult_left_mono) auto
  moreover have "c * sin x \<le> c * 1" using assms by (intro mult_left_mono) auto
  ultimately show ?thesis by simp
qed

lemma scaled_sin_abs:
  fixes c :: real
  assumes "0 \<le> c"
  shows "\<bar>c * sin x\<bar> \<le> c"
  using scaled_sin_bounds [OF assms, of x] by (simp add: abs_le_iff)

lemma sun_apparent_near:
  assumes "0 \<le> T" "T \<le> 1"
  shows "\<bar>sun_apparent_unnormalised T - (280.46646 + 36000.76983 * T + 0.0003032 * T * T)\<bar> \<le> 2"
proof -
  let ?M = "(357.52911 + 35999.05029 * T - 0.0001537 * T * T) * DEG2RAD"
  let ?c1 = "1.914602 - 0.004817 * T - 0.000014 * T * T"
  let ?c2 = "0.019993 - 0.000101 * T"
  have T2: "0 \<le> T * T" "T * T \<le> 1" using assms by (simp_all add: mult_le_one)
  have q: "0 \<le> 1.914602 - 0.004817 * T - 0.000014 * s
      \<and> 1.914602 - 0.004817 * T - 0.000014 * s \<le> 1.914602"
    if "0 \<le> s" "s \<le> 1" for s :: real
    using assms that by simp
  have c1: "0 \<le> ?c1" "?c1 \<le> 1.914602"
    using q [OF T2] by (simp_all only: mult.assoc)
  have c2: "0 \<le> ?c2" "?c2 \<le> 0.019993" using assms by simp_all
  define a1 where "a1 = ?c1 * sin ?M"
  define a2 where "a2 = ?c2 * sin (2 * ?M)"
  define a3 where "a3 = 0.000289 * sin (3 * ?M)"
  define a4 where "a4 = 0.00478 * sin ((125.04 - 1934.136 * T) * DEG2RAD)"
  have "\<bar>a1\<bar> \<le> ?c1" unfolding a1_def by (rule scaled_sin_abs [OF c1(1)])
  then have b1: "\<bar>a1\<bar> \<le> 1.914602" using c1(2) by linarith
  have "\<bar>a2\<bar> \<le> ?c2" unfolding a2_def by (rule scaled_sin_abs [OF c2(1)])
  then have b2: "\<bar>a2\<bar> \<le> 0.019993" using c2(2) by linarith
  have b3: "\<bar>a3\<bar> \<le> 0.000289" unfolding a3_def by (rule scaled_sin_abs) simp
  have b4: "\<bar>a4\<bar> \<le> 0.00478" unfolding a4_def by (rule scaled_sin_abs) simp
  have "sun_apparent_unnormalised T - (280.46646 + 36000.76983 * T + 0.0003032 * T * T) =
          a1 + a2 + a3 - 0.00569 - a4"
    unfolding sun_apparent_unnormalised_def Let_def a1_def a2_def a3_def a4_def by simp
  then show ?thesis using b1 b2 b3 b4 by simp
qed

lemma sun_apparent_crosses:
  "\<exists>T. 0 \<le> T \<and> T \<le> 1 / 100 \<and> sun_apparent_unnormalised T = 359.996"
proof (rule IVT)
  show "sun_apparent_unnormalised 0 \<le> 359.996"
    using sun_apparent_near [of 0] by (simp add: abs_le_iff)
  show "359.996 \<le> sun_apparent_unnormalised (1 / 100)"
    using sun_apparent_near [of "1 / 100"] by (simp add: abs_le_iff)
  show "(0::real) \<le> 1 / 100" by simp
  show "\<forall>T. 0 \<le> T \<and> T \<le> 1 / 100 \<longrightarrow> isCont sun_apparent_unnormalised T"
    by (simp add: isCont_sun_apparent)
qed

lemma shifted_birth_julian_day:
  "birth_julian_day (epoch_birth\<lparr>timezone := Some tz\<rparr>) = 2451545 - tz / 24"
  by (simp add: birth_julian_day_def epoch_birth_def to_julian_day_def py_int_def Let_def
      diff_divide_distrib)

lemma chart_sun:
  assumes ok: "calculate_natal_chart definitions bd = Inr ch"
  shows "\<exists>asc. build_position ''sun'' (sun_longitude (birth_julian_day bd))
                 (equal_house_cusps asc) False = Inr (sun ch)"
  using ok
  unfolding calculate_natal_chart_def Let_def
  apply (simp only: bind_res_eq_Inr)
  apply (elim exE conjE)
  apply (simp only: sum.inject)
  apply hypsubst
  apply (simp only: NatalChart.simps)
  apply blast
  done

lemma rounded_360:
  "build_position name 359.996 (equal_house_cusps asc) retro = Inr p \<Longrightarrow>
     totalDegrees p = 360 \<and> degrees p = 30 \<and> sign p = ''pisces''"
  apply (subst (asm) build_position_returns)
    apply simp
   apply simp
  apply (auto simp: py_round_def SIGN_ORDER_def Let_def)
  done

lemma chart_sun_rounds_to_360:
  "\<exists>tz ch. calculate_natal_chart definitions (epoch_birth\<lparr>timezone := Some tz\<rparr>) = Inr ch
      \<and> totalDegrees (sun ch) = 360 \<and> degrees (sun ch) = 30 \<and> sign (sun ch) = ''pisces''"
proof -
  obtain T where T: "0 \<le> T" "T \<le> 1 / 100" and v: "sun_apparent_unnormalised T = 359.996"
    using sun_apparent_crosses by blast
  define tz where "tz = - 876600 * T"
  let ?bd = "epoch_birth\<lparr>timezone := Some tz\<rparr>"
  have jd: "julian_centuries (birth_julian_day ?bd) = T"
    by (simp add: shifted_birth_julian_day julian_centuries_def J2000_def tz_def)
  have "\<bar>julian_centuries (birth_julian_day ?bd)\<bar> \<le> 99" using T unfolding jd by simp
  then obtain ch where ch: "calculate_natal_chart definitions ?bd = Inr ch"
    using calculate_natal_chart_returns by blast
  have "sun_longitude (birth_julian_day ?bd) = norm_deg 359.996"
    unfolding sun_longitude_unnormalised jd v ..
  then have sl: "sun_longitude (birth_julian_day ?bd) = 359.996"
    by (simp add: norm_deg_id)
  obtain asc where "build_position ''sun'' 359.996 (equal_house_cusps asc) False = Inr (sun ch)"
    using chart_sun [OF ch] unfolding sl by blast
  then have "totalDegrees (sun ch) = 360 \<and> degrees (sun ch) = 30 \<and> sign (sun ch) = ''pisces''"
    by (rule rounded_360)
  with ch show ?thesis by blast
qed

subsection \<open>Directions seen from the Earth\<close>

lemma atan2_range: "- pi < atan2 y x \<and> atan2 y x \<le> pi"
proof -
  have a: "- (pi / 2) < arctan (y / x)" "arctan (y / x) < pi / 2"
    by (rule arctan_lbound, rule arctan_ubound)
  have p: "0 < pi" by simp
  consider "0 < x" | "x < 0" "0 \<le> y" | "x < 0" "y < 0" | "x = 0" by linarith
  then show ?thesis
  proof cases
    case 1
    then show ?thesis using a p by (simp add: atan2_def)
  next
    case 2
    then have "y / x \<le> 0" by (simp add: divide_nonneg_neg)
    then have "arctan (y / x) \<le> 0" by (simp add: arctan_le_zero_iff)
    then show ?thesis using 2 a p by (simp add: atan2_def)
  next
    case 3
    then have "0 < y / x" by (simp add: divide_neg_neg)
    then have "0 < arctan (y / x)" by (simp add: zero_less_arctan_iff)
    then show ?thesis using 3 a p by (simp add: atan2_def)
  next
    case 4
    then have "atan2 y x = pi / 2 \<or> atan2 y x = - (pi / 2) \<or> atan2 y x = 0"
      by (simp add: atan2_def)
    then show ?thesis using p by linarith
  qed
qed

lemma sqrt_sum_squares_pos:
  fixes x y :: real
  assumes "0 < x"
  shows "sqrt (x\<^sup>2 + y\<^sup>2) = x * sqrt (1 + (y / x)\<^sup>2)"
proof -
  have "x\<^sup>2 + y\<^sup>2 = x\<^sup>2 * (1 + (y / x)\<^sup>2)"
    using assms by (simp add: field_simps power2_eq_square)
  then have "sqrt (x\<^sup>2 + y\<^sup>2) = sqrt (x\<^sup>2) * sqrt (1 + (y / x)\<^sup>2)"
    by (simp add: real_sqrt_mult)
  then show ?thesis using assms by simp
qed

lemma polar_arctan_pos:
  fixes x y :: real
  assumes "0 < x"
  shows "x = sqrt (x\<^sup>2 + y\<^sup>2) * cos (arctan (y / x))"
    and "y = sqrt (x\<^sup>2 + y\<^sup>2) * sin (arctan (y / x))"
proof -
  have pos: "0 < sqrt (1 + (y / x)\<^sup>2)"
    by (simp add: add_pos_nonneg)
  show "x = sqrt (x\<^sup>2 + y\<^sup>2) * cos (arctan (y / x))"
    unfolding sqrt_sum_squares_pos [OF assms] cos_arctan using pos by simp
  show "y = sqrt (x\<^sup>2 + y\<^sup>2) * sin (arctan (y / x))"
    unfolding sqrt_sum_squares_pos [OF assms] sin_arctan using pos assms by simp
qed

lemma atan2_polar:
  "x = sqrt (x\<^sup>2 + y\<^sup>2) * cos (atan2 y x) \<and> y = sqrt (x\<^sup>2 + y\<^sup>2) * sin (atan2 y x)"
proof -
  consider "0 < x" | "x < 0" | "x = 0" "0 < y" | "x = 0" "y < 0" | "x = 0" "y = 0" by linarith
  then show ?thesis
  proof cases
    case 1
    then show ?thesis using polar_arctan_pos [OF 1, of y] by (simp add: atan2_def)
  next
    case 2
    then have nx: "0 < - x" by simp
    have q: "(- y) / (- x) = y / x" by simp
    have s: "(- x)\<^sup>2 + (- y)\<^sup>2 = x\<^sup>2 + y\<^sup>2" by simp
    note pp = polar_arctan_pos [OF nx, of "- y", unfolded q s]
    have c: "x = - (sqrt (x\<^sup>2 + y\<^sup>2) * cos (arctan (y / x)))" using pp(1) by linarith
    have d: "y = - (sqrt (x\<^sup>2 + y\<^sup>2) * sin (arctan (y / x)))" using pp(2) by linarith
    show ?thesis
    proof (cases "0 \<le> y")
      case True
      then have "atan2 y x = arctan (y / x) + pi" using 2 by (simp add: atan2_def)
      then show ?thesis using c d by simp
    next
      case False
      then have "atan2 y x = arctan (y / x) - pi" using 2 by (simp add: atan2_def)
      then show ?thesis using c d by simp
    qed
  next
    case 3
    then show ?thesis by (simp add: atan2_def)
  next
    case 4
    then show ?thesis by (simp add: atan2_def)
  next
    case 5
    then show ?thesis by (simp add: atan2_def)
  qed
qed

lemma norm_deg_inj_half_turn:
  assumes a: "- 180 < a" "a \<le> 180" and b: "- 180 < b" "b \<le> 180"
    and eq: "norm_deg a = norm_deg b"
  shows "a = b"
proof -
  obtain k :: int where k: "norm_deg a = a + 360 * of_int k" using norm_deg_decomp by blast
  obtain l :: int where l: "norm_deg b = b + 360 * of_int l" using norm_deg_decomp by blast
  have d: "a - b = 360 * of_int (l - k)" using eq k l by simp
  have "\<bar>a - b\<bar> < 360" using a b by linarith
  then have "\<bar>360 * real_of_int (l - k)\<bar> < 360 * 1" unfolding d by simp
  then have "\<bar>real_of_int (l - k)\<bar> < 1" by (simp add: abs_mult)
  then have "l - k = 0" by linarith
  then show ?thesis using d by simp
qed

lemma atan2_deg_inj:
  assumes "norm_deg (atan2 y1 x1 * RAD2DEG) = norm_deg (atan2 y2 x2 * RAD2DEG)"
  shows "atan2 y1 x1 = atan2 y2 x2"
proof -
  have p: "0 < pi" by simp
  have r: "- 180 < t * RAD2DEG \<and> t * RAD2DEG \<le> 180" if "- pi < t" "t \<le> pi" for t
  proof -
    define u where "u = t / pi"
    have e: "t * RAD2DEG = u * 180" by (simp add: RAD2DEG_def u_def)
    have "- 1 < u" unfolding u_def using that p by (simp add: pos_less_divide_eq)
    moreover have "u \<le> 1" unfolding u_def using that p by (simp add: pos_divide_le_eq)
    ultimately show ?thesis unfolding e by linarith
  qed
  have "atan2 y1 x1 * RAD2DEG = atan2 y2 x2 * RAD2DEG"
    using norm_deg_inj_half_turn [OF _ _ _ _ assms] r atan2_range by blast
  then show ?thesis by (simp add: RAD2DEG_def)
qed

lemma ray_meets_circle_once:
  fixes r1 r2 b c0 :: real
  assumes r: "0 < r1" "0 < r2" and c0: "c0 < 0"
    and e1: "r1 * r1 + 2 * b * r1 + c0 = 0" and e2: "r2 * r2 + 2 * b * r2 + c0 = 0"
  shows "r1 = r2"
proof (rule ccontr)
  assume ne: "r1 \<noteq> r2"
  have "(r1 - r2) * (r1 + r2 + 2 * b) = 0"
    using e1 e2 by (simp add: algebra_simps)
  then have "r1 + r2 + 2 * b = 0" using ne by simp
  then have b: "2 * b = - (r1 + r2)" by linarith
  have "r1 * r1 + (2 * b) * r1 + c0 = 0" using e1 by simp
  then have "c0 = r1 * r2" unfolding b by (simp add: algebra_simps)
  moreover have "0 < r1 * r2" using r by simp
  ultimately show False using c0 by simp
qed

lemma chord_equation:
  fixes r c s ct st ex ey R :: real
  assumes "ex + r * c = R * ct" and "ey + r * s = R * st"
    and "c * c + s * s = 1" and "ct * ct + st * st = 1"
  shows "r * r + 2 * (ex * c + ey * s) * r + (ex * ex + ey * ey - R * R) = 0"
proof -
  have "(ex + r * c) * (ex + r * c) + (ey + r * s) * (ey + r * s) = R * R * (ct * ct + st * st)"
    unfolding assms(1,2) by (simp add: algebra_simps)
  then have "(ex + r * c) * (ex + r * c) + (ey + r * s) * (ey + r * s) = R * R"
    unfolding assms(4) by simp
  moreover have "(ex + r * c) * (ex + r * c) + (ey + r * s) * (ey + r * s) =
      r * r * (c * c + s * s) + 2 * (ex * c + ey * s) * r + (ex * ex + ey * ey)"
    by (simp add: algebra_simps)
  ultimately have "r * r * (c * c + s * s) + 2 * (ex * c + ey * s) * r + (ex * ex + ey * ey) = R * R"
    by simp
  then show ?thesis unfolding assms(3) by simp
qed

lemma same_direction_same_point:
  fixes R ex ey t1 t2 :: real
  assumes R: "0 < R" and inside: "ex * ex + ey * ey < R * R"
    and eq: "norm_deg (atan2 (R * sin t1 - ey) (R * cos t1 - ex) * RAD2DEG) =
             norm_deg (atan2 (R * sin t2 - ey) (R * cos t2 - ex) * RAD2DEG)"
  shows "sin t1 = sin t2 \<and> cos t1 = cos t2"
proof -
  define x1 y1 x2 y2 where "x1 = R * cos t1 - ex" and "y1 = R * sin t1 - ey"
    and "x2 = R * cos t2 - ex" and "y2 = R * sin t2 - ey"
  define al where "al = atan2 y1 x1"
  have al2: "atan2 y2 x2 = al"
    unfolding al_def x1_def y1_def x2_def y2_def using atan2_deg_inj [OF eq] by simp
  define r1 r2 where "r1 = sqrt (x1\<^sup>2 + y1\<^sup>2)" and "r2 = sqrt (x2\<^sup>2 + y2\<^sup>2)"
  have p1: "x1 = r1 * cos al" "y1 = r1 * sin al"
    unfolding r1_def al_def using atan2_polar [of x1 y1] by simp_all
  have p2: "x2 = r2 * cos al" "y2 = r2 * sin al"
    unfolding r2_def al2 [symmetric] using atan2_polar [of x2 y2] by simp_all
  have cs: "cos al * cos al + sin al * sin al = 1"
    using sin_cos_squared_add2 [of al] by (simp add: power2_eq_square)
  have cs1: "cos t1 * cos t1 + sin t1 * sin t1 = 1"
    using sin_cos_squared_add2 [of t1] by (simp add: power2_eq_square)
  have cs2: "cos t2 * cos t2 + sin t2 * sin t2 = 1"
    using sin_cos_squared_add2 [of t2] by (simp add: power2_eq_square)
  have c0: "ex * ex + ey * ey - R * R < 0" using inside by simp
  have q1: "r1 * r1 + 2 * (ex * cos al + ey * sin al) * r1 + (ex * ex + ey * ey - R * R) = 0"
  proof (rule chord_equation [OF _ _ cs cs1])
    show "ex + r1 * cos al = R * cos t1" using p1(1) unfolding x1_def by simp
    show "ey + r1 * sin al = R * sin t1" using p1(2) unfolding y1_def by simp
  qed
  have q2: "r2 * r2 + 2 * (ex * cos al + ey * sin al) * r2 + (ex * ex + ey * ey - R * R) = 0"
  proof (rule chord_equation [OF _ _ cs cs2])
    show "ex + r2 * cos al = R * cos t2" using p2(1) unfolding x2_def by simp
    show "ey + r2 * sin al = R * sin t2" using p2(2) unfolding y2_def by simp
  qed
  have n1: "0 \<le> r1" and n2: "0 \<le> r2" unfolding r1_def r2_def by simp_all
  have "r1 \<noteq> 0" using q1 c0 by auto
  then have g1: "0 < r1" using n1 by simp
  have "r2 \<noteq> 0" using q2 c0 by auto
  then have g2: "0 < r2" using n2 by simp
  have rr: "r1 = r2" by (rule ray_meets_circle_once [OF g1 g2 c0 q1 q2])
  have "x1 = x2" "y1 = y2" using p1 p2 rr by simp_all
  then have "R * cos t1 = R * cos t2" "R * sin t1 = R * sin t2"
    unfolding x1_def y1_def x2_def y2_def by simp_all
  then show ?thesis using R by simp
qed

lemma geocentric_refines:
  "geocentric_longitude planet_id jd = geocentric_from perihelion_longitude planet_id jd"
  by (simp add: geocentric_longitude_def geocentric_from_def body_position_def
      perihelion_longitude_def cartesian_def orbit_radius_def true_anomaly_deg_def
      eccentricity_at_def bind_res_def Let_def py_sqrt_def split: sum.splits)

lemma body_position_returns:
  assumes "\<bar>eccentricity_at el T\<bar> < 1"
  shows "\<exists>E. \<forall>lon_of. body_position lon_of el T =
           Inr (cartesian (orbit_radius el T E)
                  (lon_of (true_anomaly_deg el T E) (norm_deg (el_w0 el + el_w1 el * T))
                     (norm_deg (el_W0 el + el_W1 el * T))))"
proof -
  let ?e = "eccentricity_at el T"
  obtain E where E: "solve_kepler
      (norm_deg (norm_deg (el_L0 el + el_L1 el * T) - norm_deg (el_w0 el + el_w1 el * T)) * DEG2RAD)
      ?e = Inr E"
    using solve_kepler_returns [OF assms] by blast
  show ?thesis
    by (rule exI [of _ E]) (simp add: body_position_def Let_def E py_sqrt_returns [OF assms])
qed

lemma orbit_radius_bounds:
  assumes a: "0 < el_a el" and e: "\<bar>eccentricity_at el T\<bar> \<le> b"
  shows "el_a el * (1 - b) \<le> orbit_radius el T E \<and> orbit_radius el T E \<le> el_a el * (1 + b)"
proof -
  let ?e = "eccentricity_at el T"
  have "\<bar>cos E\<bar> \<le> 1" by (rule abs_cos_le_one)
  then have "\<bar>?e\<bar> * \<bar>cos E\<bar> \<le> \<bar>?e\<bar> * 1" by (intro mult_left_mono) auto
  then have "\<bar>?e * cos E\<bar> \<le> b" using e by (simp add: abs_mult)
  then have "1 - b \<le> 1 - ?e * cos E" "1 - ?e * cos E \<le> 1 + b" by linarith+
  then have "el_a el * (1 - b) \<le> el_a el * (1 - ?e * cos E)"
    and "el_a el * (1 - ?e * cos E) \<le> el_a el * (1 + b)"
    using a by (simp_all add: mult_left_mono)
  then show ?thesis by (simp add: orbit_radius_def)
qed

lemma node_shift_changes_direction:
  fixes R ex ey u W :: real
  assumes R: "0 < R" and inside: "ex * ex + ey * ey < R * R"
    and W: "0 < W" "W < 360"
    and eq: "norm_deg (atan2 (R * sin (norm_deg u * DEG2RAD) - ey)
                             (R * cos (norm_deg u * DEG2RAD) - ex) * RAD2DEG) =
             norm_deg (atan2 (R * sin (norm_deg (u - W) * DEG2RAD) - ey)
                             (R * cos (norm_deg (u - W) * DEG2RAD) - ex) * RAD2DEG)"
  shows False
proof -
  have "sin (norm_deg u * DEG2RAD) = sin (norm_deg (u - W) * DEG2RAD)
      \<and> cos (norm_deg u * DEG2RAD) = cos (norm_deg (u - W) * DEG2RAD)"
    by (rule same_direction_same_point [OF R inside eq])
  then obtain n :: int where n: "norm_deg u * DEG2RAD = norm_deg (u - W) * DEG2RAD + 2 * pi * of_int n"
    unfolding sin_cos_eq_iff by blast
  have "norm_deg u * DEG2RAD * (180 / pi) =
          (norm_deg (u - W) * DEG2RAD + 2 * pi * of_int n) * (180 / pi)"
    using n by simp
  then have d: "norm_deg u = norm_deg (u - W) + 360 * of_int n"
    by (simp add: DEG2RAD_def algebra_simps)
  obtain k :: int where k: "norm_deg u = u + 360 * of_int k" using norm_deg_decomp by blast
  obtain l :: int where l: "norm_deg (u - W) = u - W + 360 * of_int l"
    using norm_deg_decomp by blast
  have "W = 360 * of_int (n + l - k)" using d k l by simp
  then obtain m :: int where m: "W = 360 * of_int m" by blast
  have "0 < m" using W(1) unfolding m by simp
  moreover have "m < 1" using W(2) unfolding m by simp
  ultimately show False by simp
qed

lemma mars_node_term_matters:
  "geocentric_from perihelion_longitude ''mars'' 2451545 \<noteq>
   geocentric_from spec_plane_longitude ''mars'' 2451545"
proof
  assume same: "geocentric_from perihelion_longitude ''mars'' 2451545 =
                geocentric_from spec_plane_longitude ''mars'' 2451545"
  obtain eel where eel: "ORBITAL_ELEMENTS ''earth'' = Some eel"
    and ee: "el_e0 eel = 0.01671123" "el_e1 eel = - 0.00004392" "el_a eel = 1.00000261"
      "el_W0 eel = 0" "el_W1 eel = 0"
    by (simp add: ORBITAL_ELEMENTS_def elements_def)
  obtain mel where mel: "ORBITAL_ELEMENTS ''mars'' = Some mel"
    and me: "el_e0 mel = 0.09339410" "el_e1 mel = 0.00007882" "el_a mel = 1.52371034"
      "el_W0 mel = 49.55953891" "el_W1 mel = - 0.29257343"
    by (simp add: ORBITAL_ELEMENTS_def elements_def)
  have T: "julian_centuries 2451545 = 0" by (simp add: julian_centuries_def J2000_def)
  have ece: "eccentricity_at eel 0 = 0.01671123" by (simp add: eccentricity_at_def ee)
  have ecm: "eccentricity_at mel 0 = 0.09339410" by (simp add: eccentricity_at_def me)
  have We: "norm_deg (el_W0 eel + el_W1 eel * 0) = 0" by (simp add: ee norm_deg_id)
  have Wm: "norm_deg (el_W0 mel + el_W1 mel * 0) = 49.55953891" by (simp add: me norm_deg_id)
  obtain Ee where Ee: "\<And>lon_of. body_position lon_of eel 0 =
           Inr (cartesian (orbit_radius eel 0 Ee)
                  (lon_of (true_anomaly_deg eel 0 Ee) (norm_deg (el_w0 eel + el_w1 eel * 0)) 0))"
    using body_position_returns [of eel 0] unfolding ece We by auto
  obtain Em where Em: "\<And>lon_of. body_position lon_of mel 0 =
           Inr (cartesian (orbit_radius mel 0 Em)
                  (lon_of (true_anomaly_deg mel 0 Em) (norm_deg (el_w0 mel + el_w1 mel * 0))
                     49.55953891))"
    using body_position_returns [of mel 0] unfolding ecm Wm by auto
  define Re where "Re = orbit_radius eel 0 Ee"
  define Rm where "Rm = orbit_radius mel 0 Em"
  define le where "le = norm_deg (true_anomaly_deg eel 0 Ee + norm_deg (el_w0 eel + el_w1 eel * 0))"
  define u where "u = true_anomaly_deg mel 0 Em + norm_deg (el_w0 mel + el_w1 mel * 0)"
  have Re: "0 < Re" "Re \<le> 1.02"
    using orbit_radius_bounds [of eel 0 "0.01671123" Ee] unfolding Re_def ece ee by simp_all
  have Rm: "1.38 \<le> Rm"
    using orbit_radius_bounds [of mel 0 "0.09339410" Em] unfolding Rm_def ecm me by simp
  have Rm0: "0 < Rm" using Rm by simp
  have "Re * Re \<le> 1.02 * 1.02" using Re by (intro mult_mono) simp_all
  moreover have "1.38 * 1.38 \<le> Rm * Rm" using Rm by (intro mult_mono) simp_all
  ultimately have lt: "Re * Re < Rm * Rm" by simp
  define c s where "c = cos (le * DEG2RAD)" and "s = sin (le * DEG2RAD)"
  have cs: "c * c + s * s = 1"
    unfolding c_def s_def using sin_cos_squared_add2 [of "le * DEG2RAD"]
    by (simp add: power2_eq_square)
  have "(Re * c) * (Re * c) + (Re * s) * (Re * s) = Re * Re * (c * c + s * s)"
    by (simp add: algebra_simps)
  then have "(Re * c) * (Re * c) + (Re * s) * (Re * s) < Rm * Rm"
    unfolding cs using lt by simp
  then have inside: "(Re * cos (le * DEG2RAD)) * (Re * cos (le * DEG2RAD))
        + (Re * sin (le * DEG2RAD)) * (Re * sin (le * DEG2RAD)) < Rm * Rm"
    unfolding c_def s_def .
  have eq: "norm_deg (atan2 (Rm * sin (norm_deg u * DEG2RAD) - Re * sin (le * DEG2RAD))
                            (Rm * cos (norm_deg u * DEG2RAD) - Re * cos (le * DEG2RAD)) * RAD2DEG) =
            norm_deg (atan2 (Rm * sin (norm_deg (u - 49.55953891) * DEG2RAD) - Re * sin (le * DEG2RAD))
                            (Rm * cos (norm_deg (u - 49.55953891) * DEG2RAD) - Re * cos (le * DEG2RAD))
                        * RAD2DEG)"
    using same
    by (simp add: geocentric_from_def elements_of_def eel mel T Ee Em cartesian_def
        perihelion_longitude_def spec_plane_longitude_def Re_def Rm_def le_def u_def)
  show False
    by (rule node_shift_changes_direction [OF Rm0 inside _ _ eq]) simp_all
qed

text \<open>
  C3, as stated: \<open>geocentric_longitude\<close> is the normalised direction between the two points
  built with the in-orbital-plane longitude \<open>norm(v + w - W)\<close> of step 4. It fails for Mars at
  J2000.0: the code takes the longitude \<open>norm(v + w)\<close>, which for Mars differs from the
  specification's by the node longitude \<open>W = 49.56\<close> degrees, and since the Earth is inside the
  circle of Mars's radius the two points are seen from the Earth in different directions.
\<close>

theorem geocentric_node_term_counterexample:
  "geocentric_longitude ''mars'' 2451545 \<noteq>
   geocentric_from spec_plane_longitude ''mars'' 2451545"
  unfolding geocentric_refines by (rule mars_node_term_matters)

text \<open>
  C3, amended: for every planet identifier and every Julian Day, \<open>geocentric_longitude\<close> is the
  normalised \<open>atan2(y_planet - y_earth, x_planet - x_earth)\<close> of the points \<open>(R cos lon, R sin lon)\<close>
  with \<open>R = a (1 - e cos E)\<close> and the heliocentric longitude \<open>lon = norm(v + w)\<close>, true anomaly
  plus longitude of perihelion, from the current elements of steps 1 to 3, and it fails exactly
  where that computation fails. For the Earth, whose node longitude is 0, this longitude is the
  specification's \<open>norm(v + w - W)\<close>. At J2000.0 the value for Mars is a longitude in \<open>[0, 360)\<close>.
\<close>

theorem geocentric_longitude_planar:
  "geocentric_longitude planet_id jd = geocentric_from perihelion_longitude planet_id jd
   \<and> (\<exists>earth_el. ORBITAL_ELEMENTS ''earth'' = Some earth_el
         \<and> (\<forall>T. body_position spec_plane_longitude earth_el T =
                  body_position perihelion_longitude earth_el T))
   \<and> (\<exists>v. geocentric_longitude ''mars'' 2451545 = Inr v \<and> 0 \<le> v \<and> v < 360)"
proof -
  obtain eel where eel: "ORBITAL_ELEMENTS ''earth'' = Some eel"
    and W: "el_W0 eel = 0" "el_W1 eel = 0"
    by (simp add: ORBITAL_ELEMENTS_def elements_def)
  have "body_position spec_plane_longitude eel T = body_position perihelion_longitude eel T" for T
    by (simp add: body_position_def spec_plane_longitude_def perihelion_longitude_def W
        norm_deg_id)
  then have earth: "\<exists>earth_el. ORBITAL_ELEMENTS ''earth'' = Some earth_el
         \<and> (\<forall>T. body_position spec_plane_longitude earth_el T =
                  body_position perihelion_longitude earth_el T)"
    using eel by blast
  obtain mel where mel: "ORBITAL_ELEMENTS ''mars'' = Some mel"
    by (simp add: ORBITAL_ELEMENTS_def)
  have T: "\<bar>julian_centuries 2451545\<bar> \<le> 100" by (simp add: julian_centuries_def J2000_def)
  have ne: "''mars'' \<noteq> ''earth''" by simp
  have mars: "\<exists>v. geocentric_longitude ''mars'' 2451545 = Inr v \<and> 0 \<le> v \<and> v < 360"
    by (rule geocentric_longitude_returns [OF mel ne T])
  show ?thesis using geocentric_refines earth mars by blast
qed

text \<open>
  C1. The fields \<open>degrees\<close> and \<open>totalDegrees\<close> are rounded to two decimals after the sign has
  been taken from the unrounded longitude, and the rounding can step over a sign boundary. The
  longitude 359.996 is stored as \<open>totalDegrees = 360\<close>, \<open>degrees = 30\<close>, sign Pisces: outside
  \<open>[0, 360)\<close> and \<open>[0, 30)\<close>, with \<open>floor(360 / 30) = 12\<close> no index of \<open>SIGN_ORDER\<close>. The
  longitude 29.996 is stored as \<open>totalDegrees = 30\<close>, \<open>degrees = 30\<close>, sign Aries, where the
  invariant asks for Taurus and 0. The first case occurs in a chart: there is a time zone
  offset for which the chart of \<open>BirthData(year=2000, month=1, timezone=tz)\<close> has the Sun stored
  at \<open>totalDegrees = 360\<close>.
\<close>

theorem stored_position_rounds_over_boundary:
  "build_position ''sun'' 359.996 (equal_house_cusps 0) False =
     Inr \<lparr>sign = ''pisces'', degrees = 30, totalDegrees = 360,
          planet = ''sun'', house = 12, retrograde = False\<rparr>
   \<and> \<not> stored_position_invariant
         \<lparr>sign = ''pisces'', degrees = 30, totalDegrees = 360,
          planet = ''sun'', house = 12, retrograde = False\<rparr>
   \<and> build_position ''moon'' 29.996 (equal_house_cusps 0) False =
     Inr \<lparr>sign = ''aries'', degrees = 30, totalDegrees = 30,
          planet = ''moon'', house = 1, retrograde = False\<rparr>
   \<and> \<not> stored_position_invariant
         \<lparr>sign = ''aries'', degrees = 30, totalDegrees = 30,
          planet = ''moon'', house = 1, retrograde = False\<rparr>
   \<and> (\<exists>tz ch. calculate_natal_chart definitions (epoch_birth\<lparr>timezone := Some tz\<rparr>) = Inr ch
          \<and> totalDegrees (sun ch) = 360 \<and> degrees (sun ch) = 30 \<and> sign (sun ch) = ''pisces''
          \<and> \<not> stored_position_invariant (sun ch))"
proof -
  have a: "build_position ''sun'' 359.996 (equal_house_cusps 0) False =
     Inr \<lparr>sign = ''pisces'', degrees = 30, totalDegrees = 360,
          planet = ''sun'', house = 12, retrograde = False\<rparr>"
    apply (subst build_position_returns)
      apply simp
     apply simp
    apply (simp add: py_round_def SIGN_ORDER_def Let_def norm_deg_eq py_fmod_def)
    done
  have b: "build_position ''moon'' 29.996 (equal_house_cusps 0) False =
     Inr \<lparr>sign = ''aries'', degrees = 30, totalDegrees = 30,
          planet = ''moon'', house = 1, retrograde = False\<rparr>"
    apply (subst build_position_returns)
      apply simp
     apply simp
    apply (simp add: py_round_def SIGN_ORDER_def Let_def norm_deg_eq py_fmod_def)
    done
  have c: "\<not> stored_position_invariant
         \<lparr>sign = ''pisces'', degrees = 30, totalDegrees = 360,
          planet = ''sun'', house = 12, retrograde = False\<rparr>"
    by (simp add: stored_position_invariant_def)
  have d: "\<not> stored_position_invariant
         \<lparr>sign = ''aries'', degrees = 30, totalDegrees = 30,
          planet = ''moon'', house = 1, retrograde = False\<rparr>"
    by (simp add: stored_position_invariant_def)
  have "\<not> stored_position_invariant p" if "totalDegrees p = 360" for p
    using that by (simp add: stored_position_invariant_def)
  then have e: "\<exists>tz ch. calculate_natal_chart definitions (epoch_birth\<lparr>timezone := Some tz\<rparr>) = Inr ch
          \<and> totalDegrees (sun ch) = 360 \<and> degrees (sun ch) = 30 \<and> sign (sun ch) = ''pisces''
          \<and> \<not> stored_position_invariant (sun ch)"
    using chart_sun_rounds_to_360 [of definitions] by blast
  show ?thesis using a b c d e by blast
qed

subsection \<open>Default fields, and what a computed chart guarantees\<close>

text \<open>
  The optional fields default to day 1, hour 12, minute 0, latitude 0, longitude 0 and time zone
  0: a record without them gives the result of the record that states them. A chart that is
  returned has 12 cusps, houses from 1 to 12, orbs that are at least 0 and sorted, and stored
  longitudes in \<open>[0, 360]\<close> and \<open>[0, 30]\<close>, both ends included because of the rounding.
\<close>

lemma default_fields_explicit:
  "calculate_natal_chart definitions
     \<lparr>year = y, month = m, day = None, hour = None, minute = None,
      latitude = None, longitude = None, timezone = None\<rparr> =
   calculate_natal_chart definitions
     \<lparr>year = y, month = m, day = Some 1, hour = Some 12, minute = Some 0,
      latitude = Some 0, longitude = Some 0, timezone = Some 0\<rparr>"
  by (simp add: calculate_natal_chart_def birth_julian_day_def)

lemma py_round_mono: "x \<le> y \<Longrightarrow> py_round x \<le> py_round y"
proof -
  assume xy: "x \<le> y"
  have fl: "\<lfloor>x\<rfloor> \<le> \<lfloor>y\<rfloor>" using xy by (rule floor_mono)
  have lo: "\<lfloor>t\<rfloor> \<le> py_round t \<and> py_round t \<le> \<lfloor>t\<rfloor> + 1" for t :: real
    by (simp add: py_round_def Let_def)
  show ?thesis
  proof (cases "\<lfloor>x\<rfloor> = \<lfloor>y\<rfloor>")
    case True
    then show ?thesis using xy by (auto simp: py_round_def Let_def)
  next
    case False
    then have "\<lfloor>x\<rfloor> + 1 \<le> \<lfloor>y\<rfloor>" using fl by linarith
    then show ?thesis using lo [of x] lo [of y] by linarith
  qed
qed

lemma py_round_of_int: "py_round (of_int n) = n"
  by (simp add: py_round_def Let_def)

lemma built_position_range:
  assumes l: "0 \<le> lon" "lon < 360"
    and b: "build_position name lon (equal_house_cusps asc) r = Inr p"
  shows "0 \<le> totalDegrees p \<and> totalDegrees p \<le> 360 \<and> 0 \<le> degrees p \<and> degrees p \<le> 30
       \<and> 1 \<le> house p \<and> house p \<le> 12
       \<and> py_index SIGN_ORDER \<lfloor>lon / 30\<rfloor> = Inr (sign p)"
proof -
  have p: "p = \<lparr>sign = SIGN_ORDER ! nat \<lfloor>lon / 30\<rfloor>,
          degrees = of_int (py_round ((lon - of_int \<lfloor>lon / 30\<rfloor> * 30) * 100)) / 100,
          totalDegrees = of_int (py_round (lon * 100)) / 100,
          planet = name, house = \<lfloor>norm_deg (lon - asc) / 30\<rfloor> + 1, retrograde = r\<rparr>"
    using b unfolding build_position_returns [OF l] by simp
  have t0: "0 \<le> py_round (lon * 100)" using l by (intro py_round_nonneg) simp
  have "py_round (lon * 100) \<le> py_round (of_int 36000)"
    using l by (intro py_round_mono) simp
  then have t1: "py_round (lon * 100) \<le> 36000" unfolding py_round_of_int .
  define w where "w = lon - of_int \<lfloor>lon / 30\<rfloor> * 30"
  have "of_int \<lfloor>lon / 30\<rfloor> \<le> lon / 30" "lon / 30 < of_int \<lfloor>lon / 30\<rfloor> + 1" by linarith+
  then have w: "0 \<le> w" "w < 30" unfolding w_def by linarith+
  have d0: "0 \<le> py_round (w * 100)" using w by (intro py_round_nonneg) simp
  have "py_round (w * 100) \<le> py_round (of_int 3000)"
    using w by (intro py_round_mono) simp
  then have d1: "py_round (w * 100) \<le> 3000" unfolding py_round_of_int .
  obtain k :: nat where k: "k < 12" "\<lfloor>norm_deg lon / 30\<rfloor> = int k"
    by (rule sector_range)
  then have f: "0 \<le> \<lfloor>lon / 30\<rfloor>" "\<lfloor>lon / 30\<rfloor> < 12"
    unfolding norm_deg_id [OF l] by simp_all
  have s: "py_index SIGN_ORDER \<lfloor>lon / 30\<rfloor> = Inr (SIGN_ORDER ! nat \<lfloor>lon / 30\<rfloor>)"
    using f by (simp add: py_index_def SIGN_ORDER_def)
  have tr: "0 \<le> real_of_int (py_round (lon * 100)) / 100 \<and>
            real_of_int (py_round (lon * 100)) / 100 \<le> 360"
    using t0 t1 by simp
  have dr: "0 \<le> real_of_int (py_round (w * 100)) / 100 \<and>
            real_of_int (py_round (w * 100)) / 100 \<le> 30"
    using d0 d1 by simp
  show ?thesis
    unfolding p using tr dr [unfolded w_def] s house_range [of "lon - asc"] by simp
qed

lemma chart_invariants_up_to_rounding:
  assumes ok: "calculate_natal_chart definitions bd = Inr ch"
  shows "length (houseCusps ch) = 12
       \<and> list_all (\<lambda>p. 0 \<le> totalDegrees p \<and> totalDegrees p \<le> 360
                       \<and> 0 \<le> degrees p \<and> degrees p \<le> 30
                       \<and> 1 \<le> house p \<and> house p \<le> 12) (planet_positions ch)
       \<and> list_all (\<lambda>a. 0 \<le> orb a) (aspects ch)
       \<and> sorted (map orb (aspects ch))"
proof -
  obtain asc where cusps: "houseCusps ch = equal_house_cusps asc"
    and built: "list_all (\<lambda>p. \<exists>name lon r. 0 \<le> lon \<and> lon < 360
                   \<and> build_position name lon (equal_house_cusps asc) r = Inr p)
                 (planet_positions ch)"
    and asp: "aspects ch = calculate_aspects definitions (planet_positions ch)"
    using chart_structure [OF ok] by blast
  have a: "length (houseCusps ch) = 12" unfolding cusps by (rule length_equal_house_cusps)
  have b: "list_all (\<lambda>p. 0 \<le> totalDegrees p \<and> totalDegrees p \<le> 360
                       \<and> 0 \<le> degrees p \<and> degrees p \<le> 30
                       \<and> 1 \<le> house p \<and> house p \<le> 12) (planet_positions ch)"
    using built built_position_range unfolding list_all_iff by blast
  have eq: "aspects ch = sort_key orb (spec_discovery definitions (planet_positions ch))"
    unfolding asp by (simp add: calculate_aspects_def aspects_outer_spec)
  have c: "list_all (\<lambda>a. 0 \<le> orb a) (aspects ch)"
    unfolding eq by (auto simp: spec_discovery_def list_all_iff spec_aspect_orb_nonneg)
  have d: "sorted (map orb (aspects ch))" unfolding eq by (rule sorted_sort_key)
  show ?thesis using a b c d by blast
qed

subsection \<open>Convergence of the Kepler solver\<close>













subsection \<open>Enclosures of \<open>pi\<close>, sine and cosine\<close>

lemma arctan_partial_sums:
  fixes x :: real
  assumes x0: "0 \<le> x" and x1: "x \<le> 1"
  shows "sum (arctan_term x) {..<2 * n} \<le> arctan x"
    and "arctan x \<le> sum (arctan_term x) {..<2 * n + 1}"
proof -
  define a where "a = (\<lambda>k. 1 / real (k * 2 + 1) * x ^ (k * 2 + 1))"
  have t: "arctan_term x = (\<lambda>k. (- 1) ^ k * a k)"
    unfolding arctan_term_def a_def by (rule ext) (simp add: mult.commute)
  have ax: "\<bar>x\<bar> \<le> 1" using x0 x1 by simp
  have lim: "a \<longlonglongrightarrow> 0" unfolding a_def by (rule zeroseq_arctan_series [OF ax])
  have pos: "0 \<le> a k" for k unfolding a_def using x0 by simp
  have dec: "a (Suc k) \<le> a k" for k
  proof -
    have p: "x ^ (Suc k * 2 + 1) \<le> x ^ (k * 2 + 1)"
      by (rule power_decreasing) (use x0 x1 in simp_all)
    have q: "1 / real (Suc k * 2 + 1) \<le> 1 / real (k * 2 + 1)"
      by (simp add: field_simps)
    show ?thesis unfolding a_def by (rule mult_mono [OF q p]) (use x0 in simp_all)
  qed
  have s: "arctan x = (\<Sum>k. (- 1) ^ k * a k)"
    unfolding a_def by (rule arctan_series [OF ax])
  show "sum (arctan_term x) {..<2 * n} \<le> arctan x"
    using summable_Leibniz'(2) [of a, OF lim pos dec, of n] unfolding s t .
  show "arctan x \<le> sum (arctan_term x) {..<2 * n + 1}"
    using summable_Leibniz'(4) [of a, OF lim pos dec, of n] unfolding s t .
qed

lemma pi_bounds:
  "3141592653589793 / 1000000000000000 < pi" "pi < 3141592653589794 / 1000000000000000"
proof -
  have m: "pi = 16 * arctan (1 / 5) - 4 * arctan (1 / 239)" using machin by simp
  have a1: "sum (arctan_term (1 / 5)) {..<2 * 6} \<le> arctan (1 / 5)"
    by (rule arctan_partial_sums) simp_all
  have a2: "arctan (1 / 5) \<le> sum (arctan_term (1 / 5)) {..<2 * 6 + 1}"
    by (rule arctan_partial_sums) simp_all
  have b1: "sum (arctan_term (1 / 239)) {..<2 * 2} \<le> arctan (1 / 239)"
    by (rule arctan_partial_sums) simp_all
  have b2: "arctan (1 / 239) \<le> sum (arctan_term (1 / 239)) {..<2 * 2 + 1}"
    by (rule arctan_partial_sums) simp_all
  show "3141592653589793 / 1000000000000000 < pi"
    unfolding m using a1 b2 by (simp add: arctan_term_def eval_nat_numeral)
  show "pi < 3141592653589794 / 1000000000000000"
    unfolding m using a2 b1 by (simp add: arctan_term_def eval_nat_numeral)
qed

lemma sin_coeff_values:
  "sin_coeff 0 = 0"
  "sin_coeff 1 = 1"
  "sin_coeff 2 = 0"
  "sin_coeff 3 = - 1 / 6"
  "sin_coeff 4 = 0"
  "sin_coeff 5 = 1 / 120"
  "sin_coeff 6 = 0"
  "sin_coeff 7 = - 1 / 5040"
  "sin_coeff 8 = 0"
  "sin_coeff 9 = 1 / 362880"
  "sin_coeff 10 = 0"
  by (simp_all add: sin_coeff_def fact_numeral)

lemma sin_coeff_one: "sin_coeff (Suc 0) = 1"
  by (simp add: sin_coeff_def)

lemma sin_poly_sum: "(\<Sum>m<11. sin_coeff m * x ^ m) = sin_poly x"
proof -
  have "(\<Sum>m<11. sin_coeff m * x ^ m) = sum_list (map (\<lambda>m. sin_coeff m * x ^ m) [0..<11])"
    by (simp add: interv_sum_list_conv_sum_set_nat lessThan_atLeast0)
  also have "[0..<11] = [0, 1, 2, 3, 4, 5, 6, 7, 8, 9, 10 :: nat]"
    by code_simp
  also have "sum_list (map (\<lambda>m. sin_coeff m * x ^ m)
      [0, 1, 2, 3, 4, 5, 6, 7, 8, 9, 10 :: nat]) = sin_poly x"
    by (simp add: sin_coeff_values sin_coeff_one sin_poly_def)
  finally show ?thesis .
qed

lemma sin_poly_bound: "\<bar>sin x - sin_poly x\<bar> \<le> \<bar>x\<bar> ^ 11 / 39916800"
proof -
  have f: "(fact 11 :: real) = 39916800" by (simp add: fact_numeral)
  have "\<bar>sin x - sin_poly x\<bar> \<le> inverse (fact 11) * \<bar>x\<bar> ^ 11"
    using Maclaurin_sin_bound [of x 11] unfolding sin_poly_sum .
  also have "\<dots> = \<bar>x\<bar> ^ 11 / 39916800"
    unfolding f by (simp only: divide_inverse mult.commute)
  finally show ?thesis .
qed

lemma sin_lipschitz: "\<bar>sin a - sin b\<bar> \<le> \<bar>a - b\<bar>" for a b :: real
proof -
  have "\<bar>sin a - sin b\<bar> = 2 * \<bar>sin ((a - b) / 2)\<bar> * \<bar>cos ((a + b) / 2)\<bar>"
    unfolding sin_diff_sin by (simp add: abs_mult)
  also have "\<dots> \<le> 2 * \<bar>(a - b) / 2\<bar> * 1"
    by (intro mult_mono mult_left_mono abs_sin_x_le_abs_x) auto
  finally show ?thesis by simp
qed





subsection \<open>An input at which the Kepler iteration never settles\<close>




















subsection \<open>The Moon of a chart with default fields\<close>

lemma sin_near_quarter:
  fixes y c s \<rho> \<tau> :: real
  assumes y: "\<bar>y - c\<bar> \<le> \<rho>" and c: "\<bar>c\<bar> \<le> 8 / 5" and p: "\<bar>sin_poly c - s\<bar> \<le> \<tau>"
  shows "\<bar>sin y - s\<bar> \<le> \<rho> + \<tau> + 5 / 1000000"
proof -
  have "\<bar>c\<bar> ^ 11 \<le> (8 / 5) ^ 11" by (rule power_mono [OF c]) simp
  then have "\<bar>c\<bar> ^ 11 / 39916800 \<le> (8 / 5) ^ 11 / 39916800" by (simp add: divide_right_mono)
  also have "\<dots> \<le> 5 / 1000000" by (simp add: power_divide)
  finally have r: "\<bar>sin c - sin_poly c\<bar> \<le> 5 / 1000000"
    using sin_poly_bound [of c] by linarith
  have l: "\<bar>sin y - sin c\<bar> \<le> \<rho>" using sin_lipschitz [of y c] y by linarith
  show ?thesis using l r p by linarith
qed

lemma sin_half_turns: "sin (x + pi * of_int m) = (if even m then sin x else - sin x)"
  by (simp add: sin_add sin_npi_int cos_npi_int)

lemma sin_turn_near:
  fixes y x0 s \<rho> \<tau> :: real and m :: int
  assumes up: "y - pi * of_int m - x0 \<le> \<rho>" and dn: "- (y - pi * of_int m - x0) \<le> \<rho>"
    and c: "\<bar>x0\<bar> \<le> 8 / 5" and p: "\<bar>sin_poly x0 - s\<bar> \<le> \<tau>"
  shows "\<bar>sin y - (if even m then s else - s)\<bar> \<le> \<rho> + \<tau> + 5 / 1000000"
proof -
  define z where "z = y - pi * of_int m"
  have "\<bar>z - x0\<bar> \<le> \<rho>" unfolding z_def using up dn by (rule abs_leI)
  then have z: "\<bar>sin z - s\<bar> \<le> \<rho> + \<tau> + 5 / 1000000" using c p by (rule sin_near_quarter)
  have "y = z + pi * of_int m" unfolding z_def by simp
  then have "sin y = (if even m then sin z else - sin z)" by (simp only: sin_half_turns)
  then show ?thesis using z by (cases "even m") simp_all
qed

lemma norm_deg_value:
  assumes "x - 360 * of_int k = v" "0 \<le> v" "v < 360"
  shows "norm_deg x = v"
proof -
  have "x = v + 360 * of_int k" using assms(1) by simp
  then show ?thesis using assms(2,3) by (simp only: norm_deg_shift norm_deg_id)
qed

lemma moon_longitude_series:
  assumes "julian_centuries jd = T"
    and "norm_deg (218.3164477 + 481267.88123421 * T - 0.0015786 * T * T + T * T * T / 538841 - T * T * T * T / 65194000) = Lp"
    and "norm_deg (297.8501921 + 445267.1114034 * T - 0.0018819 * T * T + T * T * T / 545868 - T * T * T * T / 113065000) = D"
    and "norm_deg (357.5291092 + 35999.0502909 * T - 0.0001536 * T * T + T * T * T / 24490000) = M"
    and "norm_deg (134.9633964 + 477198.8675055 * T + 0.0087414 * T * T + T * T * T / 69699 - T * T * T * T / 14712000) = Mp"
    and "norm_deg (93.2720950 + 483202.0175233 * T - 0.0036539 * T * T - T * T * T / 3526000 + T * T * T * T / 863310000) = F"
  shows "moon_longitude jd = norm_deg (Lp + (0
            + 6288774 * sin (Mp * DEG2RAD)
            + 1274027 * sin (2 * (D * DEG2RAD) - Mp * DEG2RAD)
            + 658314 * sin (2 * (D * DEG2RAD))
            + 213618 * sin (2 * (Mp * DEG2RAD))
            + - 185116 * sin (M * DEG2RAD)
            + - 114332 * sin (2 * (F * DEG2RAD))
            + 58793 * sin (2 * (D * DEG2RAD) - 2 * (Mp * DEG2RAD))
            + 57066 * sin (2 * (D * DEG2RAD) - M * DEG2RAD - Mp * DEG2RAD)
            + 53322 * sin (2 * (D * DEG2RAD) + Mp * DEG2RAD)
            + 45758 * sin (2 * (D * DEG2RAD) - M * DEG2RAD)
            + - 40923 * sin (M * DEG2RAD - Mp * DEG2RAD)
            + - 34720 * sin (D * DEG2RAD)
            + - 30383 * sin (M * DEG2RAD + Mp * DEG2RAD)
            + 15327 * sin (2 * (D * DEG2RAD) - 2 * (F * DEG2RAD))
            + - 12528 * sin (Mp * DEG2RAD + 2 * (F * DEG2RAD))
            + 10980 * sin (Mp * DEG2RAD - 2 * (F * DEG2RAD))
            + 10675 * sin (4 * (D * DEG2RAD) - Mp * DEG2RAD)
            + 10034 * sin (3 * (Mp * DEG2RAD))
            + 8548 * sin (4 * (D * DEG2RAD) - 2 * (Mp * DEG2RAD))
            + - 7888 * sin (2 * (D * DEG2RAD) + M * DEG2RAD - Mp * DEG2RAD)
            + - 6766 * sin (2 * (D * DEG2RAD) + M * DEG2RAD)
            + - 5163 * sin (D * DEG2RAD - Mp * DEG2RAD)
            + 4987 * sin (D * DEG2RAD + M * DEG2RAD)
            + 4036 * sin (2 * (D * DEG2RAD) - M * DEG2RAD + Mp * DEG2RAD)) / 1000000)"
  unfolding moon_longitude_def Let_def assms ..

lemma moon_2002_10:
  "119996 / 1000 \<le> moon_longitude 2452549" "moon_longitude 2452549 < 119998 / 1000"
proof -
  define T :: real where "T = 1004 / 36525"
  define lp :: real where "lp = 12746227176353282808602321777572627 / 100034347265684051071196250000000"
  define d :: real where "d = 43551324483290132895771742202446241 / 146458795410905406213656250000000"
  define m :: real where "m = 99594991990728121952707 / 372914680579541015625"
  define mp :: real where "mp = 22220426712455359291223412276397 / 76041017602823340924609375000"
  define f :: real where "f = 601788333794635432231281608713157 / 10835275881911000498015625000000"
  have T: "julian_centuries 2452549 = T"
    unfolding T_def by (simp add: julian_centuries_def J2000_def)
  have v_lp: "norm_deg (218.3164477 + 481267.88123421 * T - 0.0015786 * T * T + T * T * T / 538841 - T * T * T * T / 65194000) = lp"
    by (rule norm_deg_value [where k = 37]) (simp_all add: T_def lp_def)
  have v_d: "norm_deg (297.8501921 + 445267.1114034 * T - 0.0018819 * T * T + T * T * T / 545868 - T * T * T * T / 113065000) = d"
    by (rule norm_deg_value [where k = 34]) (simp_all add: T_def d_def)
  have v_m: "norm_deg (357.5291092 + 35999.0502909 * T - 0.0001536 * T * T + T * T * T / 24490000) = m"
    by (rule norm_deg_value [where k = 3]) (simp_all add: T_def m_def)
  have v_mp: "norm_deg (134.9633964 + 477198.8675055 * T + 0.0087414 * T * T + T * T * T / 69699 - T * T * T * T / 14712000) = mp"
    by (rule norm_deg_value [where k = 36]) (simp_all add: T_def mp_def)
  have v_f: "norm_deg (93.2720950 + 483202.0175233 * T - 0.0036539 * T * T - T * T * T / 3526000 + T * T * T * T / 863310000) = f"
    by (rule norm_deg_value [where k = 37]) (simp_all add: T_def f_def)
  have "\<bar>sin (mp * DEG2RAD) - (if even (2 :: int) then - (925763049 / 1000000000) else - (- (925763049 / 1000000000)))\<bar>
          \<le> 1 / 1000000000 + 1 / 1000000000 + 5 / 1000000"
    by (rule sin_turn_near [where ?x0.0 = "- (1183048308 / 1000000000)"])
      (use pi_bounds in \<open>simp_all add: d_def m_def mp_def f_def DEG2RAD_def sin_poly_def power_divide\<close>)
  then have s0: "\<bar>sin (mp * DEG2RAD) - (- (925763049 / 1000000000))\<bar> \<le> 5002 / 1000000000" by simp
  have t0: "- (5821946049159474 / 1000000000) \<le> 6288774 * sin (mp * DEG2RAD)"
    "6288774 * sin (mp * DEG2RAD) \<le> - (5821883136264378 / 1000000000)"
    using s0 unfolding abs_le_iff by simp_all
  have "\<bar>sin (2 * (d * DEG2RAD) - mp * DEG2RAD) - (if even (2 :: int) then - (843313834 / 1000000000) else - (- (843313834 / 1000000000)))\<bar>
          \<le> 1 / 1000000000 + 1 / 1000000000 + 5 / 1000000"
    by (rule sin_turn_near [where ?x0.0 = "- (1003419840 / 1000000000)"])
      (use pi_bounds in \<open>simp_all add: d_def m_def mp_def f_def DEG2RAD_def sin_poly_def power_divide\<close>)
  then have s1: "\<bar>sin (2 * (d * DEG2RAD) - mp * DEG2RAD) - (- (843313834 / 1000000000))\<bar> \<le> 5002 / 1000000000" by simp
  have t1: "- (1074410966672572 / 1000000000) \<le> 1274027 * sin (2 * (d * DEG2RAD) - mp * DEG2RAD)"
    "1274027 * sin (2 * (d * DEG2RAD) - mp * DEG2RAD) \<le> - (1074398221306464 / 1000000000)"
    using s1 unfolding abs_le_iff by simp_all
  have "\<bar>sin (2 * (d * DEG2RAD)) - (if even (3 :: int) then 816385664 / 1000000000 else - (816385664 / 1000000000))\<bar>
          \<le> 1 / 1000000000 + 1 / 1000000000 + 5 / 1000000"
    by (rule sin_turn_near [where ?x0.0 = "955124505 / 1000000000"])
      (use pi_bounds in \<open>simp_all add: d_def m_def mp_def f_def DEG2RAD_def sin_poly_def power_divide\<close>)
  then have s2: "\<bar>sin (2 * (d * DEG2RAD)) - (- (816385664 / 1000000000))\<bar> \<le> 5002 / 1000000000" by simp
  have t2: "- (537441404897124 / 1000000000) \<le> 658314 * sin (2 * (d * DEG2RAD))"
    "658314 * sin (2 * (d * DEG2RAD)) \<le> - (537434819123868 / 1000000000)"
    using s2 unfolding abs_le_iff by simp_all
  have "\<bar>sin (2 * (mp * DEG2RAD)) - (if even (3 :: int) then 700070371 / 1000000000 else - (700070371 / 1000000000))\<bar>
          \<le> 1 / 1000000000 + 1 / 1000000000 + 5 / 1000000"
    by (rule sin_turn_near [where ?x0.0 = "775496038 / 1000000000"])
      (use pi_bounds in \<open>simp_all add: d_def m_def mp_def f_def DEG2RAD_def sin_poly_def power_divide\<close>)
  then have s3: "\<bar>sin (2 * (mp * DEG2RAD)) - (- (700070371 / 1000000000))\<bar> \<le> 5002 / 1000000000" by simp
  have t3: "- (149548701029514 / 1000000000) \<le> 213618 * sin (2 * (mp * DEG2RAD))"
    "213618 * sin (2 * (mp * DEG2RAD)) \<le> - (149546563995042 / 1000000000)"
    using s3 unfolding abs_le_iff by simp_all
  have "\<bar>sin (m * DEG2RAD) - (if even (1 :: int) then 998696793 / 1000000000 else - (998696793 / 1000000000))\<bar>
          \<le> 1 / 1000000000 + 1 / 1000000000 + 5 / 1000000"
    by (rule sin_turn_near [where ?x0.0 = "1519689455 / 1000000000"])
      (use pi_bounds in \<open>simp_all add: d_def m_def mp_def f_def DEG2RAD_def sin_poly_def power_divide\<close>)
  then have s4: "\<bar>sin (m * DEG2RAD) - (- (998696793 / 1000000000))\<bar> \<le> 5002 / 1000000000" by simp
  have t4: "184873829582756 / 1000000000 \<le> - 185116 * sin (m * DEG2RAD)"
    "- 185116 * sin (m * DEG2RAD) \<le> 184875681483220 / 1000000000"
    using s4 unfolding abs_le_iff by simp_all
  have "\<bar>sin (2 * (f * DEG2RAD)) - (if even (1 :: int) then - (933082677 / 1000000000) else - (- (933082677 / 1000000000)))\<bar>
          \<le> 1 / 1000000000 + 1 / 1000000000 + 5 / 1000000"
    by (rule sin_turn_near [where ?x0.0 = "- (1202890227 / 1000000000)"])
      (use pi_bounds in \<open>simp_all add: d_def m_def mp_def f_def DEG2RAD_def sin_poly_def power_divide\<close>)
  then have s5: "\<bar>sin (2 * (f * DEG2RAD)) - (933082677 / 1000000000)\<bar> \<le> 5002 / 1000000000" by simp
  have t5: "- (106681780515428 / 1000000000) \<le> - 114332 * sin (2 * (f * DEG2RAD))"
    "- 114332 * sin (2 * (f * DEG2RAD)) \<le> - (106680636738100 / 1000000000)"
    using s5 unfolding abs_le_iff by simp_all
  have "\<bar>sin (2 * (d * DEG2RAD) - 2 * (mp * DEG2RAD)) - (if even (0 :: int) then 178664032 / 1000000000 else - (178664032 / 1000000000))\<bar>
          \<le> 1 / 1000000000 + 1 / 1000000000 + 5 / 1000000"
    by (rule sin_turn_near [where ?x0.0 = "179628468 / 1000000000"])
      (use pi_bounds in \<open>simp_all add: d_def m_def mp_def f_def DEG2RAD_def sin_poly_def power_divide\<close>)
  then have s6: "\<bar>sin (2 * (d * DEG2RAD) - 2 * (mp * DEG2RAD)) - (178664032 / 1000000000)\<bar> \<le> 5002 / 1000000000" by simp
  have t6: "10503900350790 / 1000000000 \<le> 58793 * sin (2 * (d * DEG2RAD) - 2 * (mp * DEG2RAD))"
    "58793 * sin (2 * (d * DEG2RAD) - 2 * (mp * DEG2RAD)) \<le> 10504488515962 / 1000000000"
    using s6 unfolding abs_le_iff by simp_all
  have "\<bar>sin (2 * (d * DEG2RAD) - m * DEG2RAD - mp * DEG2RAD) - (if even (0 :: int) then 579800131 / 1000000000 else - (579800131 / 1000000000))\<bar>
          \<le> 1 / 1000000000 + 1 / 1000000000 + 5 / 1000000"
    by (rule sin_turn_near [where ?x0.0 = "618483358 / 1000000000"])
      (use pi_bounds in \<open>simp_all add: d_def m_def mp_def f_def DEG2RAD_def sin_poly_def power_divide\<close>)
  then have s7: "\<bar>sin (2 * (d * DEG2RAD) - m * DEG2RAD - mp * DEG2RAD) - (579800131 / 1000000000)\<bar> \<le> 5002 / 1000000000" by simp
  have t7: "33086588831514 / 1000000000 \<le> 57066 * sin (2 * (d * DEG2RAD) - m * DEG2RAD - mp * DEG2RAD)"
    "57066 * sin (2 * (d * DEG2RAD) - m * DEG2RAD - mp * DEG2RAD) \<le> 33087159719778 / 1000000000"
    using s7 unfolding abs_le_iff by simp_all
  have "\<bar>sin (2 * (d * DEG2RAD) + mp * DEG2RAD) - (if even (5 :: int) then - (225955510 / 1000000000) else - (- (225955510 / 1000000000)))\<bar>
          \<le> 1 / 1000000000 + 1 / 1000000000 + 5 / 1000000"
    by (rule sin_turn_near [where ?x0.0 = "- (227923803 / 1000000000)"])
      (use pi_bounds in \<open>simp_all add: d_def m_def mp_def f_def DEG2RAD_def sin_poly_def power_divide\<close>)
  then have s8: "\<bar>sin (2 * (d * DEG2RAD) + mp * DEG2RAD) - (225955510 / 1000000000)\<bar> \<le> 5002 / 1000000000" by simp
  have t8: "12048132987576 / 1000000000 \<le> 53322 * sin (2 * (d * DEG2RAD) + mp * DEG2RAD)"
    "53322 * sin (2 * (d * DEG2RAD) + mp * DEG2RAD) \<le> 12048666420864 / 1000000000"
    using s8 unfolding abs_le_iff by simp_all
  have "\<bar>sin (2 * (d * DEG2RAD) - m * DEG2RAD) - (if even (2 :: int) then - (535048327 / 1000000000) else - (- (535048327 / 1000000000)))\<bar>
          \<le> 1 / 1000000000 + 1 / 1000000000 + 5 / 1000000"
    by (rule sin_turn_near [where ?x0.0 = "- (564564950 / 1000000000)"])
      (use pi_bounds in \<open>simp_all add: d_def m_def mp_def f_def DEG2RAD_def sin_poly_def power_divide\<close>)
  then have s9: "\<bar>sin (2 * (d * DEG2RAD) - m * DEG2RAD) - (- (535048327 / 1000000000))\<bar> \<le> 5002 / 1000000000" by simp
  have t9: "- (24482970228382 / 1000000000) \<le> 45758 * sin (2 * (d * DEG2RAD) - m * DEG2RAD)"
    "45758 * sin (2 * (d * DEG2RAD) - m * DEG2RAD) \<le> - (24482512465350 / 1000000000)"
    using s9 unfolding abs_le_iff by simp_all
  have "\<bar>sin (m * DEG2RAD - mp * DEG2RAD) - (if even (0 :: int) then - (424903146 / 1000000000) else - (- (424903146 / 1000000000)))\<bar>
          \<le> 1 / 1000000000 + 1 / 1000000000 + 5 / 1000000"
    by (rule sin_turn_near [where ?x0.0 = "- (438854890 / 1000000000)"])
      (use pi_bounds in \<open>simp_all add: d_def m_def mp_def f_def DEG2RAD_def sin_poly_def power_divide\<close>)
  then have s10: "\<bar>sin (m * DEG2RAD - mp * DEG2RAD) - (- (424903146 / 1000000000))\<bar> \<le> 5002 / 1000000000" by simp
  have t10: "17388106746912 / 1000000000 \<le> - 40923 * sin (m * DEG2RAD - mp * DEG2RAD)"
    "- 40923 * sin (m * DEG2RAD - mp * DEG2RAD) \<le> 17388516140604 / 1000000000"
    using s10 unfolding abs_le_iff by simp_all
  have "\<bar>sin (d * DEG2RAD) - (if even (2 :: int) then - (888118053 / 1000000000) else - (- (888118053 / 1000000000)))\<bar>
          \<le> 1 / 1000000000 + 1 / 1000000000 + 5 / 1000000"
    by (rule sin_turn_near [where ?x0.0 = "- (1093234074 / 1000000000)"])
      (use pi_bounds in \<open>simp_all add: d_def m_def mp_def f_def DEG2RAD_def sin_poly_def power_divide\<close>)
  then have s11: "\<bar>sin (d * DEG2RAD) - (- (888118053 / 1000000000))\<bar> \<le> 5002 / 1000000000" by simp
  have t11: "30835285130720 / 1000000000 \<le> - 34720 * sin (d * DEG2RAD)"
    "- 34720 * sin (d * DEG2RAD) \<le> 30835632469600 / 1000000000"
    using s11 unfolding abs_le_iff by simp_all
  have "\<bar>sin (m * DEG2RAD + mp * DEG2RAD) - (if even (3 :: int) then 330318643 / 1000000000 else - (330318643 / 1000000000))\<bar>
          \<le> 1 / 1000000000 + 1 / 1000000000 + 5 / 1000000"
    by (rule sin_turn_near [where ?x0.0 = "336641147 / 1000000000"])
      (use pi_bounds in \<open>simp_all add: d_def m_def mp_def f_def DEG2RAD_def sin_poly_def power_divide\<close>)
  then have s12: "\<bar>sin (m * DEG2RAD + mp * DEG2RAD) - (- (330318643 / 1000000000))\<bar> \<le> 5002 / 1000000000" by simp
  have t12: "10035919354503 / 1000000000 \<le> - 30383 * sin (m * DEG2RAD + mp * DEG2RAD)"
    "- 30383 * sin (m * DEG2RAD + mp * DEG2RAD) \<le> 10036223306035 / 1000000000"
    using s12 unfolding abs_le_iff by simp_all
  have "\<bar>sin (2 * (d * DEG2RAD) - 2 * (f * DEG2RAD)) - (if even (3 :: int) then - (832485054 / 1000000000) else - (- (832485054 / 1000000000)))\<bar>
          \<le> 1 / 1000000000 + 1 / 1000000000 + 5 / 1000000"
    by (rule sin_turn_near [where ?x0.0 = "- (983577922 / 1000000000)"])
      (use pi_bounds in \<open>simp_all add: d_def m_def mp_def f_def DEG2RAD_def sin_poly_def power_divide\<close>)
  then have s13: "\<bar>sin (2 * (d * DEG2RAD) - 2 * (f * DEG2RAD)) - (832485054 / 1000000000)\<bar> \<le> 5002 / 1000000000" by simp
  have t13: "12759421757004 / 1000000000 \<le> 15327 * sin (2 * (d * DEG2RAD) - 2 * (f * DEG2RAD))"
    "15327 * sin (2 * (d * DEG2RAD) - 2 * (f * DEG2RAD)) \<le> 12759575088312 / 1000000000"
    using s13 unfolding abs_le_iff by simp_all
  have "\<bar>sin (mp * DEG2RAD + 2 * (f * DEG2RAD)) - (if even (2 :: int) then 685764899 / 1000000000 else - (685764899 / 1000000000))\<bar>
          \<le> 1 / 1000000000 + 1 / 1000000000 + 5 / 1000000"
    by (rule sin_turn_near [where ?x0.0 = "755654119 / 1000000000"])
      (use pi_bounds in \<open>simp_all add: d_def m_def mp_def f_def DEG2RAD_def sin_poly_def power_divide\<close>)
  then have s14: "\<bar>sin (mp * DEG2RAD + 2 * (f * DEG2RAD)) - (685764899 / 1000000000)\<bar> \<le> 5002 / 1000000000" by simp
  have t14: "- (8591325319728 / 1000000000) \<le> - 12528 * sin (mp * DEG2RAD + 2 * (f * DEG2RAD))"
    "- 12528 * sin (mp * DEG2RAD + 2 * (f * DEG2RAD)) \<le> - (8591199989616 / 1000000000)"
    using s14 unfolding abs_le_iff by simp_all
  have "\<bar>sin (mp * DEG2RAD - 2 * (f * DEG2RAD)) - (if even (1 :: int) then 19840617 / 1000000000 else - (19840617 / 1000000000))\<bar>
          \<le> 1 / 1000000000 + 1 / 1000000000 + 5 / 1000000"
    by (rule sin_turn_near [where ?x0.0 = "19841919 / 1000000000"])
      (use pi_bounds in \<open>simp_all add: d_def m_def mp_def f_def DEG2RAD_def sin_poly_def power_divide\<close>)
  then have s15: "\<bar>sin (mp * DEG2RAD - 2 * (f * DEG2RAD)) - (- (19840617 / 1000000000))\<bar> \<le> 5002 / 1000000000" by simp
  have t15: "- (217904896620 / 1000000000) \<le> 10980 * sin (mp * DEG2RAD - 2 * (f * DEG2RAD))"
    "10980 * sin (mp * DEG2RAD - 2 * (f * DEG2RAD)) \<le> - (217795052700 / 1000000000)"
    using s15 unfolding abs_le_iff by simp_all
  have "\<bar>sin (4 * (d * DEG2RAD) - mp * DEG2RAD) - (if even (5 :: int) then - (48276563 / 1000000000) else - (- (48276563 / 1000000000)))\<bar>
          \<le> 1 / 1000000000 + 1 / 1000000000 + 5 / 1000000"
    by (rule sin_turn_near [where ?x0.0 = "- (48295335 / 1000000000)"])
      (use pi_bounds in \<open>simp_all add: d_def m_def mp_def f_def DEG2RAD_def sin_poly_def power_divide\<close>)
  then have s16: "\<bar>sin (4 * (d * DEG2RAD) - mp * DEG2RAD) - (48276563 / 1000000000)\<bar> \<le> 5002 / 1000000000" by simp
  have t16: "515298913675 / 1000000000 \<le> 10675 * sin (4 * (d * DEG2RAD) - mp * DEG2RAD)"
    "10675 * sin (4 * (d * DEG2RAD) - mp * DEG2RAD) \<le> 515405706375 / 1000000000"
    using s16 unfolding abs_le_iff by simp_all
  have "\<bar>sin (3 * (mp * DEG2RAD)) - (if even (5 :: int) then - (396363272 / 1000000000) else - (- (396363272 / 1000000000)))\<bar>
          \<le> 1 / 1000000000 + 1 / 1000000000 + 5 / 1000000"
    by (rule sin_turn_near [where ?x0.0 = "- (407552270 / 1000000000)"])
      (use pi_bounds in \<open>simp_all add: d_def m_def mp_def f_def DEG2RAD_def sin_poly_def power_divide\<close>)
  then have s17: "\<bar>sin (3 * (mp * DEG2RAD)) - (396363272 / 1000000000)\<bar> \<le> 5002 / 1000000000" by simp
  have t17: "3977058881180 / 1000000000 \<le> 10034 * sin (3 * (mp * DEG2RAD))"
    "10034 * sin (3 * (mp * DEG2RAD)) \<le> 3977159261316 / 1000000000"
    using s17 unfolding abs_le_iff by simp_all
  have "\<bar>sin (4 * (d * DEG2RAD) - 2 * (mp * DEG2RAD)) - (if even (3 :: int) then 906429968 / 1000000000 else - (906429968 / 1000000000))\<bar>
          \<le> 1 / 1000000000 + 1 / 1000000000 + 5 / 1000000"
    by (rule sin_turn_near [where ?x0.0 = "1134752973 / 1000000000"])
      (use pi_bounds in \<open>simp_all add: d_def m_def mp_def f_def DEG2RAD_def sin_poly_def power_divide\<close>)
  then have s18: "\<bar>sin (4 * (d * DEG2RAD) - 2 * (mp * DEG2RAD)) - (- (906429968 / 1000000000))\<bar> \<le> 5002 / 1000000000" by simp
  have t18: "- (7748206123560 / 1000000000) \<le> 8548 * sin (4 * (d * DEG2RAD) - 2 * (mp * DEG2RAD))"
    "8548 * sin (4 * (d * DEG2RAD) - 2 * (mp * DEG2RAD)) \<le> - (7748120609368 / 1000000000)"
    using s18 unfolding abs_le_iff by simp_all
  have "\<bar>sin (2 * (d * DEG2RAD) + m * DEG2RAD - mp * DEG2RAD) - (if even (3 :: int) then 493639388 / 1000000000 else - (493639388 / 1000000000))\<bar>
          \<le> 1 / 1000000000 + 1 / 1000000000 + 5 / 1000000"
    by (rule sin_turn_near [where ?x0.0 = "516269615 / 1000000000"])
      (use pi_bounds in \<open>simp_all add: d_def m_def mp_def f_def DEG2RAD_def sin_poly_def power_divide\<close>)
  then have s19: "\<bar>sin (2 * (d * DEG2RAD) + m * DEG2RAD - mp * DEG2RAD) - (- (493639388 / 1000000000))\<bar> \<le> 5002 / 1000000000" by simp
  have t19: "3893788036768 / 1000000000 \<le> - 7888 * sin (2 * (d * DEG2RAD) + m * DEG2RAD - mp * DEG2RAD)"
    "- 7888 * sin (2 * (d * DEG2RAD) + m * DEG2RAD - mp * DEG2RAD) \<le> 3893866948320 / 1000000000"
    using s19 unfolding abs_le_iff by simp_all
  have "\<bar>sin (2 * (d * DEG2RAD) + m * DEG2RAD) - (if even (5 :: int) then - (618457840 / 1000000000) else - (- (618457840 / 1000000000)))\<bar>
          \<le> 1 / 1000000000 + 1 / 1000000000 + 5 / 1000000"
    by (rule sin_turn_near [where ?x0.0 = "- (666778693 / 1000000000)"])
      (use pi_bounds in \<open>simp_all add: d_def m_def mp_def f_def DEG2RAD_def sin_poly_def power_divide\<close>)
  then have s20: "\<bar>sin (2 * (d * DEG2RAD) + m * DEG2RAD) - (618457840 / 1000000000)\<bar> \<le> 5002 / 1000000000" by simp
  have t20: "- (4184519588972 / 1000000000) \<le> - 6766 * sin (2 * (d * DEG2RAD) + m * DEG2RAD)"
    "- 6766 * sin (2 * (d * DEG2RAD) + m * DEG2RAD) \<le> - (4184451901908 / 1000000000)"
    using s20 unfolding abs_le_iff by simp_all
  have "\<bar>sin (d * DEG2RAD - mp * DEG2RAD) - (if even (0 :: int) then 89693533 / 1000000000 else - (89693533 / 1000000000))\<bar>
          \<le> 1 / 1000000000 + 1 / 1000000000 + 5 / 1000000"
    by (rule sin_turn_near [where ?x0.0 = "89814234 / 1000000000"])
      (use pi_bounds in \<open>simp_all add: d_def m_def mp_def f_def DEG2RAD_def sin_poly_def power_divide\<close>)
  then have s21: "\<bar>sin (d * DEG2RAD - mp * DEG2RAD) - (89693533 / 1000000000)\<bar> \<le> 5002 / 1000000000" by simp
  have t21: "- (463113536205 / 1000000000) \<le> - 5163 * sin (d * DEG2RAD - mp * DEG2RAD)"
    "- 5163 * sin (d * DEG2RAD - mp * DEG2RAD) \<le> - (463061885553 / 1000000000)"
    using s21 unfolding abs_le_iff by simp_all
  have "\<bar>sin (d * DEG2RAD + m * DEG2RAD) - (if even (3 :: int) then 413646253 / 1000000000 else - (413646253 / 1000000000))\<bar>
          \<le> 1 / 1000000000 + 1 / 1000000000 + 5 / 1000000"
    by (rule sin_turn_near [where ?x0.0 = "426455381 / 1000000000"])
      (use pi_bounds in \<open>simp_all add: d_def m_def mp_def f_def DEG2RAD_def sin_poly_def power_divide\<close>)
  then have s22: "\<bar>sin (d * DEG2RAD + m * DEG2RAD) - (- (413646253 / 1000000000))\<bar> \<le> 5002 / 1000000000" by simp
  have t22: "- (2062878808685 / 1000000000) \<le> 4987 * sin (d * DEG2RAD + m * DEG2RAD)"
    "4987 * sin (d * DEG2RAD + m * DEG2RAD) \<le> - (2062828918737 / 1000000000)"
    using s22 unfolding abs_le_iff by simp_all
  have "\<bar>sin (2 * (d * DEG2RAD) - m * DEG2RAD + mp * DEG2RAD) - (if even (3 :: int) then 984409527 / 1000000000 else - (984409527 / 1000000000))\<bar>
          \<le> 1 / 1000000000 + 1 / 1000000000 + 5 / 1000000"
    by (rule sin_turn_near [where ?x0.0 = "1393979396 / 1000000000"])
      (use pi_bounds in \<open>simp_all add: d_def m_def mp_def f_def DEG2RAD_def sin_poly_def power_divide\<close>)
  then have s23: "\<bar>sin (2 * (d * DEG2RAD) - m * DEG2RAD + mp * DEG2RAD) - (- (984409527 / 1000000000))\<bar> \<le> 5002 / 1000000000" by simp
  have t23: "- (3973097039044 / 1000000000) \<le> 4036 * sin (2 * (d * DEG2RAD) - m * DEG2RAD + mp * DEG2RAD)"
    "4036 * sin (2 * (d * DEG2RAD) - m * DEG2RAD + mp * DEG2RAD) \<le> - (3973056662900 / 1000000000)"
    using s23 unfolding abs_le_iff by simp_all
  have eq: "moon_longitude 2452549 = norm_deg (lp + (0
            + 6288774 * sin (mp * DEG2RAD)
            + 1274027 * sin (2 * (d * DEG2RAD) - mp * DEG2RAD)
            + 658314 * sin (2 * (d * DEG2RAD))
            + 213618 * sin (2 * (mp * DEG2RAD))
            + - 185116 * sin (m * DEG2RAD)
            + - 114332 * sin (2 * (f * DEG2RAD))
            + 58793 * sin (2 * (d * DEG2RAD) - 2 * (mp * DEG2RAD))
            + 57066 * sin (2 * (d * DEG2RAD) - m * DEG2RAD - mp * DEG2RAD)
            + 53322 * sin (2 * (d * DEG2RAD) + mp * DEG2RAD)
            + 45758 * sin (2 * (d * DEG2RAD) - m * DEG2RAD)
            + - 40923 * sin (m * DEG2RAD - mp * DEG2RAD)
            + - 34720 * sin (d * DEG2RAD)
            + - 30383 * sin (m * DEG2RAD + mp * DEG2RAD)
            + 15327 * sin (2 * (d * DEG2RAD) - 2 * (f * DEG2RAD))
            + - 12528 * sin (mp * DEG2RAD + 2 * (f * DEG2RAD))
            + 10980 * sin (mp * DEG2RAD - 2 * (f * DEG2RAD))
            + 10675 * sin (4 * (d * DEG2RAD) - mp * DEG2RAD)
            + 10034 * sin (3 * (mp * DEG2RAD))
            + 8548 * sin (4 * (d * DEG2RAD) - 2 * (mp * DEG2RAD))
            + - 7888 * sin (2 * (d * DEG2RAD) + m * DEG2RAD - mp * DEG2RAD)
            + - 6766 * sin (2 * (d * DEG2RAD) + m * DEG2RAD)
            + - 5163 * sin (d * DEG2RAD - mp * DEG2RAD)
            + 4987 * sin (d * DEG2RAD + m * DEG2RAD)
            + 4036 * sin (2 * (d * DEG2RAD) - m * DEG2RAD + mp * DEG2RAD)) / 1000000)"
    by (rule moon_longitude_series [OF T v_lp v_d v_m v_mp v_f])
  have lo: "0
            + (- (5821946049159474 / 1000000000))
            + (- (1074410966672572 / 1000000000))
            + (- (537441404897124 / 1000000000))
            + (- (149548701029514 / 1000000000))
            + (184873829582756 / 1000000000)
            + (- (106681780515428 / 1000000000))
            + (10503900350790 / 1000000000)
            + (33086588831514 / 1000000000)
            + (12048132987576 / 1000000000)
            + (- (24482970228382 / 1000000000))
            + (17388106746912 / 1000000000)
            + (30835285130720 / 1000000000)
            + (10035919354503 / 1000000000)
            + (12759421757004 / 1000000000)
            + (- (8591325319728 / 1000000000))
            + (- (217904896620 / 1000000000))
            + (515298913675 / 1000000000)
            + (3977058881180 / 1000000000)
            + (- (7748206123560 / 1000000000))
            + (3893788036768 / 1000000000)
            + (- (4184519588972 / 1000000000))
            + (- (463113536205 / 1000000000))
            + (- (2062878808685 / 1000000000))
            + (- (3973097039044 / 1000000000)) \<le> 0
            + 6288774 * sin (mp * DEG2RAD)
            + 1274027 * sin (2 * (d * DEG2RAD) - mp * DEG2RAD)
            + 658314 * sin (2 * (d * DEG2RAD))
            + 213618 * sin (2 * (mp * DEG2RAD))
            + - 185116 * sin (m * DEG2RAD)
            + - 114332 * sin (2 * (f * DEG2RAD))
            + 58793 * sin (2 * (d * DEG2RAD) - 2 * (mp * DEG2RAD))
            + 57066 * sin (2 * (d * DEG2RAD) - m * DEG2RAD - mp * DEG2RAD)
            + 53322 * sin (2 * (d * DEG2RAD) + mp * DEG2RAD)
            + 45758 * sin (2 * (d * DEG2RAD) - m * DEG2RAD)
            + - 40923 * sin (m * DEG2RAD - mp * DEG2RAD)
            + - 34720 * sin (d * DEG2RAD)
            + - 30383 * sin (m * DEG2RAD + mp * DEG2RAD)
            + 15327 * sin (2 * (d * DEG2RAD) - 2 * (f * DEG2RAD))
            + - 12528 * sin (mp * DEG2RAD + 2 * (f * DEG2RAD))
            + 10980 * sin (mp * DEG2RAD - 2 * (f * DEG2RAD))
            + 10675 * sin (4 * (d * DEG2RAD) - mp * DEG2RAD)
            + 10034 * sin (3 * (mp * DEG2RAD))
            + 8548 * sin (4 * (d * DEG2RAD) - 2 * (mp * DEG2RAD))
            + - 7888 * sin (2 * (d * DEG2RAD) + m * DEG2RAD - mp * DEG2RAD)
            + - 6766 * sin (2 * (d * DEG2RAD) + m * DEG2RAD)
            + - 5163 * sin (d * DEG2RAD - mp * DEG2RAD)
            + 4987 * sin (d * DEG2RAD + m * DEG2RAD)
            + 4036 * sin (2 * (d * DEG2RAD) - m * DEG2RAD + mp * DEG2RAD)"
    by (intro add_mono order_refl t0(1) t1(1) t2(1) t3(1) t4(1) t5(1) t6(1) t7(1) t8(1) t9(1) t10(1) t11(1) t12(1) t13(1) t14(1) t15(1) t16(1) t17(1) t18(1) t19(1) t20(1) t21(1) t22(1) t23(1))
  have hi: "0
            + 6288774 * sin (mp * DEG2RAD)
            + 1274027 * sin (2 * (d * DEG2RAD) - mp * DEG2RAD)
            + 658314 * sin (2 * (d * DEG2RAD))
            + 213618 * sin (2 * (mp * DEG2RAD))
            + - 185116 * sin (m * DEG2RAD)
            + - 114332 * sin (2 * (f * DEG2RAD))
            + 58793 * sin (2 * (d * DEG2RAD) - 2 * (mp * DEG2RAD))
            + 57066 * sin (2 * (d * DEG2RAD) - m * DEG2RAD - mp * DEG2RAD)
            + 53322 * sin (2 * (d * DEG2RAD) + mp * DEG2RAD)
            + 45758 * sin (2 * (d * DEG2RAD) - m * DEG2RAD)
            + - 40923 * sin (m * DEG2RAD - mp * DEG2RAD)
            + - 34720 * sin (d * DEG2RAD)
            + - 30383 * sin (m * DEG2RAD + mp * DEG2RAD)
            + 15327 * sin (2 * (d * DEG2RAD) - 2 * (f * DEG2RAD))
            + - 12528 * sin (mp * DEG2RAD + 2 * (f * DEG2RAD))
            + 10980 * sin (mp * DEG2RAD - 2 * (f * DEG2RAD))
            + 10675 * sin (4 * (d * DEG2RAD) - mp * DEG2RAD)
            + 10034 * sin (3 * (mp * DEG2RAD))
            + 8548 * sin (4 * (d * DEG2RAD) - 2 * (mp * DEG2RAD))
            + - 7888 * sin (2 * (d * DEG2RAD) + m * DEG2RAD - mp * DEG2RAD)
            + - 6766 * sin (2 * (d * DEG2RAD) + m * DEG2RAD)
            + - 5163 * sin (d * DEG2RAD - mp * DEG2RAD)
            + 4987 * sin (d * DEG2RAD + m * DEG2RAD)
            + 4036 * sin (2 * (d * DEG2RAD) - m * DEG2RAD + mp * DEG2RAD) \<le> 0
            + (- (5821883136264378 / 1000000000))
            + (- (1074398221306464 / 1000000000))
            + (- (537434819123868 / 1000000000))
            + (- (149546563995042 / 1000000000))
            + (184875681483220 / 1000000000)
            + (- (106680636738100 / 1000000000))
            + (10504488515962 / 1000000000)
            + (33087159719778 / 1000000000)
            + (12048666420864 / 1000000000)
            + (- (24482512465350 / 1000000000))
            + (17388516140604 / 1000000000)
            + (30835632469600 / 1000000000)
            + (10036223306035 / 1000000000)
            + (12759575088312 / 1000000000)
            + (- (8591199989616 / 1000000000))
            + (- (217795052700 / 1000000000))
            + (515405706375 / 1000000000)
            + (3977159261316 / 1000000000)
            + (- (7748120609368 / 1000000000))
            + (3893866948320 / 1000000000)
            + (- (4184451901908 / 1000000000))
            + (- (463061885553 / 1000000000))
            + (- (2062828918737 / 1000000000))
            + (- (3973056662900 / 1000000000))"
    by (intro add_mono order_refl t0(2) t1(2) t2(2) t3(2) t4(2) t5(2) t6(2) t7(2) t8(2) t9(2) t10(2) t11(2) t12(2) t13(2) t14(2) t15(2) t16(2) t17(2) t18(2) t19(2) t20(2) t21(2) t22(2) t23(2))
  define S where "S = 0
            + 6288774 * sin (mp * DEG2RAD)
            + 1274027 * sin (2 * (d * DEG2RAD) - mp * DEG2RAD)
            + 658314 * sin (2 * (d * DEG2RAD))
            + 213618 * sin (2 * (mp * DEG2RAD))
            + - 185116 * sin (m * DEG2RAD)
            + - 114332 * sin (2 * (f * DEG2RAD))
            + 58793 * sin (2 * (d * DEG2RAD) - 2 * (mp * DEG2RAD))
            + 57066 * sin (2 * (d * DEG2RAD) - m * DEG2RAD - mp * DEG2RAD)
            + 53322 * sin (2 * (d * DEG2RAD) + mp * DEG2RAD)
            + 45758 * sin (2 * (d * DEG2RAD) - m * DEG2RAD)
            + - 40923 * sin (m * DEG2RAD - mp * DEG2RAD)
            + - 34720 * sin (d * DEG2RAD)
            + - 30383 * sin (m * DEG2RAD + mp * DEG2RAD)
            + 15327 * sin (2 * (d * DEG2RAD) - 2 * (f * DEG2RAD))
            + - 12528 * sin (mp * DEG2RAD + 2 * (f * DEG2RAD))
            + 10980 * sin (mp * DEG2RAD - 2 * (f * DEG2RAD))
            + 10675 * sin (4 * (d * DEG2RAD) - mp * DEG2RAD)
            + 10034 * sin (3 * (mp * DEG2RAD))
            + 8548 * sin (4 * (d * DEG2RAD) - 2 * (mp * DEG2RAD))
            + - 7888 * sin (2 * (d * DEG2RAD) + m * DEG2RAD - mp * DEG2RAD)
            + - 6766 * sin (2 * (d * DEG2RAD) + m * DEG2RAD)
            + - 5163 * sin (d * DEG2RAD - mp * DEG2RAD)
            + 4987 * sin (d * DEG2RAD + m * DEG2RAD)
            + 4036 * sin (2 * (d * DEG2RAD) - m * DEG2RAD + mp * DEG2RAD)"
  have "- (7421835587241910 / 1000000000) \<le> S" using lo unfolding S_def by simp
  moreover have "S \<le> - (7421744029853598 / 1000000000)" using hi unfolding S_def by simp
  ultimately have b: "119996 / 1000 \<le> lp + S / 1000000" "lp + S / 1000000 < 119998 / 1000"
    unfolding lp_def by simp_all
  have "moon_longitude 2452549 = lp + S / 1000000"
    unfolding eq S_def [symmetric] by (rule norm_deg_id) (use b in simp_all)
  then show "119996 / 1000 \<le> moon_longitude 2452549" "moon_longitude 2452549 < 119998 / 1000"
    using b by simp_all
qed

lemma october_2002_julian_day: "birth_julian_day october_2002_birth = 2452549"
  by (simp add: birth_julian_day_def october_2002_birth_def to_julian_day_def py_int_def Let_def)

lemma october_2002_chart_returns:
  "\<exists>ch. calculate_natal_chart definitions october_2002_birth = Inr ch"
  by (rule calculate_natal_chart_returns)
    (simp add: october_2002_julian_day julian_centuries_def J2000_def)

lemma chart_moon:
  assumes ok: "calculate_natal_chart definitions bd = Inr ch"
  shows "\<exists>asc. build_position ''moon'' (moon_longitude (birth_julian_day bd))
                 (equal_house_cusps asc) False = Inr (moon ch)"
  using ok
  unfolding calculate_natal_chart_def Let_def
  apply (simp only: bind_res_eq_Inr)
  apply (elim exE conjE)
  apply (simp only: sum.inject)
  apply hypsubst
  apply (simp only: NatalChart.simps)
  apply blast
  done

lemma py_round_upper_half:
  assumes "of_int n + 1 / 2 \<le> x" "x < of_int n + 1" "odd n"
  shows "py_round x = n + 1"
proof -
  have f: "\<lfloor>x\<rfloor> = n" using assms(1,2) by linarith
  show ?thesis unfolding py_round_def Let_def f using assms by auto
qed

lemma rounded_to_next_sign:
  assumes lo: "119995 / 1000 \<le> lon" and hi: "lon < 120"
    and p: "build_position name lon (equal_house_cusps asc) retro = Inr p"
  shows "totalDegrees p = 120 \<and> degrees p = 30 \<and> sign p = ''cancer''"
proof -
  have r: "0 \<le> lon" "lon < 360" using lo hi by simp_all
  have fl: "\<lfloor>lon / 30\<rfloor> = 3" using lo hi by linarith
  have "py_round (lon * 100 - 9000) = 2999 + 1"
    by (rule py_round_upper_half) (use lo hi in simp_all)
  then have a: "py_round (lon * 100 - 9000) = 3000" by simp
  have "py_round (lon * 100) = 11999 + 1"
    by (rule py_round_upper_half) (use lo hi in simp_all)
  then have b: "py_round (lon * 100) = 12000" by simp
  show ?thesis
    using p unfolding build_position_returns [OF r] fl
    by (auto simp: SIGN_ORDER_def a b)
qed

text \<open>
  C6: a birth record whose optional fields are absent gives exactly the chart of the record
  with day 1, hour 12, minute 0, latitude 0, longitude 0 and time zone 0 (lemma
  \<open>default_fields_explicit\<close>, for every year and month), but that chart does not always satisfy
  the invariants of a stored position. For \<open>BirthData(year=2002, month=10)\<close> (1 October 2002,
  12:00 UT, Julian Day 2452549) the Moon's longitude lies between 119.996 and 119.998; the
  position is stored with the sign of the unrounded longitude, \<open>cancer\<close>, and with the rounded
  fields \<open>degrees = 30.0\<close> and \<open>totalDegrees = 120.0\<close>, so that \<open>degrees < 30\<close>,
  \<open>sign = SIGN_ORDER[floor(totalDegrees / 30)]\<close> and
  \<open>degrees = totalDegrees - 30 floor(totalDegrees / 30)\<close> all fail.
\<close>

theorem default_fields_chart_breaks_invariant:
  "\<exists>ch. calculate_natal_chart definitions october_2002_birth = Inr ch
      \<and> calculate_natal_chart definitions
           \<lparr>year = 2002, month = 10, day = Some 1, hour = Some 12, minute = Some 0,
            latitude = Some 0, longitude = Some 0, timezone = Some 0\<rparr> = Inr ch
      \<and> sign (moon ch) = ''cancer'' \<and> degrees (moon ch) = 30 \<and> totalDegrees (moon ch) = 120
      \<and> \<not> stored_position_invariant (moon ch)"
proof -
  obtain ch where ch: "calculate_natal_chart definitions october_2002_birth = Inr ch"
    using october_2002_chart_returns by blast
  obtain asc where "build_position ''moon'' (moon_longitude 2452549)
                      (equal_house_cusps asc) False = Inr (moon ch)"
    using chart_moon [OF ch] unfolding october_2002_julian_day by blast
  then have s: "totalDegrees (moon ch) = 120 \<and> degrees (moon ch) = 30 \<and> sign (moon ch) = ''cancer''"
    by (rule rounded_to_next_sign [rotated 2]) (use moon_2002_10 in simp_all)
  then have "\<not> stored_position_invariant (moon ch)"
    unfolding stored_position_invariant_def by simp
  moreover have "calculate_natal_chart definitions
           \<lparr>year = 2002, month = 10, day = Some 1, hour = Some 12, minute = Some 0,
            latitude = Some 0, longitude = Some 0, timezone = Some 0\<rparr> = Inr ch"
    using ch unfolding october_2002_birth_def default_fields_explicit .
  ultimately show ?thesis using ch s by blast
qed

end
